(* ===== verification/Prelude.thy ===== *)
theory Prelude
  imports Main "HOL-Library.Multiset"
begin

text \<open>
  Shared vocabulary of the development of \<^verbatim>\<open>src/app/main.py\<close>: the Python
  values the program passes around (strings, microsecond timestamps, the
  \<^verbatim>\<open>HTTPException\<close> the handlers raise), the few Python string operations
  the code uses (\<^verbatim>\<open>sep.join\<close>, \<^verbatim>\<open>a or b\<close>, slicing, the IMAP substring
  match) and the list lemmas the component theories share.
\<close>

named_theorems model_simps \<open>evaluation equations of the model, for simp add: model_simps\<close>

type_synonym usec = int \<comment> \<open>a Python int number of microseconds\<close>

subsection \<open>Exceptions raised towards the HTTP layer\<close>

text \<open>
  FastAPI turns \<^verbatim>\<open>HTTPException(status_code, detail)\<close> into a response.
  The code builds two kinds of detail: the dictionary of
  \<^verbatim>\<open>extract_emails_from_inbox\<close> (\<^verbatim>\<open>message\<close>, \<^verbatim>\<open>error\<close>, \<^verbatim>\<open>email\<close>) and
  the plain \<^verbatim>\<open>str(e)\<close> of the two endpoints.
\<close>

datatype http_detail =
    DetailFetch string string string \<comment> \<open>message, error, email\<close>
  | DetailText string

datatype http_exception = HTTPException nat http_detail

subsection \<open>Log records\<close>

text \<open>
  A record the module's \<^verbatim>\<open>logger\<close> emits. \<^verbatim>\<open>logging.basicConfig(level=logging.INFO)\<close>
  (line 18) drops \<^verbatim>\<open>logger.debug\<close>, so only three levels reach the log.
\<close>

datatype log_line = LogInfo string | LogWarning string | LogError string

subsection \<open>Python string operations\<close>

text \<open>\<^verbatim>\<open>sep.join(xs)\<close>.\<close>

fun py_join :: "string \<Rightarrow> string list \<Rightarrow> string" where
  "py_join sep [] = []"
| "py_join sep [x] = x"
| "py_join sep (x # y # ys) = x @ sep @ py_join sep (y # ys)"

text \<open>\<^verbatim>\<open>a or b\<close> on strings: \<^verbatim>\<open>a\<close> unless it is the empty (falsy) string.\<close>

definition py_or :: "string \<Rightarrow> string \<Rightarrow> string" where
  "py_or a b = (if a = [] then b else a)"

text \<open>ASCII lower-casing, as IMAP servers compare search keys.\<close>

definition lower :: "string \<Rightarrow> string" where
  "lower s = map (\<lambda>c. let n = (of_char c :: nat) in if 65 \<le> n \<and> n \<le> 90 then char_of (n + 32) else c) s"

fun starts_with :: "string \<Rightarrow> string \<Rightarrow> bool" where
  "starts_with [] ys = True"
| "starts_with (x # xs) [] = False"
| "starts_with (x # xs) (y # ys) = (x = y \<and> starts_with xs ys)"

fun contains :: "string \<Rightarrow> string \<Rightarrow> bool" where
  "contains needle [] = (needle = [])"
| "contains needle (y # ys) = (starts_with needle (y # ys) \<or> contains needle ys)"

text \<open>
  Decimal rendering of a non-negative Python int, as \<^verbatim>\<open>str(n)\<close> and
  \<^verbatim>\<open>'%0*d'\<close> print it. The arithmetic stays in \<open>int\<close>, as in Python.
\<close>

function dec :: "int \<Rightarrow> string" where
  "dec n = (if n < 10 then [char_of (48 + n)] else dec (n div 10) @ [char_of (48 + n mod 10)])"
  by pat_completeness auto
termination
  by (relation "measure (\<lambda>n. nat n)") auto

declare dec.simps [simp del]

definition zpad :: "nat \<Rightarrow> int \<Rightarrow> string" where
  "zpad w n = replicate (w - length (dec n)) (CHR ''0'') @ dec n"

subsection \<open>Rendering an exception\<close>

text \<open>
  Python's \<^verbatim>\<open>repr\<close> of a string, as \<^verbatim>\<open>str(dict)\<close> prints keys and
  values: single quotes, or double quotes when the string holds a single quote
  and no double quote; the backslash, the chosen quote and the three common
  control characters are escaped. (Other non-printable characters, which
  \<^verbatim>\<open>repr\<close> prints as \<^verbatim>\<open>\x..\<close>, are not escaped here.)
\<close>

definition py_repr_char :: "char \<Rightarrow> char \<Rightarrow> string" where
  "py_repr_char q c =
     (if c = q \<or> c = CHR 0x5C then [CHR 0x5C, c]
      else if c = CHR 0x0A then [CHR 0x5C, CHR ''n'']
      else if c = CHR 0x0D then [CHR 0x5C, CHR ''r'']
      else if c = CHR 0x09 then [CHR 0x5C, CHR ''t'']
      else [c])"

definition py_repr :: "string \<Rightarrow> string" where
  "py_repr s =
     (let q = (if CHR 0x27 \<in> set s \<and> CHR 0x22 \<notin> set s then CHR 0x22 else CHR 0x27)
      in q # concat (map (py_repr_char q) s) @ [q])"

text \<open>
  \<^verbatim>\<open>str(e)\<close> of an \<^verbatim>\<open>HTTPException\<close> (Starlette's \<^verbatim>\<open>__str__\<close>:
  \<^verbatim>\<open>f"{status_code}: {detail}"\<close>), with the dictionary detail printed by
  \<^verbatim>\<open>str(dict)\<close>.
\<close>

fun detail_str :: "http_detail \<Rightarrow> string" where
  "detail_str (DetailFetch m e a) =
     ''{'' @ py_repr ''message'' @ '': '' @ py_repr m @ '', '' @ py_repr ''error'' @ '': '' @ py_repr e
     @ '', '' @ py_repr ''email'' @ '': '' @ py_repr a @ ''}''"
| "detail_str (DetailText t) = t"

fun http_exception_str :: "http_exception \<Rightarrow> string" where
  "http_exception_str (HTTPException code d) = dec (int code) @ '': '' @ detail_str d"

subsection \<open>Shared lemmas\<close>

lemma py_or_cases [simp]:
  "py_or [] b = b"
  "a \<noteq> [] \<Longrightarrow> py_or a b = a"
  by (simp_all add: py_or_def)

lemma py_or_eq: "py_or a b = (if a \<noteq> [] then a else b)"
  by (simp add: py_or_def)

lemma starts_with_iff: "starts_with xs ys \<longleftrightarrow> (\<exists>zs. ys = xs @ zs)"
  by (induction xs ys rule: starts_with.induct) auto

lemma contains_iff: "contains xs ys \<longleftrightarrow> (\<exists>ps ss. ys = ps @ xs @ ss)"
proof (induction ys)
  case Nil
  then show ?case by simp
next
  case (Cons y ys)
  show ?case
  proof
    assume "contains xs (y # ys)"
    then consider "starts_with xs (y # ys)" | "contains xs ys" by auto
    then show "\<exists>ps ss. y # ys = ps @ xs @ ss"
    proof cases
      case 1
      then show ?thesis by (metis append_Nil starts_with_iff)
    next
      case 2
      with Cons.IH obtain ps ss where "ys = ps @ xs @ ss" by blast
      then have "y # ys = (y # ps) @ xs @ ss" by simp
      then show ?thesis by blast
    qed
  next
    assume "\<exists>ps ss. y # ys = ps @ xs @ ss"
    then obtain ps ss where eq: "y # ys = ps @ xs @ ss" by blast
    show "contains xs (y # ys)"
    proof (cases ps)
      case Nil
      with eq have "starts_with xs (y # ys)" by (simp add: starts_with_iff)
      then show ?thesis by simp
    next
      case (Cons p ps')
      with eq Cons.IH show ?thesis by auto
    qed
  qed
qed

lemma case_sum_map_eq:
  "map_sum id f x = map_sum id f y \<Longrightarrow>
     (case x of Inl e \<Rightarrow> F e | Inr v \<Rightarrow> G (f v)) = (case y of Inl e \<Rightarrow> F e | Inr v \<Rightarrow> G (f v))"
  by (cases x; cases y) auto

lemma div_by_bounds:
  fixes n d q :: int
  assumes "0 < d" "q * d \<le> n" "n < q * d + d"
  shows "n div d = q"
proof -
  have "n = q * d + (n - q * d)" by simp
  moreover have "(n - q * d) div d = 0" using assms by simp
  ultimately show ?thesis using assms(1)
    by (metis add_cancel_left_right div_mult_self3 less_irrefl)
qed

lemma div_bounds:
  fixes x d :: int
  assumes "0 < d"
  shows "d * (x div d) \<le> x \<and> x < d * (x div d) + d"
proof -
  have "x = d * (x div d) + x mod d" by simp
  moreover have "0 \<le> x mod d" "x mod d < d" using assms by simp_all
  ultimately show ?thesis by linarith
qed

end
