(* ===== verification/DateTime.thy ===== *)
theory DateTime
  imports Prelude
begin

text \<open>
  The part of Python's \<^verbatim>\<open>datetime\<close> and \<^verbatim>\<open>pytz\<close> that
  \<^verbatim>\<open>extract_emails_from_inbox\<close> relies on (\<^verbatim>\<open>src/app/main.py\<close>, lines
  111--142): \<^verbatim>\<open>datetime.now(pytz.UTC)\<close>, subtraction of
  \<^verbatim>\<open>timedelta(days=1)\<close>, \<^verbatim>\<open>.date()\<close>, \<^verbatim>\<open>.replace(tzinfo=utc)\<close>, the
  comparison \<^verbatim>\<open>>=\<close>; \<^verbatim>\<open>.isoformat()\<close> and its calendar are in theory
  \<open>Calendar\<close>. The library is not code of
  the repository; it is modelled from the Python documentation. A datetime is
  its wall-clock reading, counted in microseconds from 1970-01-01T00:00 of that
  clock, and its \<^verbatim>\<open>tzinfo\<close>: \<open>None\<close> for a naive datetime, \<open>Some off\<close> for a
  fixed UTC offset of \<open>off\<close> microseconds east of Greenwich.
\<close>

record datetime =
  dt_wall :: usec
  dt_tz :: "usec option"

definition day_us :: usec where
  "day_us = 86400 * 1000000"

text \<open>\<^verbatim>\<open>timedelta(days=n)\<close>, in microseconds.\<close>

definition timedelta_days :: "int \<Rightarrow> usec" where
  "timedelta_days n = n * day_us"

text \<open>\<^verbatim>\<open>datetime.now(pytz.UTC)\<close> when the system clock reads \<open>t\<close>.\<close>

definition now_utc :: "usec \<Rightarrow> datetime" where
  "now_utc t = \<lparr>dt_wall = t, dt_tz = Some 0\<rparr>"

text \<open>\<^verbatim>\<open>d - delta\<close>: the wall clock moves, the tzinfo is kept.\<close>

definition dt_sub :: "datetime \<Rightarrow> usec \<Rightarrow> datetime" where
  "dt_sub d delta = d\<lparr>dt_wall := dt_wall d - delta\<rparr>"

text \<open>
  \<^verbatim>\<open>d.replace(tzinfo=tz)\<close>: only the tzinfo field changes; the wall clock is
  not converted.
\<close>

definition replace_tzinfo :: "datetime \<Rightarrow> usec option \<Rightarrow> datetime" where
  "replace_tzinfo d tz = d\<lparr>dt_tz := tz\<rparr>"

text \<open>The instant an aware datetime denotes, in microseconds since the epoch.\<close>

definition utc_instant :: "datetime \<Rightarrow> usec" where
  "utc_instant d = dt_wall d - (case dt_tz d of None \<Rightarrow> 0 | Some off \<Rightarrow> off)"

text \<open>
  \<^verbatim>\<open>a >= b\<close>: two aware datetimes compare their instants, two naive ones their
  wall clocks, and a naive one against an aware one raises \<^verbatim>\<open>TypeError\<close>.
\<close>

definition dt_ge :: "datetime \<Rightarrow> datetime \<Rightarrow> string + bool" where
  "dt_ge a b =
     (case (dt_tz a, dt_tz b) of
        (Some _, Some _) \<Rightarrow> Inr (utc_instant b \<le> utc_instant a)
      | (None, None) \<Rightarrow> Inr (dt_wall b \<le> dt_wall a)
      | _ \<Rightarrow> Inl ''can't compare offset-naive and offset-aware datetimes'')"

text \<open>\<^verbatim>\<open>d.date()\<close>: the calendar day of the wall clock, as a day number.\<close>

definition dt_date :: "datetime \<Rightarrow> int" where
  "dt_date d = dt_wall d div day_us"

subsection \<open>Lemmas\<close>

lemma utc_instant_simps [simp]:
  "utc_instant (now_utc t) = t"
  "dt_tz (now_utc t) = Some 0"
  "dt_wall (now_utc t) = t"
  "dt_tz (dt_sub d delta) = dt_tz d"
  "utc_instant (dt_sub d delta) = utc_instant d - delta"
  "dt_tz (replace_tzinfo d tz) = tz"
  "dt_wall (replace_tzinfo d tz) = dt_wall d"
  by (simp_all add: now_utc_def dt_sub_def utc_instant_def replace_tzinfo_def)

lemma utc_instant_replace_utc [simp]: "utc_instant (replace_tzinfo d (Some 0)) = dt_wall d"
  by (simp add: utc_instant_def)

text \<open>Comparing two aware datetimes never raises and compares their instants.\<close>

lemma dt_ge_aware:
  "dt_tz a \<noteq> None \<Longrightarrow> dt_tz b \<noteq> None \<Longrightarrow> dt_ge a b = Inr (utc_instant b \<le> utc_instant a)"
  by (auto simp: dt_ge_def)

lemma dt_date_mono: "dt_wall b \<le> dt_wall a \<Longrightarrow> dt_date b \<le> dt_date a"
  by (simp add: dt_date_def zdiv_mono1 day_us_def)

lemma day_us_pos [simp]: "0 < day_us"
  by (simp add: day_us_def)

end
