(* ===== verification/Calendar.thy ===== *)
theory Calendar
  imports DateTime
begin

text \<open>
  The proleptic Gregorian calendar behind \<^verbatim>\<open>datetime.isoformat()\<close>
  (\<^verbatim>\<open>src/app/main.py\<close>, line 140) and behind the database reading the stored
  string back (\<^verbatim>\<open>timestamp with time zone\<close>, line 59). Day numbers count from
  1970-01-01. \<open>civil_from_days\<close> is the conversion \<^verbatim>\<open>datetime\<close> performs
  to print a date, \<open>days_from_civil\<close> the conversion a reader of the printed
  date performs; both are the era-based algorithms (400-year eras of 146097
  days, years starting on 1 March). The round trip proves that what the code
  prints denotes the instant it holds.
\<close>

definition civil_from_days :: "int \<Rightarrow> int \<times> int \<times> int" where
  "civil_from_days days =
    (let z = days + 719468;
         era = z div 146097;
         doe = z - era * 146097;
         yoe = (doe - doe div 1460 + doe div 36524 - doe div 146096) div 365;
         y = yoe + era * 400;
         doy = doe - (365 * yoe + yoe div 4 - yoe div 100);
         mp = (5 * doy + 2) div 153;
         d = doy - (153 * mp + 2) div 5 + 1;
         m = (if mp < 10 then mp + 3 else mp - 9)
     in (if m \<le> 2 then y + 1 else y, m, d))"

definition days_from_civil :: "int \<Rightarrow> int \<Rightarrow> int \<Rightarrow> int" where
  "days_from_civil y m d =
    (let y' = (if m \<le> 2 then y - 1 else y);
         era = y' div 400;
         yoe = y' - era * 400;
         mp = (if 2 < m then m - 3 else m + 9);
         doy = (153 * mp + 2) div 5 + d - 1;
         doe = yoe * 365 + yoe div 4 - yoe div 100 + doy
     in era * 146097 + doe - 719468)"

text \<open>The fields \<^verbatim>\<open>isoformat\<close> prints: date and time of day of the wall clock.\<close>

record civil_time =
  ct_year :: int
  ct_month :: int
  ct_day :: int
  ct_hour :: int
  ct_minute :: int
  ct_second :: int
  ct_micro :: int

definition iso_fields :: "datetime \<Rightarrow> civil_time" where
  "iso_fields dt =
    (let w = dt_wall dt;
         (y, mo, da) = civil_from_days (w div day_us);
         r = w mod day_us;
         s = r div 1000000
     in \<lparr>ct_year = y, ct_month = mo, ct_day = da, ct_hour = s div 3600,
         ct_minute = s mod 3600 div 60, ct_second = s mod 60, ct_micro = r mod 1000000\<rparr>)"

definition iso_offset :: "usec \<Rightarrow> string" where
  "iso_offset off =
    (let sign = (if off < 0 then CHR ''-'' else CHR ''+'');
         a = \<bar>off\<bar>;
         us = a mod 1000000; s = a div 1000000;
         hh = s div 3600; mm = s mod 3600 div 60; ss = s mod 60
     in sign # zpad 2 hh @ '':'' @ zpad 2 mm
        @ (if ss = 0 \<and> us = 0 then [] else '':'' @ zpad 2 ss)
        @ (if us = 0 then [] else ''.'' @ zpad 6 us))"

text \<open>
  \<^verbatim>\<open>d.isoformat()\<close>: \<^verbatim>\<open>YYYY-MM-DDTHH:MM:SS\<close>, then
  \<^verbatim>\<open>.ffffff\<close> when the microseconds are not zero, then the UTC offset of an
  aware datetime.
\<close>

definition isoformat :: "datetime \<Rightarrow> string" where
  "isoformat dt =
    (let f = iso_fields dt
     in zpad 4 (ct_year f) @ ''-'' @ zpad 2 (ct_month f) @ ''-'' @ zpad 2 (ct_day f)
        @ ''T'' @ zpad 2 (ct_hour f) @ '':'' @ zpad 2 (ct_minute f) @ '':'' @ zpad 2 (ct_second f)
        @ (if ct_micro f = 0 then [] else ''.'' @ zpad 6 (ct_micro f))
        @ (case dt_tz dt of None \<Rightarrow> [] | Some off \<Rightarrow> iso_offset off))"

text \<open>The wall-clock time a reader of the printed fields reconstructs.\<close>

definition wall_of_fields :: "civil_time \<Rightarrow> usec" where
  "wall_of_fields f =
     days_from_civil (ct_year f) (ct_month f) (ct_day f) * day_us
     + ((ct_hour f * 60 + ct_minute f) * 60 + ct_second f) * 1000000 + ct_micro f"

subsection \<open>Lemmas\<close>

text \<open>
  A day of an era decomposes into centuries \<open>c\<close>, four-year cycles \<open>b\<close>,
  years \<open>a\<close> and a day of the year \<open>doy\<close>; a year (from 1 March) has 366 days
  when the following February has a 29th.
\<close>

lemma doe_decomp:
  fixes doe :: int
  assumes "0 \<le> doe" "doe \<le> 146096"
  obtains c b a doy where "0 \<le> c" "c \<le> 3" "0 \<le> b" "b \<le> 24" "0 \<le> a" "a \<le> 3" "0 \<le> doy"
    "doy \<le> 364 + (if a = 3 \<and> (b \<noteq> 24 \<or> c = 3) then 1 else 0)"
    "doe = 36524 * c + 1461 * b + 365 * a + doy"
proof -
  define c where "c = min 3 (doe div 36524)"
  define r1 where "r1 = doe - 36524 * c"
  define b where "b = r1 div 1461"
  define r2 where "r2 = r1 - 1461 * b"
  define a where "a = min 3 (r2 div 365)"
  define doy where "doy = r2 - 365 * a"
  have q1: "36524 * (doe div 36524) \<le> doe" "doe < 36524 * (doe div 36524) + 36524"
    using div_bounds [of 36524 doe] by auto
  have c: "0 \<le> c" "c \<le> 3" using q1 assms by (auto simp: c_def)
  have r1: "0 \<le> r1" "r1 \<le> 36524" "r1 = 36524 \<Longrightarrow> c = 3"
    using q1 assms by (auto simp: r1_def c_def min_def split: if_splits)
  have q2: "1461 * b \<le> r1" "r1 < 1461 * b + 1461"
    using div_bounds [of 1461 r1] by (auto simp: b_def)
  have b: "0 \<le> b" "b \<le> 24" using q2 r1 by linarith+
  have r2: "0 \<le> r2" "r2 \<le> 1460" "r2 = 1460 \<Longrightarrow> b = 24 \<Longrightarrow> c = 3"
    using q2 r1 by (auto simp: r2_def)
  have q3: "365 * (r2 div 365) \<le> r2" "r2 < 365 * (r2 div 365) + 365"
    using div_bounds [of 365 r2] by auto
  have a: "0 \<le> a" "a \<le> 3" using q3 r2 by (auto simp: a_def)
  have doy: "0 \<le> doy" "doy \<le> 365" "doy = 365 \<Longrightarrow> a = 3 \<and> r2 = 1460"
    using q3 r2 by (auto simp: doy_def a_def min_def split: if_splits)
  have "doy \<le> 364 + (if a = 3 \<and> (b \<noteq> 24 \<or> c = 3) then 1 else 0)"
    using doy r2 by (cases "doy = 365") auto
  moreover have "doe = 36524 * c + 1461 * b + 365 * a + doy"
    by (simp add: doy_def r2_def r1_def)
  ultimately show ?thesis using that a b c doy(1) by blast
qed

lemma yoe_inv:
  fixes c b a doy :: int
  assumes c: "0 \<le> c" "c \<le> 3" and b: "0 \<le> b" "b \<le> 24" and a: "0 \<le> a" "a \<le> 3"
    and doy: "0 \<le> doy" "doy \<le> 364 + (if a = 3 \<and> (b \<noteq> 24 \<or> c = 3) then 1 else 0)"
  defines "n \<equiv> 36524 * c + 1461 * b + 365 * a + doy"
  shows "(n - n div 1460 + n div 36524 - n div 146096) div 365 = 100 * c + 4 * b + a"
proof -
  define e1 :: int where "e1 = (if 1460 \<le> 24 * c + b + 365 * a + doy then 1 else 0)"
  define e2 :: int where "e2 = (if n = 146096 then 1 else 0)"
  have small: "24 * c + b + 365 * a + doy < 2920" using c b a doy by (auto split: if_splits)
  have d1: "n div 1460 = 25 * c + b + e1"
    by (rule div_by_bounds) (use small c b a doy in \<open>auto simp: n_def e1_def\<close>)
  have top: "n \<le> 146096"
    using c b a doy by (auto simp: n_def split: if_splits)
  have d2: "n div 36524 = c + e2"
  proof (rule div_by_bounds)
    show "(c + e2) * 36524 \<le> n" using c b a doy top by (auto simp: n_def e2_def)
    show "n < (c + e2) * 36524 + 36524"
      using c b a doy top by (auto simp: n_def e2_def split: if_splits)
  qed simp
  have d3: "n div 146096 = e2"
    by (rule div_by_bounds) (use top c b a doy in \<open>auto simp: n_def e2_def\<close>)
  have e1_doy: "0 \<le> doy - e1 \<and> doy - e1 \<le> 364"
    using c b a doy by (auto simp: e1_def split: if_splits)
  have "n - n div 1460 + n div 36524 - n div 146096 = 365 * (100 * c + 4 * b + a) + (doy - e1)"
    unfolding d1 d2 d3 by (simp add: n_def algebra_simps)
  then show ?thesis
    using e1_doy by (auto intro: div_by_bounds)
qed

lemma yoe_divs:
  fixes c b a :: int
  assumes "0 \<le> c" "c \<le> 3" "0 \<le> b" "b \<le> 24" "0 \<le> a" "a \<le> 3"
  shows "(100 * c + 4 * b + a) div 4 = 25 * c + b" "(100 * c + 4 * b + a) div 100 = c"
  by (rule div_by_bounds; use assms in simp)+

text \<open>
  The steps of \<open>civil_from_days\<close> on a day number: the era, the day of the
  era, the year of the era and the day of the year, with their ranges.
\<close>

lemma civil_steps:
  fixes z :: int
  defines "era \<equiv> (z + 719468) div 146097"
  defines "doe \<equiv> z + 719468 - era * 146097"
  defines "yoe \<equiv> (doe - doe div 1460 + doe div 36524 - doe div 146096) div 365"
  defines "doy \<equiv> doe - (365 * yoe + yoe div 4 - yoe div 100)"
  shows "0 \<le> yoe \<and> yoe \<le> 399 \<and> 0 \<le> doy \<and> doy \<le> 365"
proof -
  have "0 \<le> doe" "doe \<le> 146096"
    using div_bounds [of 146097 "z + 719468"] by (auto simp: doe_def era_def)
  then obtain c b a d where cba: "0 \<le> c" "c \<le> 3" "0 \<le> b" "b \<le> 24" "0 \<le> a" "a \<le> 3" "0 \<le> d"
      "d \<le> 364 + (if a = 3 \<and> (b \<noteq> 24 \<or> c = 3) then 1 else 0)"
      and doe: "doe = 36524 * c + 1461 * b + 365 * a + d"
    by (rule doe_decomp)
  have y: "yoe = 100 * c + 4 * b + a"
    unfolding yoe_def doe by (rule yoe_inv [OF cba])
  have "doy = d"
    unfolding doy_def y yoe_divs [OF cba(1-6)] doe by simp
  with y cba show ?thesis by (auto split: if_splits)
qed

lemma month_steps:
  fixes doy :: int
  assumes "0 \<le> doy" "doy \<le> 365"
  defines "mp \<equiv> (5 * doy + 2) div 153"
  defines "d \<equiv> doy - (153 * mp + 2) div 5 + 1"
  shows "0 \<le> mp \<and> mp \<le> 11 \<and> 1 \<le> d \<and> d \<le> 31"
proof -
  have m: "153 * mp \<le> 5 * doy + 2" "5 * doy + 2 < 153 * mp + 153"
    using div_bounds [of 153 "5 * doy + 2"] by (auto simp: mp_def)
  have q: "5 * ((153 * mp + 2) div 5) \<le> 153 * mp + 2" "153 * mp + 2 < 5 * ((153 * mp + 2) div 5) + 5"
    using div_bounds [of 5 "153 * mp + 2"] by auto
  from m q assms(1,2) show ?thesis by (simp add: d_def)
qed

lemma civil_from_days_parts:
  fixes z :: int
  defines "era \<equiv> (z + 719468) div 146097"
  defines "doe \<equiv> z + 719468 - era * 146097"
  defines "yoe \<equiv> (doe - doe div 1460 + doe div 36524 - doe div 146096) div 365"
  defines "doy \<equiv> doe - (365 * yoe + yoe div 4 - yoe div 100)"
  defines "mp \<equiv> (5 * doy + 2) div 153"
  defines "d \<equiv> doy - (153 * mp + 2) div 5 + 1"
  defines "m \<equiv> (if mp < 10 then mp + 3 else mp - 9)"
  shows "civil_from_days z = (if m \<le> 2 then yoe + era * 400 + 1 else yoe + era * 400, m, d)"
  unfolding civil_from_days_def Let_def era_def doe_def yoe_def doy_def mp_def d_def m_def
  by (rule refl)

lemma days_from_civil_civil_from_days:
  "case civil_from_days z of (y, m, d) \<Rightarrow> days_from_civil y m d = z"
proof -
  define era where "era = (z + 719468) div 146097"
  define doe where "doe = z + 719468 - era * 146097"
  define yoe where "yoe = (doe - doe div 1460 + doe div 36524 - doe div 146096) div 365"
  define doy where "doy = doe - (365 * yoe + yoe div 4 - yoe div 100)"
  define mp where "mp = (5 * doy + 2) div 153"
  define d where "d = doy - (153 * mp + 2) div 5 + 1"
  define m where "m = (if mp < 10 then mp + 3 else mp - 9)"
  have parts: "civil_from_days z = (if m \<le> 2 then yoe + era * 400 + 1 else yoe + era * 400, m, d)"
    unfolding m_def d_def mp_def doy_def yoe_def doe_def era_def by (rule civil_from_days_parts)
  have st: "0 \<le> yoe \<and> yoe \<le> 399 \<and> 0 \<le> doy \<and> doy \<le> 365"
    unfolding doy_def yoe_def doe_def era_def by (rule civil_steps)
  then have ms: "0 \<le> mp \<and> mp \<le> 11"
    using month_steps [of doy] by (simp add: mp_def)
  have era': "(yoe + era * 400) div 400 = era"
    by (rule div_by_bounds) (use st in simp_all)
  have mp': "(if 2 < m then m - 3 else m + 9) = mp" using ms by (simp add: m_def)
  have m2: "m \<le> 2 \<longleftrightarrow> 10 \<le> mp" using ms by (simp add: m_def)
  have "days_from_civil (if m \<le> 2 then yoe + era * 400 + 1 else yoe + era * 400) m d =
          era * 146097 + (yoe * 365 + yoe div 4 - yoe div 100 + ((153 * mp + 2) div 5 + d - 1)) - 719468"
    unfolding days_from_civil_def Let_def mp' by (simp add: era')
  also have "\<dots> = z" by (simp add: d_def doy_def doe_def)
  finally show ?thesis by (simp add: parts)
qed

lemma civil_from_days_bounds:
  "case civil_from_days z of (y, m, d) \<Rightarrow> 1 \<le> m \<and> m \<le> 12 \<and> 1 \<le> d \<and> d \<le> 31"
proof -
  define era where "era = (z + 719468) div 146097"
  define doe where "doe = z + 719468 - era * 146097"
  define yoe where "yoe = (doe - doe div 1460 + doe div 36524 - doe div 146096) div 365"
  define doy where "doy = doe - (365 * yoe + yoe div 4 - yoe div 100)"
  have st: "0 \<le> yoe \<and> yoe \<le> 399 \<and> 0 \<le> doy \<and> doy \<le> 365"
    unfolding doy_def yoe_def doe_def era_def by (rule civil_steps)
  then have "0 \<le> (5 * doy + 2) div 153 \<and> (5 * doy + 2) div 153 \<le> 11
      \<and> 1 \<le> doy - (153 * ((5 * doy + 2) div 153) + 2) div 5 + 1
      \<and> doy - (153 * ((5 * doy + 2) div 153) + 2) div 5 + 1 \<le> 31"
    using month_steps [of doy] by simp
  then show ?thesis
    unfolding civil_from_days_parts [of z, folded era_def doe_def yoe_def doy_def]
    by auto
qed

lemma iso_offset_utc: "iso_offset 0 = ''+00:00''"
  by code_simp

lemma hms_decomp:
  fixes s :: int
  shows "(s div 3600 * 60 + s mod 3600 div 60) * 60 + s mod 60 = s"
proof -
  have "(s div 3600 * 60 + s mod 3600 div 60) * 60 + s mod 60
      = s div 3600 * 3600 + (s mod 3600 div 60 * 60 + s mod 3600 mod 60)"
    by (simp add: algebra_simps mod_mod_cancel)
  also have "\<dots> = s" by simp
  finally show ?thesis .
qed

lemma iso_fields_eq:
  assumes "civil_from_days (dt_wall dt div day_us) = (y, m, d)"
  shows "iso_fields dt =
    \<lparr>ct_year = y, ct_month = m, ct_day = d,
     ct_hour = dt_wall dt mod day_us div 1000000 div 3600,
     ct_minute = dt_wall dt mod day_us div 1000000 mod 3600 div 60,
     ct_second = dt_wall dt mod day_us div 1000000 mod 60,
     ct_micro = dt_wall dt mod day_us mod 1000000\<rparr>"
  unfolding iso_fields_def Let_def assms by simp

lemma wall_of_iso_fields: "wall_of_fields (iso_fields dt) = dt_wall dt"
proof -
  define w where "w = dt_wall dt"
  obtain y m d where c: "civil_from_days (w div day_us) = (y, m, d)"
    by (cases "civil_from_days (w div day_us)") auto
  have days: "days_from_civil y m d = w div day_us"
    using days_from_civil_civil_from_days [of "w div day_us"] by (simp add: c)
  have "wall_of_fields (iso_fields dt) =
      w div day_us * day_us + w mod day_us div 1000000 * 1000000 + w mod day_us mod 1000000"
    unfolding iso_fields_eq [OF c [unfolded w_def]] wall_of_fields_def w_def [symmetric]
    by (simp only: civil_time.simps days hms_decomp)
  also have "\<dots> = w" by simp
  finally show ?thesis by (simp add: w_def)
qed

lemma iso_fields_ranges:
  "1 \<le> ct_month (iso_fields dt) \<and> ct_month (iso_fields dt) \<le> 12
   \<and> 1 \<le> ct_day (iso_fields dt) \<and> ct_day (iso_fields dt) \<le> 31
   \<and> 0 \<le> ct_hour (iso_fields dt) \<and> ct_hour (iso_fields dt) \<le> 23
   \<and> 0 \<le> ct_minute (iso_fields dt) \<and> ct_minute (iso_fields dt) \<le> 59
   \<and> 0 \<le> ct_second (iso_fields dt) \<and> ct_second (iso_fields dt) \<le> 59
   \<and> 0 \<le> ct_micro (iso_fields dt) \<and> ct_micro (iso_fields dt) \<le> 999999"
proof -
  obtain y m d where c: "civil_from_days (dt_wall dt div day_us) = (y, m, d)"
    by (cases "civil_from_days (dt_wall dt div day_us)") auto
  have md: "1 \<le> m \<and> m \<le> 12 \<and> 1 \<le> d \<and> d \<le> 31"
    using civil_from_days_bounds [of "dt_wall dt div day_us"] by (simp add: c)
  define r where "r = dt_wall dt mod day_us"
  define q where "q = r div 1000000"
  have r: "0 \<le> r" "r < 86400000000"
    using pos_mod_sign [OF day_us_pos] pos_mod_bound [OF day_us_pos]
    by (simp_all add: r_def day_us_def)
  have q: "0 \<le> q" "q < 86400"
    using r div_bounds [of 1000000 r] by (simp_all add: q_def)
  have h: "0 \<le> q div 3600" "q div 3600 \<le> 23"
    using q div_bounds [of 3600 q] by simp_all
  have mi: "0 \<le> q mod 3600 div 60" "q mod 3600 div 60 \<le> 59"
    using pos_mod_sign [of 3600 q] pos_mod_bound [of 3600 q] div_bounds [of 60 "q mod 3600"]
    by simp_all
  have se: "0 \<le> q mod 60" "q mod 60 \<le> 59" "0 \<le> r mod 1000000" "r mod 1000000 \<le> 999999"
    by simp_all
  show ?thesis
    unfolding iso_fields_eq [OF c] civil_time.simps r_def [symmetric] q_def [symmetric]
    using md h mi se by blast
qed

end
