(* ===== verification/Summarizer.thy ===== *)
theory Summarizer
  imports Calendar
begin

text \<open>
  \<^verbatim>\<open>summarize_single_email\<close> (\<^verbatim>\<open>src/app/main.py\<close>, lines 71--101) and the
  record it reads. The Groq chat-completion service is not code of the
  repository: it is the parameter \<open>llm\<close>, a function from the request the code
  builds to either the text of the exception the client raises (\<open>Inl\<close>) or the
  response (\<open>Inr\<close>), whose \<^verbatim>\<open>choices\<close> are the message contents in order.
\<close>

subsection \<open>The extracted email (the dict built at lines 136--146)\<close>

text \<open>
  The dictionary keys \<^verbatim>\<open>subject\<close>, \<^verbatim>\<open>from_address\<close>, \<^verbatim>\<open>to_address\<close>,
  \<^verbatim>\<open>date\<close>, \<^verbatim>\<open>text\<close>, \<^verbatim>\<open>extracted_at\<close> are the fields \<open>ec_\<dots>\<close>; the key
  \<^verbatim>\<open>summary\<close>, added after the summary is generated, extends it. The code
  stores \<^verbatim>\<open>date\<close> and \<^verbatim>\<open>extracted_at\<close> as their \<^verbatim>\<open>isoformat()\<close> strings;
  the record keeps the datetime and applies \<open>isoformat\<close> where the string is
  used (the prompt).
\<close>

record email_content =
  ec_subject :: string
  ec_from_address :: string
  ec_to_address :: string
  ec_date :: datetime
  ec_text :: string
  ec_extracted_at :: datetime

record email_record = email_content +
  ec_summary :: string

subsection \<open>The chat-completion interface\<close>

record chat_message =
  role :: string
  content :: string

record chat_request =
  req_messages :: "chat_message list"
  req_model :: string
  req_temperature_milli :: int \<comment> \<open>\<^verbatim>\<open>temperature=0.5\<close> is 500 thousandths\<close>
  req_max_tokens :: nat

record chat_response =
  choices :: "string list" \<comment> \<open>\<^verbatim>\<open>choices[i].message.content\<close>\<close>

type_synonym llm = "chat_request \<Rightarrow> string + chat_response"

subsection \<open>The summarizer\<close>

definition nl :: string where
  "nl = [CHR 0x0A]"

definition system_prompt :: string where
  "system_prompt = ''You are a helpful assistant that summarizes emails. Provide a concise summary of the key points and any important action items. Keep the summary under 200 words.''"

text \<open>The f-string \<^verbatim>\<open>email_text\<close> of lines 74--79.\<close>

definition email_text :: "'a email_content_scheme \<Rightarrow> string" where
  "email_text e =
     ''Subject: '' @ ec_subject e @ nl
     @ ''From: '' @ ec_from_address e @ nl
     @ ''Date: '' @ isoformat (ec_date e) @ nl
     @ ''Content: '' @ take 2000 (ec_text e) @ ''...''"

text \<open>The arguments of \<^verbatim>\<open>groq_client.chat.completions.create\<close>, lines 82--96.\<close>

definition summary_request :: "'a email_content_scheme \<Rightarrow> chat_request" where
  "summary_request e =
     \<lparr>req_messages =
        [\<lparr>role = ''system'', content = system_prompt\<rparr>,
         \<lparr>role = ''user'', content = ''Please provide a brief summary of this email:'' @ nl @ email_text e\<rparr>],
      req_model = ''mixtral-8x7b-32768'',
      req_temperature_milli = 500,
      req_max_tokens = 200\<rparr>"

definition failure_sentinel :: string where
  "failure_sentinel = ''Failed to generate summary''"

text \<open>
  Lines 73--101, with the lines the function logs: any exception of the call,
  and the \<^verbatim>\<open>IndexError\<close> of \<^verbatim>\<open>choices[0]\<close> on an empty list of choices,
  is caught, logged and answered by the sentinel.
\<close>

definition summarize_logged :: "llm \<Rightarrow> 'a email_content_scheme \<Rightarrow> string \<times> log_line list" where
  "summarize_logged llm e =
     (let start = LogInfo (''Generating summary for email: '' @ take 30 (ec_subject e) @ ''...'');
          fail = (\<lambda>err. (failure_sentinel, [start, LogError (''Failed to generate summary for email: '' @ err)]))
      in case llm (summary_request e) of
           Inl err \<Rightarrow> fail err
         | Inr resp \<Rightarrow> (case choices resp of [] \<Rightarrow> fail ''list index out of range'' | c # _ \<Rightarrow> (c, [start])))"

text \<open>\<^verbatim>\<open>summarize_single_email\<close>: its return value.\<close>

definition summarize_single_email :: "llm \<Rightarrow> 'a email_content_scheme \<Rightarrow> string" where
  "summarize_single_email llm e = fst (summarize_logged llm e)"

text \<open>An email of the example of the specification, section 8.\<close>

definition ex_content :: email_content where
  "ex_content =
     \<lparr>ec_subject = ''Hi'', ec_from_address = ''a@x.com'', ec_to_address = ''me@gmail.com'',
      ec_date = now_utc 1762642800000000, ec_text = ''hello'',
      ec_extracted_at = now_utc 1762650000000001\<rparr>"

subsection \<open>Lemmas\<close>

lemma summarize_single_email_eq:
  "summarize_single_email llm e =
     (case llm (summary_request e) of
        Inl _ \<Rightarrow> failure_sentinel
      | Inr resp \<Rightarrow> (case choices resp of [] \<Rightarrow> failure_sentinel | c # _ \<Rightarrow> c))"
  by (simp add: summarize_single_email_def summarize_logged_def Let_def split: sum.split list.split)

lemma summarize_logged_log:
  "snd (summarize_logged llm e) =
     LogInfo (''Generating summary for email: '' @ take 30 (ec_subject e) @ ''...'') #
     (case llm (summary_request e) of
        Inl err \<Rightarrow> [LogError (''Failed to generate summary for email: '' @ err)]
      | Inr resp \<Rightarrow> (if choices resp = [] then [LogError ''Failed to generate summary for email: list index out of range''] else []))"
  by (simp add: summarize_logged_def Let_def split: sum.split list.split)

lemma email_text_take [simp]: "email_text (e\<lparr>ec_text := take 2000 t\<rparr>) = email_text (e\<lparr>ec_text := t\<rparr>)"
  by (simp add: email_text_def)

subsection \<open>Properties of the summarizer\<close>

text \<open>
  C4. Failure sentinel: when the service raises, or answers with no choice, the
  summary is exactly the string \<^verbatim>\<open>Failed to generate summary\<close>.
\<close>

theorem summarize_failure_sentinel:
  assumes "(\<exists>err. llm (summary_request e) = Inl err) \<or>
           (\<exists>resp. llm (summary_request e) = Inr resp \<and> choices resp = [])"
  shows "summarize_single_email llm e = failure_sentinel"
  using assms by (auto simp: summarize_single_email_eq)

theorem summarize_failure_sentinel_witness:
  "summarize_single_email (\<lambda>_. Inl ''Request timed out.'') ex_content = ''Failed to generate summary''"
  using summarize_failure_sentinel [of "\<lambda>_. Inl ''Request timed out.''" ex_content]
  by (simp add: failure_sentinel_def)

text \<open>
  C5. Success: when the service answers, the summary is the content of its first
  choice, verbatim.
\<close>

theorem summarize_first_choice:
  assumes "llm (summary_request e) = Inr resp" and "choices resp = c # cs"
  shows "summarize_single_email llm e = c"
  using assms by (simp add: summarize_single_email_eq)

theorem summarize_first_choice_witness:
  "summarize_single_email (\<lambda>_. Inr \<lparr>choices = [''A greeting.'', ''Other'']\<rparr>) ex_content = ''A greeting.''"
  by (rule summarize_first_choice [where resp = "\<lparr>choices = [''A greeting.'', ''Other'']\<rparr>"
                                     and cs = "[''Other'']"]) simp_all

text \<open>
  C6. Truncation at exactly 2000 characters: two bodies of the same email give
  the same request to the service if and only if their first 2000 characters
  agree. Characters after the 2000th never reach the service, and every one
  of the first 2000 does.
\<close>

theorem summary_request_truncates:
  "summary_request (e\<lparr>ec_text := t\<rparr>) = summary_request (e\<lparr>ec_text := t'\<rparr>) \<longleftrightarrow>
     take 2000 t = take 2000 t'"
  by (simp add: summary_request_def email_text_def)

text \<open>
  Size of the prompt: the shaped email text is 36 characters of labels,
  separators and the ellipsis, plus subject, sender and date, plus at most 2000
  characters of the body.
\<close>

theorem length_email_text:
  "length (email_text e) =
     36 + length (ec_subject e) + length (ec_from_address e) + length (isoformat (ec_date e))
     + min 2000 (length (ec_text e))"
  by (simp add: email_text_def nl_def)

text \<open>
  A failing call is logged: when the service raises, the summarizer logs
  the line announcing the summary and then the exception's text, and returns
  the sentinel.
\<close>

theorem summarize_logs_failure:
  assumes "llm (summary_request e) = Inl err"
  shows "summarize_logged llm e =
           (failure_sentinel,
            [LogInfo (''Generating summary for email: '' @ take 30 (ec_subject e) @ ''...''),
             LogError (''Failed to generate summary for email: '' @ err)])"
  using assms by (simp add: summarize_logged_def)

theorem summarize_logs_failure_witness:
  "summarize_logged (\<lambda>_. Inl ''Request timed out.'') ex_content =
     (''Failed to generate summary'',
      [LogInfo ''Generating summary for email: Hi...'',
       LogError ''Failed to generate summary for email: Request timed out.''])"
  using summarize_logs_failure [where llm = "\<lambda>_. Inl ''Request timed out.''" and e = ex_content
                                 and err = "''Request timed out.''"]
  by (simp add: failure_sentinel_def ex_content_def)

end
