(* ===== verification/Imap.thy ===== *)
theory Imap
  imports DateTime
begin

text \<open>
  The IMAP collaborator that \<^verbatim>\<open>extract_emails_from_inbox\<close> talks to through
  \<^verbatim>\<open>imap_tools\<close> (\<^verbatim>\<open>src/app/main.py\<close>, lines 115--128). Neither the server
  nor the library is code of the repository; both are modelled from the
  specification (section 6, "IMAP collaborator") and the IMAP protocol: a server
  that may be unreachable, an account table checked by \<^verbatim>\<open>LOGIN\<close>, an inbox,
  and a \<^verbatim>\<open>SEARCH FROM sender SINCE date\<close> that matches the sender as a
  case-insensitive substring of the From field and the date against the day of
  the message's arrival (INTERNALDATE), at day granularity. The session's
  protocol commands are recorded as events, so that the order of connect,
  login, searches, fetches and logout can be stated.
\<close>

record imap_msg =
  msg_uid :: nat
  msg_subject :: string       \<comment> \<open>\<^verbatim>\<open>msg.subject\<close>\<close>
  msg_from :: string          \<comment> \<open>\<^verbatim>\<open>msg.from_\<close>\<close>
  msg_to :: "string list"     \<comment> \<open>\<^verbatim>\<open>msg.to\<close>\<close>
  msg_date :: datetime        \<comment> \<open>\<^verbatim>\<open>msg.date\<close>, the parsed Date header\<close>
  msg_internal_day :: int     \<comment> \<open>day number of the INTERNALDATE that SINCE compares\<close>
  msg_text :: string          \<comment> \<open>\<^verbatim>\<open>msg.text\<close>, the plain-text body\<close>
  msg_html :: string          \<comment> \<open>\<^verbatim>\<open>msg.html\<close>\<close>
  msg_fault :: "string option" \<comment> \<open>the exception reading its parsed fields (lines 137--141) raises, if any\<close>

record imap_server =
  srv_reachable :: bool
  srv_accounts :: "string \<Rightarrow> string option"  \<comment> \<open>address to password\<close>
  srv_inbox :: "imap_msg list"
  srv_search_fault :: "string \<Rightarrow> string option"  \<comment> \<open>a SEARCH for this sender fails\<close>

datatype imap_event =
    Connect string
  | Login string
  | Select string
  | Search string int
  | Fetch nat
  | Logout

text \<open>\<^verbatim>\<open>MailBox(host)\<close>: opening the SSL connection.\<close>

definition imap_connect :: "imap_server \<Rightarrow> string + unit" where
  "imap_connect srv = (if srv_reachable srv then Inr () else Inl ''[Errno 111] Connection refused'')"

text \<open>\<^verbatim>\<open>.login(address, password, initial_folder='INBOX')\<close>.\<close>

definition imap_login :: "imap_server \<Rightarrow> string \<Rightarrow> string \<Rightarrow> string + unit" where
  "imap_login srv addr pw =
     (if srv_accounts srv addr = Some pw then Inr ()
      else Inl ''[AUTHENTICATIONFAILED] Invalid credentials (Failure)'')"

definition from_matches :: "string \<Rightarrow> imap_msg \<Rightarrow> bool" where
  "from_matches sender m = contains (lower sender) (lower (msg_from m))"

text \<open>\<^verbatim>\<open>mailbox.fetch(AND(from_=sender, date_gte=day))\<close>: the messages the search returns, in inbox order.\<close>

definition imap_search :: "imap_server \<Rightarrow> string \<Rightarrow> int \<Rightarrow> string + imap_msg list" where
  "imap_search srv sender day =
     (case srv_search_fault srv sender of
        Some e \<Rightarrow> Inl e
      | None \<Rightarrow> Inr (filter (\<lambda>m. from_matches sender m \<and> day \<le> msg_internal_day m) (srv_inbox srv)))"

end
