(* ===== verification/Extractor.thy ===== *)
theory Extractor
  imports Summarizer Imap
begin

text \<open>
  \<^verbatim>\<open>extract_emails_from_inbox\<close> (\<^verbatim>\<open>src/app/main.py\<close>, lines 103--169): one
  IMAP session, a search per sender, the 24-hour filter per message, a record
  and its summary per accepted message, the per-message \<^verbatim>\<open>try\<close> that skips a
  failing message, and the outer \<^verbatim>\<open>try\<close> that turns any session failure into
  an \<^verbatim>\<open>HTTPException(500)\<close>. The world the function sees is an \<open>env\<close>: the
  IMAP server, the chat-completion service, and the clock, whose \<open>n\<close>-th
  reading in the request is \<open>env_clock env n\<close>. The state threaded through the
  loops holds the list \<^verbatim>\<open>email_data\<close>, the IMAP commands issued so far,
  the number of clock readings taken and the lines logged at level INFO and
  above (the summarizer's included).
\<close>

record env =
  env_server :: imap_server
  env_llm :: llm
  env_clock :: "nat \<Rightarrow> usec"

record ext_state =
  es_data :: "email_record list"
  es_trace :: "imap_event list"
  es_ticks :: nat
  es_log :: "log_line list"

definition ext_init :: ext_state where
  "ext_init = \<lparr>es_data = [], es_trace = [], es_ticks = 0, es_log = []\<rparr>"

text \<open>\<^verbatim>\<open>datetime.now(utc)\<close>: the next reading of the clock.\<close>

definition read_clock :: "env \<Rightarrow> ext_state \<Rightarrow> usec \<times> ext_state" where
  "read_clock env st = (env_clock env (es_ticks st), st\<lparr>es_ticks := Suc (es_ticks st)\<rparr>)"

definition log_event :: "imap_event \<Rightarrow> ext_state \<Rightarrow> ext_state" where
  "log_event ev st = st\<lparr>es_trace := es_trace st @ [ev]\<rparr>"

text \<open>\<^verbatim>\<open>logger.info\<close>, \<^verbatim>\<open>logger.warning\<close>, \<^verbatim>\<open>logger.error\<close>.\<close>

definition log_msg :: "log_line \<Rightarrow> ext_state \<Rightarrow> ext_state" where
  "log_msg l st = st\<lparr>es_log := es_log st @ [l]\<rparr>"

text \<open>The dictionary literal of lines 136--143.\<close>

definition email_content_of :: "imap_msg \<Rightarrow> datetime \<Rightarrow> datetime \<Rightarrow> email_content" where
  "email_content_of m md now =
     \<lparr>ec_subject = msg_subject m,
      ec_from_address = msg_from m,
      ec_to_address = py_join '', '' (msg_to m),
      ec_date = md,
      ec_text = py_or (msg_text m) (msg_html m),
      ec_extracted_at = now\<rparr>"

text \<open>Line 146: the dictionary with its \<^verbatim>\<open>summary\<close> key.\<close>

definition summarized :: "llm \<Rightarrow> email_content \<Rightarrow> email_record" where
  "summarized llm ec =
     \<lparr>ec_subject = ec_subject ec, ec_from_address = ec_from_address ec,
      ec_to_address = ec_to_address ec, ec_date = ec_date ec, ec_text = ec_text ec,
      ec_extracted_at = ec_extracted_at ec, ec_summary = summarize_single_email llm ec\<rparr>"

text \<open>
  One iteration of the loop over \<^verbatim>\<open>messages\<close> (lines 128--154). Fetching the
  message is the generator's \<^verbatim>\<open>FETCH\<close>. The date is relabelled and compared
  first (lines 131--135); a message older than \<^verbatim>\<open>date_since\<close> is skipped by
  the \<^verbatim>\<open>else\<close>, whose \<^verbatim>\<open>logger.debug\<close> is below the configured level,
  without its other fields being read. For a recent message the dictionary of
  lines 136--143 reads the parsed fields; a field that raises, like a
  comparison that raises, is caught by the \<^verbatim>\<open>except\<close> of line 152, logged
  and skipped, before the clock of line 142 is read.
\<close>

definition process_msg :: "env \<Rightarrow> datetime \<Rightarrow> ext_state \<Rightarrow> imap_msg \<Rightarrow> ext_state" where
  "process_msg env date_since st0 m =
     (let st = log_event (Fetch (msg_uid m)) st0;
          skip = (\<lambda>e. log_msg (LogError (''Error processing individual email: '' @ e)) st);
          md = replace_tzinfo (msg_date m) (Some 0)
      in case dt_ge md date_since of
           Inr True \<Rightarrow>
             (case msg_fault m of
                Some e \<Rightarrow> skip e
              | None \<Rightarrow>
                  (let (t, st') = read_clock env st;
                       ec = email_content_of m md (now_utc t)
                   in st'\<lparr>es_data := es_data st' @ [summarized (env_llm env) ec],
                          es_log := es_log st' @ snd (summarize_logged (env_llm env) ec)
                                    @ [LogInfo (''Processed email: '' @ take 30 (msg_subject m) @ ''...'')]\<rparr>))
         | Inr False \<Rightarrow> st
         | Inl e \<Rightarrow> skip e)"

fun process_msgs :: "env \<Rightarrow> datetime \<Rightarrow> ext_state \<Rightarrow> imap_msg list \<Rightarrow> ext_state" where
  "process_msgs env ds st [] = st"
| "process_msgs env ds st (m # ms) = process_msgs env ds (process_msg env ds st m) ms"

text \<open>
  The loop over \<^verbatim>\<open>sender_addresses\<close> (lines 118--128): a failing search
  leaves the loop with its error, which the outer \<^verbatim>\<open>except\<close> reports.
\<close>

text \<open>
  Lines 119--126 for one sender: the line logged, and the \<^verbatim>\<open>SEARCH\<close> that
  iterating \<^verbatim>\<open>mailbox.fetch(criteria)\<close> issues.
\<close>

definition begin_search :: "datetime \<Rightarrow> string \<Rightarrow> ext_state \<Rightarrow> ext_state" where
  "begin_search ds s st =
     log_event (Search s (dt_date ds)) (log_msg (LogInfo (''Fetching emails from sender: '' @ s)) st)"

fun process_senders :: "env \<Rightarrow> datetime \<Rightarrow> ext_state \<Rightarrow> string list \<Rightarrow> string option \<times> ext_state" where
  "process_senders env ds st [] = (None, st)"
| "process_senders env ds st (s # ss) =
     (let st1 = begin_search ds s st in
      case imap_search (env_server env) s (dt_date ds) of
        Inl e \<Rightarrow> (Some e, st1)
      | Inr msgs \<Rightarrow> process_senders env ds (process_msgs env ds st1 msgs) ss)"

text \<open>The \<^verbatim>\<open>HTTPException\<close> of lines 162--169.\<close>

definition fetch_error :: "string \<Rightarrow> string \<Rightarrow> http_exception" where
  "fetch_error e addr = HTTPException 500 (DetailFetch ''Failed to fetch emails'' e addr)"

text \<open>
  The whole function. The \<^verbatim>\<open>with\<close> block logs out on leaving it, normally or
  by an exception; a connection or login that fails raises before the block is
  entered. Every failure is logged by the outer \<^verbatim>\<open>except\<close> before it is
  raised again as \<open>fetch_error\<close>.
\<close>

definition extract_emails_from_inbox ::
  "env \<Rightarrow> string \<Rightarrow> string \<Rightarrow> string list \<Rightarrow> (http_exception + email_record list) \<times> ext_state" where
  "extract_emails_from_inbox env addr pw senders =
     (let st00 = log_msg (LogInfo (''Attempting to connect to Gmail IMAP for: '' @ addr)) ext_init;
          (t0, st0) = read_clock env st00;
          date_since = dt_sub (now_utc t0) (timedelta_days 1);
          srv = env_server env;
          st1 = log_event (Connect ''imap.gmail.com'') st0;
          fail = (\<lambda>e st. (Inl (fetch_error e addr), log_msg (LogError (''Failed to fetch emails: '' @ e)) st))
      in case imap_connect srv of
           Inl e \<Rightarrow> fail e st1
         | Inr _ \<Rightarrow>
             (let st2 = log_event (Login addr) st1 in
              case imap_login srv addr pw of
                Inl e \<Rightarrow> fail e st2
              | Inr _ \<Rightarrow>
                  (let (err, st3) = process_senders env date_since
                         (log_msg (LogInfo ''Successfully connected to Gmail'') (log_event (Select ''INBOX'') st2))
                         senders;
                       st4 = log_event Logout st3
                   in case err of
                        Some e \<Rightarrow> fail e st4
                      | None \<Rightarrow>
                          (Inr (es_data st4),
                           log_msg (LogInfo (''Successfully extracted '' @ dec (int (length (es_data st4))) @ '' emails'')) st4))))"

subsection \<open>What extraction promises\<close>

text \<open>
  The abstract specification: the records are those of the messages the
  searches return, concatenated in sender order, that parse and are not older
  than the cutoff, each stamped with the next clock reading. It has no state, no
  loop and no session.
\<close>

definition cutoff :: "env \<Rightarrow> datetime" where
  "cutoff env = dt_sub (now_utc (env_clock env 0)) (timedelta_days 1)"

definition accepted :: "datetime \<Rightarrow> imap_msg \<Rightarrow> bool" where
  "accepted ds m \<longleftrightarrow> msg_fault m = None \<and> dt_ge (replace_tzinfo (msg_date m) (Some 0)) ds = Inr True"

definition record_of :: "env \<Rightarrow> imap_msg \<Rightarrow> usec \<Rightarrow> email_record" where
  "record_of env m t =
     summarized (env_llm env) (email_content_of m (replace_tzinfo (msg_date m) (Some 0)) (now_utc t))"

fun stamp :: "env \<Rightarrow> nat \<Rightarrow> imap_msg list \<Rightarrow> email_record list" where
  "stamp env k [] = []"
| "stamp env k (m # ms) = record_of env m (env_clock env k) # stamp env (Suc k) ms"

fun search_all :: "imap_server \<Rightarrow> int \<Rightarrow> string list \<Rightarrow> string + imap_msg list" where
  "search_all srv day [] = Inr []"
| "search_all srv day (s # ss) =
     (case imap_search srv s day of
        Inl e \<Rightarrow> Inl e
      | Inr ms \<Rightarrow> (case search_all srv day ss of Inl e \<Rightarrow> Inl e | Inr ms' \<Rightarrow> Inr (ms @ ms')))"

definition extract_spec :: "env \<Rightarrow> string \<Rightarrow> string \<Rightarrow> string list \<Rightarrow> http_exception + email_record list" where
  "extract_spec env addr pw senders =
     (let srv = env_server env in
      case imap_connect srv of
        Inl e \<Rightarrow> Inl (fetch_error e addr)
      | Inr _ \<Rightarrow>
          (case imap_login srv addr pw of
             Inl e \<Rightarrow> Inl (fetch_error e addr)
           | Inr _ \<Rightarrow>
               (case search_all srv (dt_date (cutoff env)) senders of
                  Inl e \<Rightarrow> Inl (fetch_error e addr)
                | Inr msgs \<Rightarrow> Inr (stamp env 1 (filter (accepted (cutoff env)) msgs)))))"

subsection \<open>An example world\<close>

text \<open>
  The example of the specification (section 8): one message from
  \<^verbatim>\<open>a@x.com\<close>, dated two hours before the request, with body
  \<^verbatim>\<open>hello\<close>; the clock reads \<open>ex_now\<close> and then advances by one
  microsecond per reading.
\<close>

definition ex_now :: usec where
  "ex_now = 1762650000000000"

definition ex_msg :: imap_msg where
  "ex_msg =
     \<lparr>msg_uid = 7, msg_subject = ''Hi'', msg_from = ''a@x.com'', msg_to = [''me@gmail.com''],
      msg_date = \<lparr>dt_wall = ex_now - 2 * 3600000000, dt_tz = Some 0\<rparr>,
      msg_internal_day = 20401, msg_text = ''hello'', msg_html = [], msg_fault = None\<rparr>"

definition ex_server :: imap_server where
  "ex_server =
     \<lparr>srv_reachable = True, srv_accounts = [''me@gmail.com'' \<mapsto> ''pw''],
      srv_inbox = [ex_msg], srv_search_fault = (\<lambda>_. None)\<rparr>"

definition ex_env :: env where
  "ex_env =
     \<lparr>env_server = ex_server, env_llm = (\<lambda>_. Inr \<lparr>choices = [''A greeting.'']\<rparr>),
      env_clock = (\<lambda>n. ex_now + int n)\<rparr>"

text \<open>
  A message sent 25 hours before the request by a sender in UTC+05:00: its
  Date header reads 20 hours before the request, wall-clock, with offset
  +05:00.
\<close>

definition ex_east_msg :: imap_msg where
  "ex_east_msg =
     ex_msg\<lparr>msg_uid := 8,
            msg_date := \<lparr>dt_wall = ex_now - 20 * 3600000000, dt_tz = Some (5 * 3600000000)\<rparr>\<rparr>"

text \<open>A message whose Date header lies a year after the request.\<close>

definition ex_future_msg :: imap_msg where
  "ex_future_msg = ex_msg\<lparr>msg_uid := 9, msg_date := \<lparr>dt_wall = ex_now + 365 * day_us, dt_tz = Some 0\<rparr>\<rparr>"

declare ex_now_def [model_simps] ex_msg_def [model_simps] ex_server_def [model_simps]
  ex_env_def [model_simps] ex_east_msg_def [model_simps] ex_future_msg_def [model_simps]

subsection \<open>Lemmas on the loops\<close>

definition in_session :: "imap_event \<Rightarrow> bool" where
  "in_session ev = (case ev of Search _ _ \<Rightarrow> True | Fetch _ \<Rightarrow> True | _ \<Rightarrow> False)"

lemma in_session_simps [simp]:
  "in_session (Search s d)" "in_session (Fetch n)" "\<not> in_session Logout"
  "\<not> in_session (Connect h)" "\<not> in_session (Login a)" "\<not> in_session (Select f)"
  by (simp_all add: in_session_def)

lemma ext_state_simps [simp]:
  "es_data (log_event ev st) = es_data st"
  "es_ticks (log_event ev st) = es_ticks st"
  "es_trace (log_event ev st) = es_trace st @ [ev]"
  "es_log (log_event ev st) = es_log st"
  "es_data (log_msg l st) = es_data st"
  "es_ticks (log_msg l st) = es_ticks st"
  "es_trace (log_msg l st) = es_trace st"
  "es_log (log_msg l st) = es_log st @ [l]"
  "read_clock env st = (env_clock env (es_ticks st), st\<lparr>es_ticks := Suc (es_ticks st)\<rparr>)"
  by (simp_all add: log_event_def log_msg_def read_clock_def)

lemma begin_search_simps [simp]:
  "es_data (begin_search ds s st) = es_data st"
  "es_ticks (begin_search ds s st) = es_ticks st"
  "es_trace (begin_search ds s st) = es_trace st @ [Search s (dt_date ds)]"
  "es_log (begin_search ds s st) = es_log st @ [LogInfo (''Fetching emails from sender: '' @ s)]"
  by (simp_all add: begin_search_def)

lemma stamp_append: "stamp env k (xs @ ys) = stamp env k xs @ stamp env (k + length xs) ys"
  by (induction xs arbitrary: k) simp_all

lemma process_msg_effect:
  "es_data (process_msg env ds st m) =
     es_data st @ (if accepted ds m then [record_of env m (env_clock env (es_ticks st))] else [])"
  "es_ticks (process_msg env ds st m) = es_ticks st + (if accepted ds m then 1 else 0)"
  "es_trace (process_msg env ds st m) = es_trace st @ [Fetch (msg_uid m)]"
  by (auto simp: process_msg_def accepted_def record_of_def Let_def
           split: option.splits sum.splits bool.splits)

lemma process_msgs_effect:
  "es_data (process_msgs env ds st ms) = es_data st @ stamp env (es_ticks st) (filter (accepted ds) ms)"
  "es_ticks (process_msgs env ds st ms) = es_ticks st + length (filter (accepted ds) ms)"
  "es_trace (process_msgs env ds st ms) = es_trace st @ map (\<lambda>m. Fetch (msg_uid m)) ms"
  by (induction ms arbitrary: st) (simp_all add: process_msg_effect)

lemma process_senders_effect:
  assumes "process_senders env ds st ss = (err, st')"
  shows "(case search_all (env_server env) (dt_date ds) ss of
            Inl e \<Rightarrow> err = Some e
          | Inr ms \<Rightarrow> err = None \<and>
              es_data st' = es_data st @ stamp env (es_ticks st) (filter (accepted ds) ms))
         \<and> (\<exists>evs. es_trace st' = es_trace st @ evs \<and> list_all in_session evs)"
  using assms
proof (induction ss arbitrary: st)
  case Nil
  then show ?case by simp
next
  case (Cons s ss)
  let ?st1 = "begin_search ds s st"
  show ?case
  proof (cases "imap_search (env_server env) s (dt_date ds)")
    case (Inl e)
    with Cons.prems show ?thesis by auto
  next
    case (Inr ms)
    with Cons.prems have run: "process_senders env ds (process_msgs env ds ?st1 ms) ss = (err, st')"
      by simp
    from Cons.IH [OF run] Inr show ?thesis
      by (auto simp: process_msgs_effect stamp_append list_all_iff split: sum.splits)
  qed
qed

lemma stamp_elem:
  "r \<in> set (stamp env k ms) \<Longrightarrow> \<exists>m \<in> set ms. \<exists>i. r = record_of env m (env_clock env i)"
  by (induction ms arbitrary: k) auto

lemma length_stamp [simp]: "length (stamp env k ms) = length ms"
  by (induction ms arbitrary: k) simp_all

definition ext_start :: "string \<Rightarrow> ext_state" where
  "ext_start addr =
     log_event (Connect ''imap.gmail.com'')
       \<lparr>es_data = [], es_trace = [], es_ticks = 1,
        es_log = [LogInfo (''Attempting to connect to Gmail IMAP for: '' @ addr)]\<rparr>"

definition ext_session :: "string \<Rightarrow> ext_state" where
  "ext_session addr =
     log_msg (LogInfo ''Successfully connected to Gmail'')
       (log_event (Select ''INBOX'') (log_event (Login addr) (ext_start addr)))"

lemma ext_start_simps [simp]:
  "es_data (ext_start addr) = []" "es_ticks (ext_start addr) = 1"
  "es_trace (ext_start addr) = [Connect ''imap.gmail.com'']"
  "es_log (ext_start addr) = [LogInfo (''Attempting to connect to Gmail IMAP for: '' @ addr)]"
  by (simp_all add: ext_start_def log_event_def)

lemma extract_run:
  "extract_emails_from_inbox env addr pw senders =
     (case imap_connect (env_server env) of
        Inl e \<Rightarrow> (Inl (fetch_error e addr), log_msg (LogError (''Failed to fetch emails: '' @ e)) (ext_start addr))
      | Inr _ \<Rightarrow>
          (case imap_login (env_server env) addr pw of
             Inl e \<Rightarrow> (Inl (fetch_error e addr),
                        log_msg (LogError (''Failed to fetch emails: '' @ e)) (log_event (Login addr) (ext_start addr)))
           | Inr _ \<Rightarrow>
               (case process_senders env (cutoff env) (ext_session addr) senders of
                  (Some e, st3) \<Rightarrow> (Inl (fetch_error e addr),
                                   log_msg (LogError (''Failed to fetch emails: '' @ e)) (log_event Logout st3))
                | (None, st3) \<Rightarrow>
                    (Inr (es_data st3),
                     log_msg (LogInfo (''Successfully extracted '' @ dec (int (length (es_data st3))) @ '' emails''))
                       (log_event Logout st3)))))"
  by (simp add: extract_emails_from_inbox_def cutoff_def ext_session_def ext_start_def ext_init_def
                log_msg_def Let_def split: sum.splits prod.splits option.splits)

lemma extract_password_irrelevant:
  assumes "imap_login (env_server env) addr pw1 = imap_login (env_server env) addr pw2"
  shows "extract_emails_from_inbox env addr pw1 senders = extract_emails_from_inbox env addr pw2 senders"
  unfolding extract_run assms ..

lemma extract_fst_eq:
  "fst (extract_emails_from_inbox env addr pw senders) = extract_spec env addr pw senders"
proof -
  let ?st2 = "ext_session addr"
  obtain err st3 where ps: "process_senders env (cutoff env) ?st2 senders = (err, st3)"
    by (cases "process_senders env (cutoff env) ?st2 senders")
  from process_senders_effect [OF ps]
  have "case search_all (env_server env) (dt_date (cutoff env)) senders of
          Inl e \<Rightarrow> err = Some e
        | Inr ms \<Rightarrow> err = None \<and> es_data st3 = stamp env 1 (filter (accepted (cutoff env)) ms)"
    by (simp add: ext_session_def split: sum.splits)
  then show ?thesis
    unfolding extract_run ps
    by (auto simp: extract_spec_def split: sum.splits option.splits)
qed

lemma accepted_cutoff_iff:
  "accepted (cutoff env) m \<longleftrightarrow> msg_fault m = None \<and> env_clock env 0 - day_us \<le> dt_wall (msg_date m)"
  by (simp add: accepted_def cutoff_def dt_ge_aware timedelta_days_def)

lemma search_all_Inr:
  "search_all srv d ss = Inr ms \<Longrightarrow> m \<in> set ms \<Longrightarrow>
     m \<in> set (srv_inbox srv) \<and> (\<exists>s \<in> set ss. from_matches s m \<and> d \<le> msg_internal_day m)"
  by (induction ss arbitrary: ms) (auto simp: imap_search_def split: sum.splits option.splits)

lemma search_all_complete:
  "search_all srv d ss = Inr ms \<Longrightarrow> s \<in> set ss \<Longrightarrow> m \<in> set (srv_inbox srv) \<Longrightarrow>
     from_matches s m \<Longrightarrow> d \<le> msg_internal_day m \<Longrightarrow> m \<in> set ms"
  by (induction ss arbitrary: ms) (auto simp: imap_search_def split: sum.splits option.splits)

lemma stamp_complete: "m \<in> set ms \<Longrightarrow> \<exists>i. record_of env m (env_clock env i) \<in> set (stamp env k ms)"
  by (induction ms arbitrary: k) auto

lemma search_all_append:
  "search_all srv d (xs @ ys) =
     (case search_all srv d xs of
        Inl e \<Rightarrow> Inl e
      | Inr a \<Rightarrow> (case search_all srv d ys of Inl e \<Rightarrow> Inl e | Inr b \<Rightarrow> Inr (a @ b)))"
  by (induction xs) (auto split: sum.splits)

lemma extract_ok:
  "fst (extract_emails_from_inbox env addr pw senders) = Inr recs \<Longrightarrow>
     \<exists>ms. search_all (env_server env) (dt_date (cutoff env)) senders = Inr ms
        \<and> recs = stamp env 1 (filter (accepted (cutoff env)) ms)"
  by (auto simp: extract_fst_eq extract_spec_def Let_def split: sum.splits)

lemma extract_Inl:
  "fst (extract_emails_from_inbox env addr pw senders) = Inl exc \<Longrightarrow> \<exists>e. exc = fetch_error e addr"
  by (auto simp: extract_fst_eq extract_spec_def Let_def split: sum.splits)

lemma record_of_fields [simp]:
  "ec_date (record_of env m t) = replace_tzinfo (msg_date m) (Some 0)"
  "ec_subject (record_of env m t) = msg_subject m"
  "ec_from_address (record_of env m t) = msg_from m"
  "ec_to_address (record_of env m t) = py_join '', '' (msg_to m)"
  "ec_text (record_of env m t) = py_or (msg_text m) (msg_html m)"
  "ec_extracted_at (record_of env m t) = now_utc t"
  by (simp_all add: record_of_def summarized_def email_content_of_def)

lemma summarize_summarized:
  "summarize_single_email llm' (summarized llm ec) = summarize_single_email llm' ec"
  by (simp add: summarize_single_email_eq summary_request_def email_text_def summarized_def)

lemma stamp_accepted_elem:
  "r \<in> set (stamp env k (filter P ms)) \<Longrightarrow>
     \<exists>m i. m \<in> set ms \<and> P m \<and> r = record_of env m (env_clock env i)"
  by (drule stamp_elem) auto

lemma ec_summary_record_of:
  "ec_summary (record_of env m t) = summarize_single_email (env_llm env) (record_of env m t)"
  by (simp add: record_of_def summarize_summarized) (simp add: summarized_def)

lemma search_all_faulty:
  assumes "msg_fault m \<noteq> None"
  shows "map_sum id (filter (accepted ds)) (search_all (srv\<lparr>srv_inbox := xs @ m # ys\<rparr>) d ss) =
         map_sum id (filter (accepted ds)) (search_all (srv\<lparr>srv_inbox := xs @ ys\<rparr>) d ss)"
proof (induction ss)
  case Nil
  then show ?case by simp
next
  case (Cons s ss)
  from assms have "\<not> accepted ds m" by (simp add: accepted_def)
  with Cons show ?case
    by (auto simp: imap_search_def filter_filter split: option.splits sum.splits)
qed

lemma stamp_env_irrelevant:
  "stamp (env\<lparr>env_server := srv\<rparr>) k ms = stamp env k ms"
  by (induction ms arbitrary: k) (simp_all add: record_of_def)

lemma stamp_summary_irrelevant:
  "map (\<lambda>r. r\<lparr>ec_summary := []\<rparr>) (stamp (env\<lparr>env_llm := llm'\<rparr>) k ms) =
   map (\<lambda>r. r\<lparr>ec_summary := []\<rparr>) (stamp env k ms)"
  by (induction ms arbitrary: k) (simp_all add: record_of_def summarized_def)

lemma cutoff_irrelevant [simp]:
  "cutoff (env\<lparr>env_server := srv\<rparr>) = cutoff env"
  "cutoff (env\<lparr>env_llm := llm'\<rparr>) = cutoff env"
  by (simp_all add: cutoff_def)

lemma session_run:
  assumes "imap_connect (env_server env) = Inr ()" and "imap_login (env_server env) addr pw = Inr ()"
  shows "\<exists>evs. es_trace (snd (extract_emails_from_inbox env addr pw senders)) =
           [Connect ''imap.gmail.com'', Login addr, Select ''INBOX''] @ evs @ [Logout]
         \<and> list_all in_session evs"
proof -
  let ?st2 = "ext_session addr"
  obtain err st3 where ps: "process_senders env (cutoff env) ?st2 senders = (err, st3)"
    by (cases "process_senders env (cutoff env) ?st2 senders")
  from process_senders_effect [OF ps] obtain evs where
    "es_trace st3 = [Connect ''imap.gmail.com'', Login addr, Select ''INBOX''] @ evs"
    "list_all in_session evs"
    by (auto simp: ext_session_def)
  then show ?thesis
    unfolding extract_run ps using assms by (cases err) auto
qed

lemma process_msg_log_prefix: "\<exists>l. es_log (process_msg env ds st m) = es_log st @ l"
  by (auto simp: process_msg_def Let_def split: option.split sum.split bool.split)

lemma process_msgs_log_prefix: "\<exists>l. es_log (process_msgs env ds st ms) = es_log st @ l"
proof (induction ms arbitrary: st)
  case Nil
  then show ?case by simp
next
  case (Cons m ms)
  obtain l1 where "es_log (process_msg env ds st m) = es_log st @ l1"
    using process_msg_log_prefix by blast
  moreover obtain l2 where
    "es_log (process_msgs env ds (process_msg env ds st m) ms) = es_log (process_msg env ds st m) @ l2"
    using Cons.IH by blast
  ultimately show ?case by simp
qed

lemma process_senders_log_prefix:
  "process_senders env ds st ss = (err, st') \<Longrightarrow> \<exists>l. es_log st' = es_log st @ l"
proof (induction ss arbitrary: st)
  case Nil
  then show ?case by simp
next
  case (Cons s ss)
  let ?st1 = "begin_search ds s st"
  show ?case
  proof (cases "imap_search (env_server env) s (dt_date ds)")
    case (Inl e)
    with Cons.prems show ?thesis by auto
  next
    case (Inr ms)
    with Cons.prems have "process_senders env ds (process_msgs env ds ?st1 ms) ss = (err, st')" by simp
    from Cons.IH [OF this] obtain l where "es_log st' = es_log (process_msgs env ds ?st1 ms) @ l" ..
    moreover obtain l' where "es_log (process_msgs env ds ?st1 ms) = es_log ?st1 @ l'"
      using process_msgs_log_prefix by blast
    ultimately show ?thesis by simp
  qed
qed

lemma extract_records_utc:
  assumes "fst (extract_emails_from_inbox env addr pw senders) = Inr recs" and "r \<in> set recs"
  shows "dt_tz (ec_date r) = Some 0 \<and> dt_tz (ec_extracted_at r) = Some 0"
proof -
  from extract_ok [OF assms(1)] obtain ms where "recs = stamp env 1 (filter (accepted (cutoff env)) ms)"
    by blast
  with assms(2) obtain m i where "r = record_of env m (env_clock env i)"
    using stamp_accepted_elem by blast
  then show ?thesis by simp
qed

subsection \<open>Properties of extraction\<close>

text \<open>
  C1. Refinement: whatever the server, the credentials, the sender list, the
  model service and the clock, the result of \<^verbatim>\<open>extract_emails_from_inbox\<close>
  is that of the stateless specification \<open>extract_spec\<close>.
\<close>

theorem extract_refines_spec:
  "fst (extract_emails_from_inbox env addr pw senders) = extract_spec env addr pw senders"
  by (fact extract_fst_eq)

text \<open>
  C2. Recency: every record a successful extraction returns carries a UTC date
  that is not earlier than the cutoff, the first clock reading less 24 hours.
\<close>

theorem extract_records_recent:
  assumes "fst (extract_emails_from_inbox env addr pw senders) = Inr recs"
    and "r \<in> set recs"
  shows "dt_tz (ec_date r) = Some 0 \<and> env_clock env 0 - day_us \<le> utc_instant (ec_date r)"
proof -
  from extract_ok [OF assms(1)] obtain ms where
    recs: "recs = stamp env 1 (filter (accepted (cutoff env)) ms)" by blast
  with assms(2) obtain m i where "m \<in> set ms" "accepted (cutoff env) m"
      and r: "r = record_of env m (env_clock env i)"
    using stamp_accepted_elem by blast
  then show ?thesis by (simp add: accepted_cutoff_iff)
qed

text \<open>
  C3. Origin of each record: it comes from an inbox message that the search for
  one of the given senders matches and that parses; subject, sender and
  recipients are copied, the text is the plain-text body when it is not empty
  and the HTML body otherwise, and the summary is the summarizer's answer for
  the record.
\<close>

theorem extract_records_origin:
  assumes "fst (extract_emails_from_inbox env addr pw senders) = Inr recs"
    and "r \<in> set recs"
  shows "\<exists>m \<in> set (srv_inbox (env_server env)). \<exists>s \<in> set senders.
           from_matches s m \<and> msg_fault m = None \<and>
           ec_subject r = msg_subject m \<and> ec_from_address r = msg_from m \<and>
           ec_to_address r = py_join '', '' (msg_to m) \<and>
           ec_text r = (if msg_text m \<noteq> [] then msg_text m else msg_html m) \<and>
           ec_summary r = summarize_single_email (env_llm env) r"
proof -
  from extract_ok [OF assms(1)] obtain ms where
    ms: "search_all (env_server env) (dt_date (cutoff env)) senders = Inr ms"
    and recs: "recs = stamp env 1 (filter (accepted (cutoff env)) ms)" by blast
  with assms(2) obtain m i where m: "m \<in> set ms" "accepted (cutoff env) m"
      and r: "r = record_of env m (env_clock env i)"
    using stamp_accepted_elem by blast
  from search_all_Inr [OF ms m(1)] m(2) r show ?thesis
    by (auto simp: accepted_cutoff_iff py_or_eq ec_summary_record_of)
qed

lemma ex_extract:
  "fst (extract_emails_from_inbox ex_env ''me@gmail.com'' ''pw'' [''a@x.com'']) =
     Inr [record_of ex_env ex_msg (ex_now + 1)]"
  by code_simp

theorem extract_records_recent_witness:
  "dt_tz (ec_date (record_of ex_env ex_msg (ex_now + 1))) = Some 0 \<and>
   env_clock ex_env 0 - day_us \<le> utc_instant (ec_date (record_of ex_env ex_msg (ex_now + 1)))"
  using extract_records_recent [OF ex_extract, of "record_of ex_env ex_msg (ex_now + 1)"] by simp

theorem extract_records_origin_witness:
  "ec_text (record_of ex_env ex_msg (ex_now + 1)) = ''hello'' \<and>
   (\<exists>m \<in> set (srv_inbox (env_server ex_env)). \<exists>s \<in> set [''a@x.com''].
      from_matches s m \<and> msg_fault m = None \<and>
      ec_subject (record_of ex_env ex_msg (ex_now + 1)) = msg_subject m \<and>
      ec_from_address (record_of ex_env ex_msg (ex_now + 1)) = msg_from m \<and>
      ec_to_address (record_of ex_env ex_msg (ex_now + 1)) = py_join '', '' (msg_to m) \<and>
      ec_text (record_of ex_env ex_msg (ex_now + 1)) =
        (if msg_text m \<noteq> [] then msg_text m else msg_html m) \<and>
      ec_summary (record_of ex_env ex_msg (ex_now + 1)) =
        summarize_single_email (env_llm ex_env) (record_of ex_env ex_msg (ex_now + 1)))"
  using extract_records_origin [OF ex_extract, of "record_of ex_env ex_msg (ex_now + 1)"]
  by (simp add: model_simps)

text \<open>
  C15. Per-message errors are contained: adding to the inbox a message that
  fails to parse changes nothing in the result of the extraction.
\<close>

theorem faulty_message_skipped:
  assumes "msg_fault m \<noteq> None"
  shows "fst (extract_emails_from_inbox (env\<lparr>env_server := srv\<lparr>srv_inbox := xs @ m # ys\<rparr>\<rparr>) addr pw senders) =
         fst (extract_emails_from_inbox (env\<lparr>env_server := srv\<lparr>srv_inbox := xs @ ys\<rparr>\<rparr>) addr pw senders)"
proof -
  let ?A = "srv\<lparr>srv_inbox := xs @ m # ys\<rparr>" and ?B = "srv\<lparr>srv_inbox := xs @ ys\<rparr>"
  have "(case search_all ?A (dt_date (cutoff env)) senders of
           Inl e \<Rightarrow> Inl (fetch_error e addr)
         | Inr v \<Rightarrow> Inr (stamp env 1 (filter (accepted (cutoff env)) v))) =
        (case search_all ?B (dt_date (cutoff env)) senders of
           Inl e \<Rightarrow> Inl (fetch_error e addr)
         | Inr v \<Rightarrow> Inr (stamp env 1 (filter (accepted (cutoff env)) v)))"
    by (rule case_sum_map_eq [OF search_all_faulty [OF assms],
                              where F = "\<lambda>e. Inl (fetch_error e addr)" and G = "\<lambda>v. Inr (stamp env 1 v)"])
  then show ?thesis
    unfolding extract_fst_eq extract_spec_def Let_def cutoff_irrelevant stamp_env_irrelevant
    by (simp add: imap_connect_def imap_login_def)
qed

theorem faulty_message_skipped_witness:
  "fst (extract_emails_from_inbox (ex_env\<lparr>env_server := ex_server\<lparr>srv_inbox := [] @ ex_msg\<lparr>msg_fault := Some ''bad MIME''\<rparr> # [ex_msg]\<rparr>\<rparr>)
          ''me@gmail.com'' ''pw'' [''a@x.com'']) =
   fst (extract_emails_from_inbox (ex_env\<lparr>env_server := ex_server\<lparr>srv_inbox := [] @ [ex_msg]\<rparr>\<rparr>)
          ''me@gmail.com'' ''pw'' [''a@x.com''])"
  by (rule faulty_message_skipped) simp

text \<open>
  C16. Session teardown: once connected and logged in, the session issues
  \<^verbatim>\<open>SELECT INBOX\<close>, then only searches and fetches, and ends with exactly one
  \<^verbatim>\<open>LOGOUT\<close>, whether the extraction succeeds or a search fails.
\<close>

theorem session_logged_out:
  assumes "imap_connect (env_server env) = Inr ()" and "imap_login (env_server env) addr pw = Inr ()"
  shows "\<exists>evs. es_trace (snd (extract_emails_from_inbox env addr pw senders)) =
           [Connect ''imap.gmail.com'', Login addr, Select ''INBOX''] @ evs @ [Logout]
         \<and> list_all in_session evs"
  using assms by (rule session_run)

theorem session_logged_out_witness:
  "\<exists>evs. es_trace (snd (extract_emails_from_inbox ex_env ''me@gmail.com'' ''pw'' [''a@x.com''])) =
     [Connect ''imap.gmail.com'', Login ''me@gmail.com'', Select ''INBOX''] @ evs @ [Logout]
   \<and> list_all in_session evs"
  by (rule session_logged_out) (simp_all add: model_simps imap_connect_def imap_login_def)

text \<open>
  C17. A failed login leaves the connection open: the connection made by
  \<^verbatim>\<open>MailBox(host)\<close> is never logged out when \<^verbatim>\<open>login\<close> raises, because
  the \<^verbatim>\<open>with\<close> block is not entered.
\<close>

theorem login_failure_no_logout:
  assumes "imap_connect (env_server env) = Inr ()" and "imap_login (env_server env) addr pw = Inl e"
  shows "es_trace (snd (extract_emails_from_inbox env addr pw senders)) =
           [Connect ''imap.gmail.com'', Login addr]"
  using assms by (simp add: extract_run)

theorem login_failure_no_logout_witness:
  "es_trace (snd (extract_emails_from_inbox ex_env ''me@gmail.com'' ''wrong'' [''a@x.com''])) =
     [Connect ''imap.gmail.com'', Login ''me@gmail.com'']"
  by (rule login_failure_no_logout [where e = "''[AUTHENTICATIONFAILED] Invalid credentials (Failure)''"])
     (simp_all add: model_simps imap_connect_def imap_login_def)

text \<open>
  Acceptance by the filter, on the specification's side: for a Date header
  with UTC offset \<open>off\<close>, a parseable message passes exactly when its real
  instant is within 24 hours plus \<open>off\<close> of the request.
\<close>

lemma accepted_window_shift:
  assumes "dt_tz (msg_date m) = Some off" and "msg_fault m = None"
  shows "accepted (cutoff env) m \<longleftrightarrow> env_clock env 0 - day_us - off \<le> utc_instant (msg_date m)"
  using assms by (auto simp: accepted_cutoff_iff utc_instant_def)

text \<open>
  C18. The 24-hour window moves with the sender's time zone: for a parseable
  message whose Date header has UTC offset \<open>off\<close>, one iteration of the
  message loop records it exactly when its real instant is no earlier than
  24 hours plus \<open>off\<close> before the request, because
  \<^verbatim>\<open>replace(tzinfo=utc)\<close> relabels instead of converting. Messages from east
  of UTC up to \<open>off\<close> too old are kept; messages from west of UTC are dropped
  early.
\<close>

theorem process_msg_window_shift:
  assumes "dt_tz (msg_date m) = Some off" and "msg_fault m = None"
  shows "es_data (process_msg env (cutoff env) st m) =
           es_data st @ (if env_clock env 0 - day_us - off \<le> utc_instant (msg_date m)
                         then [record_of env m (env_clock env (es_ticks st))] else [])"
  using process_msg_effect(1) [of env "cutoff env" st m] accepted_window_shift [OF assms] by simp

theorem process_msg_window_shift_witness:
  "es_data (process_msg ex_env (cutoff ex_env) ext_init ex_east_msg) =
     [record_of ex_env ex_east_msg (env_clock ex_env 0)] \<and>
   utc_instant (msg_date ex_east_msg) < env_clock ex_env 0 - day_us"
  using process_msg_window_shift [of ex_east_msg "5 * 3600000000" ex_env ext_init]
  by (simp add: model_simps utc_instant_def day_us_def ext_init_def)

text \<open>
  C19. No deduplication within a request: listing every sender twice yields
  every record twice.
\<close>

theorem repeated_senders_duplicate:
  assumes "fst (extract_emails_from_inbox env addr pw senders) = Inr recs"
  shows "\<exists>recs'. fst (extract_emails_from_inbox env addr pw (senders @ senders)) = Inr recs'
                 \<and> length recs' = 2 * length recs"
  using assms
  by (auto simp: extract_fst_eq extract_spec_def Let_def search_all_append split: sum.splits)

theorem repeated_senders_duplicate_witness:
  "\<exists>recs'. fst (extract_emails_from_inbox ex_env ''me@gmail.com'' ''pw'' ([''a@x.com''] @ [''a@x.com''])) = Inr recs'
           \<and> length recs' = 2 * length [record_of ex_env ex_msg (ex_now + 1)]"
  by (rule repeated_senders_duplicate [OF ex_extract])

text \<open>
  C20. Summarization never decides what is extracted: whatever the chat service
  does, the extraction fails or succeeds alike and returns the same records up
  to their summaries.
\<close>

theorem summaries_do_not_affect_extraction:
  "map_sum id (map (\<lambda>r. r\<lparr>ec_summary := []\<rparr>)) (fst (extract_emails_from_inbox env addr pw senders)) =
   map_sum id (map (\<lambda>r. r\<lparr>ec_summary := []\<rparr>))
     (fst (extract_emails_from_inbox (env\<lparr>env_llm := llm'\<rparr>) addr pw senders))"
  by (simp add: extract_fst_eq extract_spec_def Let_def stamp_summary_irrelevant split: sum.splits)

text \<open>
  C21. Completeness of extraction: a successful extraction records every
  message of the inbox that a listed sender matches, that parses, and whose
  Date header is within the 24 hours before the request, provided it arrived
  no earlier than the day its header names: the date-only search the code
  issues (from \<^verbatim>\<open>date_since.date()\<close>) loses none of them.
\<close>

theorem extract_keeps_recent:
  assumes "fst (extract_emails_from_inbox env addr pw senders) = Inr recs"
    and "s \<in> set senders" and "m \<in> set (srv_inbox (env_server env))" and "from_matches s m"
    and "msg_fault m = None" and "env_clock env 0 - day_us \<le> dt_wall (msg_date m)"
    and "dt_date (msg_date m) \<le> msg_internal_day m"
  shows "\<exists>i. record_of env m (env_clock env i) \<in> set recs"
proof -
  obtain ms where ms: "search_all (env_server env) (dt_date (cutoff env)) senders = Inr ms"
    and recs: "recs = stamp env 1 (filter (accepted (cutoff env)) ms)"
    using extract_ok [OF assms(1)] by blast
  have "dt_date (cutoff env) \<le> dt_date (msg_date m)"
    using assms(6) by (intro dt_date_mono) (simp add: cutoff_def dt_sub_def timedelta_days_def now_utc_def)
  with assms(7) have "dt_date (cutoff env) \<le> msg_internal_day m" by simp
  with search_all_complete [OF ms assms(2-4)] have "m \<in> set ms" by blast
  moreover have "accepted (cutoff env) m" using assms(5,6) by (simp add: accepted_cutoff_iff)
  ultimately show ?thesis unfolding recs by (intro stamp_complete) simp
qed

theorem extract_keeps_recent_witness:
  "\<exists>i. record_of ex_env ex_msg (env_clock ex_env i) \<in> set [record_of ex_env ex_msg (ex_now + 1)]"
proof (rule extract_keeps_recent [where s = "''a@x.com''" and m = ex_msg, OF ex_extract])
  show "from_matches ''a@x.com'' ex_msg" by code_simp
  show "dt_date (msg_date ex_msg) \<le> msg_internal_day ex_msg"
    by (simp add: dt_date_def model_simps day_us_def)
qed (simp_all add: model_simps day_us_def)

text \<open>
  C25. What extraction logs: its first line names the mailbox it connects to;
  its last line is the error of a failed session, the one the
  \<^verbatim>\<open>HTTPException\<close> carries, or on success the number of records
  extracted.
\<close>

theorem extract_log_outcome:
  "hd (es_log (snd (extract_emails_from_inbox env addr pw senders))) =
     LogInfo (''Attempting to connect to Gmail IMAP for: '' @ addr) \<and>
   (case fst (extract_emails_from_inbox env addr pw senders) of
      Inl exc \<Rightarrow> (\<exists>e. exc = fetch_error e addr \<and>
                   last (es_log (snd (extract_emails_from_inbox env addr pw senders))) =
                     LogError (''Failed to fetch emails: '' @ e))
    | Inr recs \<Rightarrow> last (es_log (snd (extract_emails_from_inbox env addr pw senders))) =
                   LogInfo (''Successfully extracted '' @ dec (int (length recs)) @ '' emails''))"
proof -
  obtain err st3 where ps: "process_senders env (cutoff env) (ext_session addr) senders = (err, st3)"
    by (cases "process_senders env (cutoff env) (ext_session addr) senders")
  obtain l where "es_log st3 = es_log (ext_session addr) @ l"
    using process_senders_log_prefix [OF ps] by blast
  then have l: "es_log st3 = LogInfo (''Attempting to connect to Gmail IMAP for: '' @ addr) #
                  LogInfo ''Successfully connected to Gmail'' # l"
    by (simp add: ext_session_def)
  show ?thesis
    unfolding extract_run ps using l by (auto split: sum.split option.split)
qed

text \<open>
  A recent message that fails to parse is logged and skipped: the iteration only
  fetches it and logs one error line with the exception's text; no record, no
  clock reading, no summary request.
\<close>

theorem faulty_message_logged:
  assumes "msg_fault m = Some e" and "dt_ge (replace_tzinfo (msg_date m) (Some 0)) ds = Inr True"
  shows "process_msg env ds st m =
           log_msg (LogError (''Error processing individual email: '' @ e)) (log_event (Fetch (msg_uid m)) st)"
  using assms by (simp add: process_msg_def Let_def)

theorem faulty_message_logged_witness:
  "process_msg ex_env (cutoff ex_env) ext_init (ex_msg\<lparr>msg_fault := Some ''bad MIME''\<rparr>) =
     log_msg (LogError ''Error processing individual email: bad MIME'') (log_event (Fetch 7) ext_init)"
  using faulty_message_logged [where m = "ex_msg\<lparr>msg_fault := Some ''bad MIME''\<rparr>" and e = "''bad MIME''"
                                and env = ex_env and ds = "cutoff ex_env" and st = ext_init]
  by (simp add: ex_msg_def model_simps cutoff_def dt_ge_aware dt_sub_def now_utc_def timedelta_days_def utc_instant_def
                day_us_def)

text \<open>
  C29. No upper bound on the window: a parseable message whose Date header
  is later than the request, by any amount, passes the 24-hour filter and is
  recorded.
\<close>

theorem future_message_accepted:
  assumes "msg_fault m = None" and "env_clock env 0 \<le> dt_wall (msg_date m)"
  shows "es_data (process_msg env (cutoff env) st m) = es_data st @ [record_of env m (env_clock env (es_ticks st))]"
proof -
  have "env_clock env 0 - day_us \<le> dt_wall (msg_date m)" using assms(2) day_us_pos by linarith
  with assms(1) have "accepted (cutoff env) m" by (simp add: accepted_cutoff_iff)
  then show ?thesis by (simp add: process_msg_effect)
qed

theorem future_message_accepted_witness:
  "es_data (process_msg ex_env (cutoff ex_env) ext_init ex_future_msg) =
     [record_of ex_env ex_future_msg (env_clock ex_env 0)]"
  using future_message_accepted [where m = ex_future_msg and env = ex_env and st = ext_init]
  by (simp add: model_simps day_us_def ext_init_def)

end
