(* ===== verification/Store.thy ===== *)
theory Store
  imports Summarizer
begin

text \<open>
  The Supabase table \<^verbatim>\<open>emails\<close> as the program uses it
  (\<^verbatim>\<open>src/app/main.py\<close>: the existence probe of lines 46--64, the insert of
  line 195, the ordered select of line 220). The store is not code of the
  repository; it is modelled from the schema the code prints and the
  specification (section 6, "Store collaborator"): a table that may be
  unreachable or missing, rows with an identity key, and transient insert
  failures, given as the numbers of the insert attempts that fail.
\<close>

record row =
  row_id :: nat
  row_email :: email_record

record store =
  st_up :: bool
  st_table_exists :: bool
  st_rows :: "row list"
  st_next_id :: nat                \<comment> \<open>\<^verbatim>\<open>id bigint generated by default as identity\<close>\<close>
  st_attempts :: nat               \<comment> \<open>insert attempts so far\<close>
  st_insert_faults :: "nat list"   \<comment> \<open>the attempts that fail\<close>

definition missing_table_error :: string where
  "missing_table_error = ''relation \"public.emails\" does not exist''"

definition store_access :: "store \<Rightarrow> string + unit" where
  "store_access st =
     (if \<not> st_up st then Inl ''[Errno 111] Connection refused''
      else if \<not> st_table_exists st then Inl missing_table_error
      else Inr ())"

text \<open>\<^verbatim>\<open>supabase.table("emails").insert(email_data).execute()\<close>: the new row's id, or the error.\<close>

definition table_insert :: "store \<Rightarrow> email_record \<Rightarrow> (string + nat) \<times> store" where
  "table_insert st e =
     (let st' = st\<lparr>st_attempts := Suc (st_attempts st)\<rparr> in
      case store_access st of
        Inl err \<Rightarrow> (Inl err, st')
      | Inr _ \<Rightarrow>
          (if st_attempts st \<in> set (st_insert_faults st) then (Inl ''insert failed'', st')
           else (Inr (st_next_id st),
                 st'\<lparr>st_rows := st_rows st @ [\<lparr>row_id = st_next_id st, row_email = e\<rparr>],
                     st_next_id := Suc (st_next_id st)\<rparr>)))"

definition row_instant :: "row \<Rightarrow> usec" where
  "row_instant r = utc_instant (ec_date (row_email r))"

text \<open>
  \<^verbatim>\<open>select("*").order('date.desc')\<close>: all rows, latest date first. The
  \<^verbatim>\<open>timestamptz\<close> column compares instants; rows with equal dates come in
  insertion order here, an order the database does not promise and no theorem
  relies on.
\<close>

definition table_select_desc :: "store \<Rightarrow> string + row list" where
  "table_select_desc st =
     (case store_access st of
        Inl err \<Rightarrow> Inl err
      | Inr _ \<Rightarrow> Inr (sort_key (\<lambda>r. - row_instant r) (st_rows st)))"

text \<open>\<^verbatim>\<open>select("*").limit(1)\<close>, the existence probe.\<close>

definition table_probe :: "store \<Rightarrow> string + row list" where
  "table_probe st =
     (case store_access st of
        Inl err \<Rightarrow> Inl err
      | Inr _ \<Rightarrow> Inr (take 1 (st_rows st)))"

text \<open>The triple-quoted string logged at lines 53--64, line by line: it starts with a newline and ends with the indentation of its closing quotes.\<close>

definition schema_sql :: string where
  "schema_sql =
     py_join nl
       [[],
        ''    create table if not exists emails ('',
        ''        id bigint generated by default as identity primary key,'',
        ''        subject text,'',
        ''        from_address text,'',
        ''        to_address text,'',
        ''        date timestamp with time zone,'',
        ''        text text,'',
        ''        summary text,'',
        ''        extracted_at timestamp with time zone default timezone('utc'::text, now())'',
        ''    );'',
        ''    '']"

text \<open>Lines 46--64: the probe at start-up and what it logs; nothing is created.\<close>

definition bootstrap_check :: "store \<Rightarrow> log_line list" where
  "bootstrap_check st =
     LogInfo ''Checking/Creating emails table in Supabase'' #
     (case table_probe st of
        Inr _ \<Rightarrow> []
      | Inl err \<Rightarrow>
          [LogWarning (''Emails table might not exist: '' @ err),
           LogInfo ''Please create the following table in Supabase:'',
           LogInfo schema_sql])"

text \<open>Well-formedness: identity keys are distinct and below the next key.\<close>

definition store_wf :: "store \<Rightarrow> bool" where
  "store_wf st \<longleftrightarrow> distinct (map row_id (st_rows st)) \<and> (\<forall>r \<in> set (st_rows st). row_id r < st_next_id st)"

text \<open>An example store: reachable, table present, one row, the third insert attempt fails.\<close>

definition ex_store :: store where
  "ex_store =
     \<lparr>st_up = True, st_table_exists = True,
      st_rows = [\<lparr>row_id = 1, row_email = email_content.extend ex_content (email_record.fields ''Old.'')\<rparr>],
      st_next_id = 2, st_attempts = 1, st_insert_faults = [2]\<rparr>"

declare ex_store_def [model_simps]

subsection \<open>Lemmas\<close>

lemma table_insert_cases:
  obtains (ok) "store_access st = Inr ()" "st_attempts st \<notin> set (st_insert_faults st)"
      "table_insert st e = (Inr (st_next_id st),
          st\<lparr>st_attempts := Suc (st_attempts st),
             st_rows := st_rows st @ [\<lparr>row_id = st_next_id st, row_email = e\<rparr>],
             st_next_id := Suc (st_next_id st)\<rparr>)"
  | (fail) err where "store_access st = Inl err \<or> st_attempts st \<in> set (st_insert_faults st)"
      "table_insert st e = (Inl err, st\<lparr>st_attempts := Suc (st_attempts st)\<rparr>)"
  by (cases "store_access st") (auto simp: table_insert_def split: if_splits)

lemma table_insert_frame:
  "st_up (snd (table_insert st e)) = st_up st"
  "st_table_exists (snd (table_insert st e)) = st_table_exists st"
  "st_insert_faults (snd (table_insert st e)) = st_insert_faults st"
  "st_attempts (snd (table_insert st e)) = Suc (st_attempts st)"
  by (rule table_insert_cases [of st e]; simp)+

lemma table_insert_rows_prefix:
  "\<exists>zs. st_rows (snd (table_insert st e)) = st_rows st @ zs"
  by (rule table_insert_cases [of st e]) auto

lemma store_access_ok_iff: "store_access st = Inr () \<longleftrightarrow> st_up st \<and> st_table_exists st"
  by (simp add: store_access_def)

lemma store_wf_table_insert:
  assumes "store_wf st"
  shows "store_wf (snd (table_insert st e))"
proof (rule table_insert_cases [of st e])
  assume "table_insert st e = (Inr (st_next_id st),
          st\<lparr>st_attempts := Suc (st_attempts st),
             st_rows := st_rows st @ [\<lparr>row_id = st_next_id st, row_email = e\<rparr>],
             st_next_id := Suc (st_next_id st)\<rparr>)"
  with assms show ?thesis by (auto simp: store_wf_def)
next
  fix err
  assume "table_insert st e = (Inl err, st\<lparr>st_attempts := Suc (st_attempts st)\<rparr>)"
  with assms show ?thesis by (simp add: store_wf_def)
qed

subsection \<open>Properties of the store\<close>

lemma table_select_desc_Inr:
  assumes "table_select_desc st = Inr rows"
  shows "sorted_wrt (\<lambda>a b. row_instant b \<le> row_instant a) rows \<and> mset rows = mset (st_rows st)"
proof -
  from assms have rows: "rows = sort_key (\<lambda>r. - row_instant r) (st_rows st)"
    by (simp add: table_select_desc_def split: sum.splits)
  have "sorted (map (\<lambda>r. - row_instant r) rows)" by (simp add: rows)
  then have "sorted_wrt (\<lambda>a b. - row_instant a \<le> - row_instant b) rows"
    by (simp add: sorted_map)
  then show ?thesis by (simp add: rows)
qed

lemma table_select_desc_ok:
  "st_up st \<Longrightarrow> st_table_exists st \<Longrightarrow>
     table_select_desc st = Inr (sort_key (\<lambda>r. - row_instant r) (st_rows st))"
  by (simp add: table_select_desc_def store_access_def)

text \<open>
  C8. Bootstrap: the start-up check logs the schema to create exactly when the
  probe fails, that is when the store is unreachable or the table is missing;
  it never writes to the store.
\<close>

theorem bootstrap_advises_schema:
  "LogInfo schema_sql \<in> set (bootstrap_check st) \<longleftrightarrow> \<not> (st_up st \<and> st_table_exists st)"
  by (auto simp: bootstrap_check_def table_probe_def store_access_def schema_sql_def split: sum.splits)

end
