(* ===== verification/Api.thy ===== *)
theory Api
  imports Extractor Store
begin

text \<open>
  The two endpoints of \<^verbatim>\<open>src/app/main.py\<close>: \<^verbatim>\<open>extract_from_email\<close>
  (\<^verbatim>\<open>POST /extract\<close>, lines 171--213), which runs the extractor and inserts
  each record into the store one by one, counting the inserts that succeed, and
  \<^verbatim>\<open>get_emails\<close> (\<^verbatim>\<open>GET /emails\<close>, lines 215--234), which lists the table
  latest first. Responses are the dictionaries the handlers return; errors are
  the \<^verbatim>\<open>HTTPException\<close> they raise. Each handler and the insert loop is
  modelled with the lines it logs (\<open>_logged\<close>); the handler itself is the
  projection on its result and the store. The outer \<^verbatim>\<open>except\<close> of
  \<^verbatim>\<open>extract_from_email\<close> re-raises an \<^verbatim>\<open>HTTPException\<close> unchanged; no other
  exception reaches it in this model (the insert loop catches its own), so its
  \<^verbatim>\<open>str(e)\<close> branch is not a branch here.
\<close>

record email_request =
  er_email_address :: string
  er_password :: string
  er_sender_addresses :: "string list"

datatype extract_response =
    ExtractNone string "string list"            \<comment> \<open>message, senders_processed\<close>
  | ExtractDone string nat nat "string list"    \<comment> \<open>message, emails_found, emails_stored, senders_processed\<close>

datatype list_response =
    ListNone string                             \<comment> \<open>message\<close>
  | ListEmails "row list" nat                   \<comment> \<open>emails, total_count\<close>

text \<open>
  The insert loop of lines 192--200, with \<^verbatim>\<open>stored_count\<close> as the counter
  and the line logged for each record.
\<close>

fun store_emails_logged :: "store \<Rightarrow> email_record list \<Rightarrow> nat \<Rightarrow> (nat \<times> store) \<times> log_line list" where
  "store_emails_logged st [] n = ((n, st), [])"
| "store_emails_logged st (e # es) n =
     (case table_insert st e of
        (Inl err, st') \<Rightarrow>
          (case store_emails_logged st' es n of
             (r, l) \<Rightarrow> (r, LogError (''Failed to store email: '' @ err) # l))
      | (Inr _, st') \<Rightarrow>
          (case store_emails_logged st' es (Suc n) of
             (r, l) \<Rightarrow> (r, LogInfo (''Stored email: '' @ take 30 (ec_subject e) @ ''...'') # l)))"

definition store_emails :: "store \<Rightarrow> email_record list \<Rightarrow> nat \<Rightarrow> nat \<times> store" where
  "store_emails st es n = fst (store_emails_logged st es n)"

text \<open>\<^verbatim>\<open>extract_from_email\<close>, lines 171--213, and what it logs.\<close>

definition extract_from_email_logged ::
  "env \<Rightarrow> store \<Rightarrow> email_request \<Rightarrow> ((http_exception + extract_response) \<times> store) \<times> log_line list" where
  "extract_from_email_logged env st req =
     (let (res, est) = extract_emails_from_inbox env (er_email_address req) (er_password req)
                         (er_sender_addresses req);
          log0 = LogInfo (''Starting email extraction for: '' @ er_email_address req) # es_log est
      in case res of
           Inl exc \<Rightarrow>
             ((Inl exc, st), log0 @ [LogError (''Error in extract_from_email: '' @ http_exception_str exc)])
         | Inr [] \<Rightarrow>
             ((Inr (ExtractNone ''No emails found in the last 24 hours from specified senders''
                      (er_sender_addresses req)), st),
              log0 @ [LogWarning ''No emails found in the last 24 hours from specified senders''])
         | Inr recs \<Rightarrow>
             (let ((n, st'), l) = store_emails_logged st recs 0
              in ((Inr (ExtractDone ''Emails extracted and stored successfully'' (length recs) n
                          (er_sender_addresses req)), st'),
                  log0 @ LogInfo ''Storing emails in Supabase'' # l)))"

definition extract_from_email ::
  "env \<Rightarrow> store \<Rightarrow> email_request \<Rightarrow> (http_exception + extract_response) \<times> store" where
  "extract_from_email env st req = fst (extract_from_email_logged env st req)"

text \<open>\<^verbatim>\<open>get_emails\<close>, lines 215--234, and what it logs.\<close>

definition get_emails_logged :: "store \<Rightarrow> (http_exception + list_response) \<times> log_line list" where
  "get_emails_logged st =
     (let l0 = LogInfo ''Retrieving emails from Supabase'' in
      case table_select_desc st of
        Inl err \<Rightarrow> (Inl (HTTPException 500 (DetailText err)), [l0, LogError (''Error in get_emails: '' @ err)])
      | Inr [] \<Rightarrow> (Inr (ListNone ''No emails found in database''), [l0, LogWarning ''No emails found in database''])
      | Inr rows \<Rightarrow> (Inr (ListEmails rows (length rows)), [l0]))"

definition get_emails :: "store \<Rightarrow> http_exception + list_response" where
  "get_emails st = fst (get_emails_logged st)"

subsection \<open>Which inserts succeed\<close>

text \<open>
  Insert attempt \<open>a\<close> succeeds when the store is up, the table exists and
  \<open>a\<close> is not one of the failing attempts; the records stored by the loop are
  those whose own attempt succeeds, in order.
\<close>

definition insert_succeeds :: "store \<Rightarrow> nat \<Rightarrow> bool" where
  "insert_succeeds st a \<longleftrightarrow> st_up st \<and> st_table_exists st \<and> a \<notin> set (st_insert_faults st)"

definition stored_part :: "store \<Rightarrow> email_record list \<Rightarrow> email_record list" where
  "stored_part st es =
     map snd (filter (\<lambda>(a, e). insert_succeeds st a) (zip [st_attempts st..<st_attempts st + length es] es))"

text \<open>
  The line the loop logs for each record: the stored subject, or the error of
  its insert, which is the store's access error or a transient failure.
\<close>

definition insert_error :: "store \<Rightarrow> string" where
  "insert_error st = (case store_access st of Inl err \<Rightarrow> err | Inr _ \<Rightarrow> ''insert failed'')"

definition store_log_of :: "store \<Rightarrow> email_record list \<Rightarrow> log_line list" where
  "store_log_of st es =
     map (\<lambda>(a, e). if insert_succeeds st a then LogInfo (''Stored email: '' @ take 30 (ec_subject e) @ ''...'')
                  else LogError (''Failed to store email: '' @ insert_error st))
       (zip [st_attempts st..<st_attempts st + length es] es)"

text \<open>The request of the example of the specification, section 8.\<close>

definition ex_request :: email_request where
  "ex_request = \<lparr>er_email_address = ''me@gmail.com'', er_password = ''pw'', er_sender_addresses = [''a@x.com'']\<rparr>"

definition ex_record :: "string \<Rightarrow> email_record" where
  "ex_record summary = email_content.extend ex_content (email_record.fields summary)"

declare ex_request_def [model_simps]

subsection \<open>Lemmas\<close>

lemma store_emails_Nil [simp]: "store_emails st [] n = (n, st)"
  by (simp add: store_emails_def)

lemma store_emails_Cons [simp]:
  "store_emails st (e # es) n =
     (case table_insert st e of
        (Inl _, st') \<Rightarrow> store_emails st' es n
      | (Inr _, st') \<Rightarrow> store_emails st' es (Suc n))"
  by (simp add: store_emails_def split: prod.split sum.split)

lemma get_emails_eq:
  "get_emails st =
     (case table_select_desc st of
        Inl err \<Rightarrow> Inl (HTTPException 500 (DetailText err))
      | Inr [] \<Rightarrow> Inr (ListNone ''No emails found in database'')
      | Inr rows \<Rightarrow> Inr (ListEmails rows (length rows)))"
  by (simp add: get_emails_def get_emails_logged_def split: sum.split list.split)

lemma insert_succeeds_insert [simp]:
  "insert_succeeds (snd (table_insert st e)) a = insert_succeeds st a"
  by (simp add: insert_succeeds_def table_insert_frame)

lemma stored_part_Cons:
  "stored_part st (e # es) =
     (if insert_succeeds st (st_attempts st) then [e] else []) @ stored_part (snd (table_insert st e)) es"
proof -
  have "[st_attempts st..<st_attempts st + length (e # es)] =
          st_attempts st # [Suc (st_attempts st)..<Suc (st_attempts st) + length es]"
    by (simp add: upt_conv_Cons del: upt_Suc)
  then show ?thesis by (simp add: stored_part_def table_insert_frame)
qed

lemma insert_error_insert [simp]: "insert_error (snd (table_insert st e)) = insert_error st"
  by (simp add: insert_error_def store_access_def table_insert_frame)

lemma table_insert_error: "table_insert st e = (Inl err, st') \<Longrightarrow> err = insert_error st"
  by (auto simp: table_insert_def insert_error_def Let_def split: sum.splits if_splits)

lemma store_log_of_Cons:
  "store_log_of st (e # es) =
     (if insert_succeeds st (st_attempts st) then LogInfo (''Stored email: '' @ take 30 (ec_subject e) @ ''...'')
      else LogError (''Failed to store email: '' @ insert_error st)) # store_log_of (snd (table_insert st e)) es"
proof -
  have "[st_attempts st..<st_attempts st + length (e # es)] =
          st_attempts st # [Suc (st_attempts st)..<Suc (st_attempts st) + length es]"
    by (simp add: upt_conv_Cons del: upt_Suc)
  then show ?thesis
    unfolding store_log_of_def insert_error_insert by (simp add: table_insert_frame del: upt_Suc)
qed

lemma table_insert_result:
  "table_insert st e = (r, st') \<Longrightarrow>
     (case r of Inr _ \<Rightarrow> insert_succeeds st (st_attempts st) | Inl _ \<Rightarrow> \<not> insert_succeeds st (st_attempts st))
     \<and> map row_email (st_rows st') =
        map row_email (st_rows st) @ (if insert_succeeds st (st_attempts st) then [e] else [])"
  by (rule table_insert_cases [of st e])
     (auto simp: insert_succeeds_def store_access_ok_iff store_access_def split: if_splits)

lemma store_emails_effect:
  "store_emails st es n = (n', st') \<Longrightarrow>
     map row_email (st_rows st') = map row_email (st_rows st) @ stored_part st es
     \<and> n' = n + length (stored_part st es)
     \<and> st_attempts st' = st_attempts st + length es"
proof (induction es arbitrary: st n)
  case Nil
  then show ?case by (simp add: stored_part_def)
next
  case (Cons e es)
  obtain r st1 where ins: "table_insert st e = (r, st1)" by (cases "table_insert st e")
  have st1: "st1 = snd (table_insert st e)" by (simp add: ins)
  show ?case
  proof (cases r)
    case (Inl err)
    with Cons.prems ins have "store_emails st1 es n = (n', st')" by simp
    from Cons.IH [OF this] table_insert_result [OF ins] Inl st1 show ?thesis
      by (simp add: stored_part_Cons table_insert_frame)
  next
    case (Inr i)
    with Cons.prems ins have "store_emails st1 es (Suc n) = (n', st')" by simp
    from Cons.IH [OF this] table_insert_result [OF ins] Inr st1 show ?thesis
      by (simp add: stored_part_Cons table_insert_frame)
  qed
qed

lemma stored_part_length: "length (stored_part st es) \<le> length es"
proof -
  have "length (stored_part st es)
          \<le> length (zip [st_attempts st..<st_attempts st + length es] es)"
    unfolding stored_part_def length_map by (rule length_filter_le)
  then show ?thesis by simp
qed

lemma extract_from_email_cases:
  "extract_from_email env st req =
     (case fst (extract_emails_from_inbox env (er_email_address req) (er_password req)
                  (er_sender_addresses req)) of
        Inl exc \<Rightarrow> (Inl exc, st)
      | Inr [] \<Rightarrow>
          (Inr (ExtractNone ''No emails found in the last 24 hours from specified senders''
                  (er_sender_addresses req)), st)
      | Inr recs \<Rightarrow>
          (Inr (ExtractDone ''Emails extracted and stored successfully'' (length recs)
                  (fst (store_emails st recs 0)) (er_sender_addresses req)),
           snd (store_emails st recs 0)))"
  by (simp add: extract_from_email_def extract_from_email_logged_def store_emails_def Let_def
           split: sum.splits list.splits prod.splits)

lemma extract_from_email_password:
  assumes "er_email_address a = er_email_address b" "er_sender_addresses a = er_sender_addresses b"
    and "imap_login (env_server env) (er_email_address a) (er_password a) =
         imap_login (env_server env) (er_email_address b) (er_password b)"
  shows "extract_from_email_logged env st a = extract_from_email_logged env st b"
proof -
  have e: "extract_emails_from_inbox env (er_email_address b) (er_password a) (er_sender_addresses b) =
           extract_emails_from_inbox env (er_email_address b) (er_password b) (er_sender_addresses b)"
    by (rule extract_password_irrelevant [OF assms(3) [unfolded assms(1)]])
  show ?thesis unfolding extract_from_email_logged_def assms(1,2) e ..
qed

lemma store_emails_count: "fst (store_emails st es n) = n + length (stored_part st es)"
  using store_emails_effect [of st es n "fst (store_emails st es n)" "snd (store_emails st es n)"]
  by simp

lemma store_emails_Cons_eq:
  "\<exists>n'. store_emails st (e # es) n = store_emails (snd (table_insert st e)) es n'"
  by (auto split: prod.splits sum.splits)

lemma store_wf_store_emails: "store_wf st \<Longrightarrow> store_wf (snd (store_emails st es n))"
proof (induction es arbitrary: st n)
  case Nil
  then show ?case by simp
next
  case (Cons e es)
  from Cons.prems have "store_wf (snd (table_insert st e))" by (rule store_wf_table_insert)
  with Cons.IH store_emails_Cons_eq [of st e es n] show ?case by (metis)
qed

lemma store_emails_rows_prefix: "\<exists>zs. st_rows (snd (store_emails st es n)) = st_rows st @ zs"
proof (induction es arbitrary: st n)
  case Nil
  then show ?case by simp
next
  case (Cons e es)
  obtain zs where "st_rows (snd (table_insert st e)) = st_rows st @ zs"
    using table_insert_rows_prefix by blast
  moreover obtain n' where "store_emails st (e # es) n = store_emails (snd (table_insert st e)) es n'"
    using store_emails_Cons_eq by blast
  ultimately show ?case using Cons.IH [of "snd (table_insert st e)" n'] by auto
qed

lemma extract_from_email_store:
  "store_wf st \<Longrightarrow> store_wf (snd (extract_from_email env st req))"
  "\<exists>zs. st_rows (snd (extract_from_email env st req)) = st_rows st @ zs"
  by (auto simp: extract_from_email_cases store_wf_store_emails store_emails_rows_prefix
           simp del: store_emails_Cons split: sum.splits list.splits)

lemma stored_part_all:
  "length (stored_part st es) = length es \<Longrightarrow> stored_part st es = es"
proof -
  let ?zs = "zip [st_attempts st..<st_attempts st + length es] es"
  assume "length (stored_part st es) = length es"
  then have "length (filter (\<lambda>(a, e). insert_succeeds st a) ?zs) = length ?zs"
    by (simp add: stored_part_def)
  then have "filter (\<lambda>(a, e). insert_succeeds st a) ?zs = ?zs"
    by (metis filter_id_conv length_filter_less not_less_iff_gr_or_eq)
  then show ?thesis by (simp add: stored_part_def)
qed

subsection \<open>Properties of the endpoints\<close>

text \<open>
  C9. Counts: a response of \<^verbatim>\<open>POST /extract\<close> with counts reports at least one
  email found, no more stored than found, and the sender list of the request.
\<close>

theorem extract_counts_bounded:
  assumes "extract_from_email env st req = (Inr (ExtractDone msg found stored senders), st')"
  shows "stored \<le> found \<and> 0 < found \<and> senders = er_sender_addresses req"
proof (cases "fst (extract_emails_from_inbox env (er_email_address req) (er_password req)
                      (er_sender_addresses req))")
  case (Inl exc)
  with assms show ?thesis by (simp add: extract_from_email_cases)
next
  case (Inr recs)
  show ?thesis
  proof (cases recs)
    case Nil
    with Inr assms show ?thesis by (simp add: extract_from_email_cases)
  next
    case (Cons r rs)
    with Inr assms have "stored = fst (store_emails st recs 0)" "found = length recs"
        "senders = er_sender_addresses req"
      by (simp_all add: extract_from_email_cases del: store_emails_Cons)
    with Cons show ?thesis
      using stored_part_length [of st recs] by (simp add: store_emails_count del: store_emails_Cons)
  qed
qed

theorem extract_counts_bounded_witness:
  "extract_from_email ex_env ex_store ex_request =
     (Inr (ExtractDone ''Emails extracted and stored successfully'' 1 1 [''a@x.com'']),
      snd (extract_from_email ex_env ex_store ex_request)) \<and>
   (1::nat) \<le> 1 \<and> (0::nat) < 1 \<and> [''a@x.com''] = er_sender_addresses ex_request"
proof -
  have h: "extract_from_email ex_env ex_store ex_request =
     (Inr (ExtractDone ''Emails extracted and stored successfully'' 1 1 [''a@x.com'']),
      snd (extract_from_email ex_env ex_store ex_request))"
    by code_simp
  from h extract_counts_bounded [OF h] show ?thesis by simp
qed

text \<open>
  C10. Insert loop: the rows the loop adds are exactly the records whose own
  insert attempt succeeds, in order, and \<^verbatim>\<open>stored_count\<close> counts them; a
  failing insert never keeps a later one from being made.
\<close>

theorem store_emails_stores_successes:
  assumes "store_emails st es n = (n', st')"
  shows "map row_email (st_rows st') = map row_email (st_rows st) @ stored_part st es
         \<and> n' = n + length (stored_part st es)"
  using store_emails_effect [OF assms] by simp

theorem store_emails_stores_successes_witness:
  "map row_email (st_rows (snd (store_emails ex_store [ex_record ''A'', ex_record ''B'', ex_record ''C''] 0)))
     = map row_email (st_rows ex_store) @ [ex_record ''A'', ex_record ''C''] \<and>
   fst (store_emails ex_store [ex_record ''A'', ex_record ''B'', ex_record ''C''] 0) = 2"
proof -
  have parts: "stored_part ex_store [ex_record ''A'', ex_record ''B'', ex_record ''C''] =
                 [ex_record ''A'', ex_record ''C'']"
    by (simp add: stored_part_def insert_succeeds_def model_simps)
  let ?es = "[ex_record ''A'', ex_record ''B'', ex_record ''C'']"
  have "store_emails ex_store ?es 0 = (fst (store_emails ex_store ?es 0), snd (store_emails ex_store ?es 0))"
    by simp
  from store_emails_stores_successes [OF this] parts show ?thesis
    by (simp del: store_emails_Cons)
qed

text \<open>
  C11. Nothing found: when extraction returns no record, the endpoint answers
  with the "no emails found" shape and the sender list, and the store is
  untouched: no insert is attempted.
\<close>

theorem extract_none_found:
  assumes "fst (extract_emails_from_inbox env (er_email_address req) (er_password req)
                 (er_sender_addresses req)) = Inr []"
  shows "extract_from_email env st req =
           (Inr (ExtractNone ''No emails found in the last 24 hours from specified senders''
                   (er_sender_addresses req)), st)"
  using assms by (simp add: extract_from_email_cases)

theorem extract_none_found_witness:
  "extract_from_email ex_env ex_store (ex_request\<lparr>er_sender_addresses := [''b@y.com'']\<rparr>) =
     (Inr (ExtractNone ''No emails found in the last 24 hours from specified senders'' [''b@y.com'']),
      ex_store)"
proof -
  have "fst (extract_emails_from_inbox ex_env ''me@gmail.com'' ''pw'' [''b@y.com'']) = Inr []"
    by code_simp
  then show ?thesis
    using extract_none_found [of ex_env "ex_request\<lparr>er_sender_addresses := [''b@y.com'']\<rparr>" ex_store]
    by (simp add: model_simps)
qed

text \<open>
  C12. Mailbox failure: when the session cannot be opened or a search fails, the
  endpoint raises \<^verbatim>\<open>HTTPException(500)\<close> whose detail carries the message
  \<^verbatim>\<open>Failed to fetch emails\<close>, the error text and the mailbox address, and the
  store is untouched.
\<close>

theorem extract_mailbox_error:
  assumes "fst (extract_emails_from_inbox env (er_email_address req) (er_password req)
                 (er_sender_addresses req)) = Inl exc"
  shows "\<exists>e. extract_from_email env st req =
              (Inl (HTTPException 500 (DetailFetch ''Failed to fetch emails'' e (er_email_address req))), st)"
  using assms extract_Inl [OF assms] by (auto simp: extract_from_email_cases fetch_error_def)

theorem extract_mailbox_error_witness:
  "\<exists>e. extract_from_email ex_env ex_store (ex_request\<lparr>er_password := ''wrong''\<rparr>) =
      (Inl (HTTPException 500 (DetailFetch ''Failed to fetch emails'' e ''me@gmail.com'')), ex_store)"
proof -
  have "fst (extract_emails_from_inbox ex_env ''me@gmail.com'' ''wrong'' [''a@x.com'']) =
          Inl (fetch_error ''[AUTHENTICATIONFAILED] Invalid credentials (Failure)'' ''me@gmail.com'')"
    by code_simp
  then show ?thesis
    using extract_mailbox_error [of ex_env "ex_request\<lparr>er_password := ''wrong''\<rparr>"]
    by (simp add: model_simps)
qed

text \<open>
  C13. Listing: a list response of \<^verbatim>\<open>GET /emails\<close> holds every stored row,
  each as often as it is stored, latest message date first, and a
  \<^verbatim>\<open>total_count\<close> equal to its length.
\<close>

theorem get_emails_sorted:
  assumes "get_emails st = Inr (ListEmails rows n)"
  shows "sorted_wrt (\<lambda>a b. row_instant b \<le> row_instant a) rows \<and> mset rows = mset (st_rows st)
         \<and> n = length rows \<and> rows \<noteq> []"
proof (cases "table_select_desc st")
  case (Inl err)
  with assms show ?thesis by (simp add: get_emails_eq)
next
  case (Inr rows')
  with assms have "rows' = rows" "n = length rows" "rows \<noteq> []"
    by (auto simp: get_emails_eq split: list.splits)
  with table_select_desc_Inr [OF Inr] show ?thesis by simp
qed

theorem get_emails_sorted_witness:
  "get_emails ex_store = Inr (ListEmails (st_rows ex_store) 1) \<and>
   sorted_wrt (\<lambda>a b. row_instant b \<le> row_instant a) (st_rows ex_store)"
proof -
  have h: "get_emails ex_store = Inr (ListEmails (st_rows ex_store) 1)"
    by (simp add: get_emails_eq table_select_desc_def store_access_def model_simps)
  from h get_emails_sorted [OF h] show ?thesis by simp
qed

text \<open>
  Empty table: on a reachable store with an empty table the listing
  answers \<^verbatim>\<open>{"message": "No emails found in database"}\<close>, with no
  \<^verbatim>\<open>emails\<close> key.
\<close>

theorem get_emails_empty:
  assumes "st_up st" and "st_table_exists st" and "st_rows st = []"
  shows "get_emails st = Inr (ListNone ''No emails found in database'')"
  using assms by (simp add: get_emails_eq table_select_desc_ok)

theorem get_emails_empty_witness:
  "get_emails (ex_store\<lparr>st_rows := []\<rparr>) = Inr (ListNone ''No emails found in database'')"
  by (rule get_emails_empty) (simp_all add: model_simps)

text \<open>
  Store failure: when the store is unreachable or the table is missing the
  listing raises \<^verbatim>\<open>HTTPException(500)\<close> with the raw error text.
\<close>

theorem get_emails_error:
  assumes "\<not> (st_up st \<and> st_table_exists st)"
  shows "\<exists>err. get_emails st = Inl (HTTPException 500 (DetailText err))"
  using assms by (auto simp: get_emails_eq table_select_desc_def store_access_def)

theorem get_emails_error_witness:
  "\<exists>err. get_emails (ex_store\<lparr>st_up := False\<rparr>) = Inl (HTTPException 500 (DetailText err))"
  by (rule get_emails_error) simp

text \<open>
  The insert loop logs one line per record, in order: the record's
  subject, cut to 30 characters, when its insert succeeds, and otherwise the
  error of that insert.
\<close>

theorem store_emails_log: "snd (store_emails_logged st es n) = store_log_of st es"
proof (induction es arbitrary: st n)
  case Nil
  then show ?case by (simp add: store_log_of_def)
next
  case (Cons e es)
  obtain r st1 where ins: "table_insert st e = (r, st1)" by (cases "table_insert st e")
  have st1: "st1 = snd (table_insert st e)" by (simp add: ins)
  note res = table_insert_result [OF ins]
  show ?case
  proof (cases r)
    case (Inl err)
    with res ins have "\<not> insert_succeeds st (st_attempts st)" "err = insert_error st"
      by (auto dest: table_insert_error)
    moreover have "snd (store_emails_logged st (e # es) n) =
        LogError (''Failed to store email: '' @ err) # snd (store_emails_logged st1 es n)"
      using ins Inl by (simp add: case_prod_beta)
    ultimately show ?thesis using Cons.IH [of st1 n] by (simp add: store_log_of_Cons st1)
  next
    case (Inr i)
    with res have "insert_succeeds st (st_attempts st)" by simp
    moreover have "snd (store_emails_logged st (e # es) n) =
        LogInfo (''Stored email: '' @ take 30 (ec_subject e) @ ''...'') # snd (store_emails_logged st1 es (Suc n))"
      using ins Inr by (simp add: case_prod_beta)
    ultimately show ?thesis using Cons.IH [of st1 "Suc n"] by (simp add: store_log_of_Cons st1)
  qed
qed

end
