(* ===== verification/Timestamp.thy ===== *)
theory Timestamp
  imports Calendar "HOL-Library.Monad_Syntax"
begin

text \<open>
  How the database reads the strings the program stores. The record's
  \<^verbatim>\<open>date\<close> and \<^verbatim>\<open>extracted_at\<close> are sent as their \<^verbatim>\<open>isoformat()\<close>
  strings (\<^verbatim>\<open>src/app/main.py\<close>, lines 140 and 142) into columns of type
  \<^verbatim>\<open>timestamp with time zone\<close> (lines 59 and 61). The reader is PostgreSQL's
  input routine, not code of the repository; it is modelled from its
  documentation for the ISO 8601 form that \<^verbatim>\<open>isoformat\<close> prints:
  \<^verbatim>\<open>YYYY-MM-DDTHH:MM:SS\<close>, an optional \<^verbatim>\<open>.ffffff\<close>, and an optional UTC
  offset \<^verbatim>\<open>+HH:MM\<close>, \<^verbatim>\<open>:SS\<close> and \<^verbatim>\<open>.ffffff\<close> further optional. Each step
  consumes a prefix of the string and returns the rest, in the option monad.
\<close>

definition is_digit :: "char \<Rightarrow> bool" where
  "is_digit c \<longleftrightarrow> 48 \<le> (of_char c :: int) \<and> (of_char c :: int) \<le> 57"

definition digit_val :: "char \<Rightarrow> int" where
  "digit_val c = of_char c - 48"

definition digits_val :: "string \<Rightarrow> int" where
  "digits_val s = foldl (\<lambda>a c. 10 * a + digit_val c) 0 s"

text \<open>A field of exactly \<open>n\<close> decimal digits.\<close>

definition take_num :: "nat \<Rightarrow> string \<Rightarrow> (int \<times> string) option" where
  "take_num n s =
     (if n \<le> length s \<and> list_all is_digit (take n s) then Some (digits_val (take n s), drop n s) else None)"

definition take_char :: "char \<Rightarrow> string \<Rightarrow> string option" where
  "take_char c s = (case s of d # r \<Rightarrow> if d = c then Some r else None | [] \<Rightarrow> None)"

text \<open>An optional part introduced by the character \<open>c\<close>: its value, or \<open>0\<close> when absent.\<close>

definition opt_num :: "char \<Rightarrow> nat \<Rightarrow> string \<Rightarrow> (int \<times> string) option" where
  "opt_num c n s = (case take_char c s of Some r \<Rightarrow> take_num n r | None \<Rightarrow> Some (0, s))"

text \<open>The UTC offset: \<open>Some None\<close> when the string ends without one.\<close>

definition parse_offset :: "string \<Rightarrow> usec option option" where
  "parse_offset s =
     (case s of
        [] \<Rightarrow> Some None
      | c # r \<Rightarrow>
          if c \<noteq> CHR ''+'' \<and> c \<noteq> CHR ''-'' then None
          else do {
            (hh, r1) \<leftarrow> take_num 2 r;
            r2 \<leftarrow> take_char CHR '':'' r1;
            (mm, r3) \<leftarrow> take_num 2 r2;
            (ss, r4) \<leftarrow> opt_num CHR '':'' 2 r3;
            (us, r5) \<leftarrow> opt_num CHR ''.'' 6 r4;
            if r5 = [] then Some (Some ((if c = CHR ''-'' then -1 else 1) * ((((hh * 60 + mm) * 60 + ss) * 1000000) + us)))
            else None
          })"

definition parse_iso :: "string \<Rightarrow> (civil_time \<times> usec option) option" where
  "parse_iso s = do {
     (y, r1) \<leftarrow> take_num 4 s;
     r2 \<leftarrow> take_char CHR ''-'' r1;
     (mo, r3) \<leftarrow> take_num 2 r2;
     r4 \<leftarrow> take_char CHR ''-'' r3;
     (d, r5) \<leftarrow> take_num 2 r4;
     r6 \<leftarrow> take_char CHR ''T'' r5;
     (h, r7) \<leftarrow> take_num 2 r6;
     r8 \<leftarrow> take_char CHR '':'' r7;
     (mi, r9) \<leftarrow> take_num 2 r8;
     r10 \<leftarrow> take_char CHR '':'' r9;
     (sec, r11) \<leftarrow> take_num 2 r10;
     (us, r12) \<leftarrow> opt_num CHR ''.'' 6 r11;
     off \<leftarrow> parse_offset r12;
     Some (\<lparr>ct_year = y, ct_month = mo, ct_day = d, ct_hour = h, ct_minute = mi, ct_second = sec,
            ct_micro = us\<rparr>, off)
   }"

text \<open>
  The instant a \<^verbatim>\<open>timestamp with time zone\<close> column stores for a string
  with an explicit offset: its wall-clock time less the offset. (A string
  without offset would be read in the session's time zone, which the string
  does not determine.)
\<close>

definition pg_timestamptz :: "string \<Rightarrow> usec option" where
  "pg_timestamptz s = (case parse_iso s of Some (f, Some off) \<Rightarrow> Some (wall_of_fields f - off) | _ \<Rightarrow> None)"

text \<open>
  The other direction: the JSON text PostgreSQL writes for a stored instant
  when PostgREST serves \<^verbatim>\<open>select\<close> in a UTC session: the ISO 8601 form
  with a \<^verbatim>\<open>T\<close>, the fraction of the second with its trailing zeros trimmed
  (and no fraction when it is zero), and the offset \<^verbatim>\<open>+00:00\<close>.
\<close>

definition pg_timestamptz_out :: "usec \<Rightarrow> string" where
  "pg_timestamptz_out t =
    (let f = iso_fields (now_utc t);
         frac = rev (dropWhile (\<lambda>c. c = CHR ''0'') (rev (zpad 6 (ct_micro f))))
     in zpad 4 (ct_year f) @ ''-'' @ zpad 2 (ct_month f) @ ''-'' @ zpad 2 (ct_day f)
        @ ''T'' @ zpad 2 (ct_hour f) @ '':'' @ zpad 2 (ct_minute f) @ '':'' @ zpad 2 (ct_second f)
        @ (if frac = [] then [] else ''.'' @ frac) @ ''+00:00'')"

subsection \<open>Decimal digits\<close>

lemma of_char_digit:
  fixes n :: int
  assumes "0 \<le> n" "n < 10"
  shows "(of_char (char_of (48 + n)) :: int) = 48 + n"
  using assms by (simp add: of_char_of)

lemma digit_char:
  fixes n :: int
  assumes "0 \<le> n" "n < 10"
  shows "is_digit (char_of (48 + n)) \<and> digit_val (char_of (48 + n)) = n"
  using of_char_digit [OF assms] assms by (simp add: is_digit_def digit_val_def)

lemma digits_val_snoc: "digits_val (xs @ [c]) = 10 * digits_val xs + digit_val c"
  by (simp add: digits_val_def)

lemma dec_digits:
  "0 \<le> n \<Longrightarrow> dec n \<noteq> [] \<and> list_all is_digit (dec n) \<and> digits_val (dec n) = n"
proof (induction n rule: dec.induct)
  case (1 n)
  show ?case
  proof (cases "n < 10")
    case True
    with "1.prems" digit_char [of n] show ?thesis
      by (simp add: dec.simps digits_val_def)
  next
    case False
    with "1.prems" have ih: "list_all is_digit (dec (n div 10)) \<and> digits_val (dec (n div 10)) = n div 10"
      using "1.IH" by simp
    have "is_digit (char_of (48 + n mod 10)) \<and> digit_val (char_of (48 + n mod 10)) = n mod 10"
      by (rule digit_char) simp_all
    with False ih show ?thesis
      by (simp add: dec.simps [of n] digits_val_snoc)
  qed
qed

lemma dec_length:
  "0 \<le> n \<Longrightarrow> n < 10 ^ w \<Longrightarrow> 0 < w \<Longrightarrow> length (dec n) \<le> w"
proof (induction n arbitrary: w rule: dec.induct)
  case (1 n)
  show ?case
  proof (cases "n < 10")
    case True
    with "1.prems" show ?thesis by (simp add: dec.simps)
  next
    case False
    then obtain v where w: "w = Suc v" using "1.prems"(3) by (cases w) auto
    with "1.prems"(2) div_bounds [of 10 n] have "n div 10 < 10 ^ v" by simp
    moreover have "0 < v"
    proof (rule ccontr)
      assume "\<not> 0 < v"
      with w "1.prems"(2) False show False by simp
    qed
    ultimately have "length (dec (n div 10)) \<le> v"
      using "1.IH" False "1.prems"(1) by simp
    with False w show ?thesis by (simp add: dec.simps [of n])
  qed
qed

lemma digits_val_zeros: "digits_val (replicate k (CHR ''0'') @ s) = digits_val s"
proof -
  have "foldl (\<lambda>a c. 10 * a + digit_val c) 0 (replicate k (CHR ''0'')) = 0"
    by (induction k) (simp_all add: digit_val_def)
  then show ?thesis by (simp add: digits_val_def)
qed

lemma zpad_props:
  assumes "0 \<le> n" "n < 10 ^ w" "0 < w"
  shows "length (zpad w n) = w \<and> list_all is_digit (zpad w n) \<and> digits_val (zpad w n) = n"
proof -
  have "is_digit (CHR ''0'')" by (simp add: is_digit_def)
  with dec_digits [OF assms(1)] dec_length [OF assms] show ?thesis
    by (auto simp: zpad_def digits_val_zeros list_all_iff)
qed

lemma take_num_zpad:
  assumes "0 \<le> n" "n < 10 ^ w" "0 < w"
  shows "take_num w (zpad w n @ r) = Some (n, r)"
  using zpad_props [OF assms] by (simp add: take_num_def)

lemma take_num_zpad_end:
  assumes "0 \<le> n" "n < 10 ^ w" "0 < w"
  shows "take_num w (zpad w n) = Some (n, [])"
  using take_num_zpad [OF assms, of "[]"] by simp

lemma take_char_Cons [simp]: "take_char c (c # r) = Some r"
  by (simp add: take_char_def)

lemma take_char_other: "d \<noteq> c \<Longrightarrow> take_char c (d # r) = None"
  by (simp add: take_char_def)

lemma take_char_Nil [simp]: "take_char c [] = None"
  by (simp add: take_char_def)

lemma opt_num_absent: "take_char c s = None \<Longrightarrow> opt_num c n s = Some (0, s)"
  by (simp add: opt_num_def)

lemma opt_num_zpad:
  assumes "0 \<le> v" "v < 10 ^ n" "0 < n"
  shows "opt_num c n (c # zpad n v @ r) = Some (v, r)"
  using take_num_zpad [OF assms] by (simp add: opt_num_def)

lemma opt_num_zpad_end:
  assumes "0 \<le> v" "v < 10 ^ n" "0 < n"
  shows "opt_num c n (c # zpad n v) = Some (v, [])"
  using opt_num_zpad [OF assms, of c "[]"] by simp

subsection \<open>Reading back what \<^verbatim>\<open>isoformat\<close> prints\<close>

lemma iso_offset_sign:
  "\<exists>r. iso_offset off = (if off < 0 then CHR ''-'' else CHR ''+'') # r"
  by (simp add: iso_offset_def Let_def)

lemma parse_iso_offset:
  assumes "\<bar>off\<bar> < day_us"
  shows "parse_offset (iso_offset off) = Some (Some off)"
proof -
  define a where "a = \<bar>off\<bar>"
  define us where "us = a mod 1000000"
  define s where "s = a div 1000000"
  define hh where "hh = s div 3600"
  define mm where "mm = s mod 3600 div 60"
  define ss where "ss = s mod 60"
  have a: "0 \<le> a" "a < 86400000000" using assms by (simp_all add: a_def day_us_def)
  have s: "0 \<le> s" "s < 86400" using a div_bounds [of 1000000 a] by (simp_all add: s_def)
  have hh: "0 \<le> hh" "hh < 10 ^ 2" using s div_bounds [of 3600 s] by (simp_all add: hh_def)
  have mm: "0 \<le> mm" "mm < 10 ^ 2"
    using pos_mod_sign [of 3600 s] pos_mod_bound [of 3600 s] div_bounds [of 60 "s mod 3600"]
    by (simp_all add: mm_def)
  have ss: "0 \<le> ss" "ss < 10 ^ 2" by (simp_all add: ss_def)
  have us: "0 \<le> us" "us < 10 ^ 6" by (simp_all add: us_def)
  have val: "((hh * 60 + mm) * 60 + ss) * 1000000 + us = a"
    using hms_decomp [of s] by (simp add: hh_def mm_def ss_def us_def s_def)
  have sign: "off < 0 \<Longrightarrow> - a = off" "\<not> off < 0 \<Longrightarrow> a = off" by (simp_all add: a_def)
  note t = take_num_zpad [OF hh(1,2)] take_num_zpad [OF mm(1,2)] take_num_zpad_end [OF mm(1,2)]
    opt_num_zpad [OF ss(1,2)] opt_num_zpad_end [OF ss(1,2)] opt_num_zpad_end [OF us(1,2)]
  have io: "iso_offset off =
      (if off < 0 then CHR ''-'' else CHR ''+'') # zpad 2 hh @ CHR '':'' # zpad 2 mm
      @ (if ss = 0 \<and> us = 0 then [] else CHR '':'' # zpad 2 ss)
      @ (if us = 0 then [] else CHR ''.'' # zpad 6 us)"
    by (simp add: iso_offset_def Let_def a_def us_def s_def hh_def mm_def ss_def)
  consider "ss = 0 \<and> us = 0" | "\<not> (ss = 0 \<and> us = 0)" "us = 0" | "us \<noteq> 0" by blast
  then show ?thesis
  proof cases
    case 1
    then show ?thesis using val sign
      by (simp add: io parse_offset_def t opt_num_absent)
  next
    case 2
    then show ?thesis using val sign
      by (simp add: io parse_offset_def t opt_num_absent [of _ "[]"])
  next
    case 3
    then show ?thesis using val sign
      by (simp add: io parse_offset_def t)
  qed
qed

lemma take_char_iso_offset: "take_char CHR ''.'' (iso_offset off) = None"
  using iso_offset_sign [of off] by (auto simp: take_char_def)

lemma parse_offset_tz:
  assumes "case dt_tz dt of None \<Rightarrow> True | Some off \<Rightarrow> \<bar>off\<bar> < day_us"
  shows "parse_offset (case dt_tz dt of None \<Rightarrow> [] | Some off \<Rightarrow> iso_offset off) = Some (dt_tz dt)"
  using assms by (cases "dt_tz dt") (simp add: parse_offset_def, simp add: parse_iso_offset)

lemma opt_num_tz:
  "opt_num CHR ''.'' 6 (case dt_tz dt of None \<Rightarrow> [] | Some off \<Rightarrow> iso_offset off) =
     Some (0, case dt_tz dt of None \<Rightarrow> [] | Some off \<Rightarrow> iso_offset off)"
  by (cases "dt_tz dt") (simp_all add: opt_num_absent take_char_iso_offset)

lemma parse_isoformat:
  assumes "0 \<le> ct_year (iso_fields dt)" "ct_year (iso_fields dt) \<le> 9999"
    and "case dt_tz dt of None \<Rightarrow> True | Some off \<Rightarrow> \<bar>off\<bar> < day_us"
  shows "parse_iso (isoformat dt) = Some (iso_fields dt, dt_tz dt)"
proof -
  define f where "f = iso_fields dt"
  define tz where "tz = (case dt_tz dt of None \<Rightarrow> [] | Some off \<Rightarrow> iso_offset off)"
  have r: "1 \<le> ct_month f \<and> ct_month f \<le> 12 \<and> 1 \<le> ct_day f \<and> ct_day f \<le> 31
      \<and> 0 \<le> ct_hour f \<and> ct_hour f \<le> 23 \<and> 0 \<le> ct_minute f \<and> ct_minute f \<le> 59
      \<and> 0 \<le> ct_second f \<and> ct_second f \<le> 59 \<and> 0 \<le> ct_micro f \<and> ct_micro f \<le> 999999"
    unfolding f_def by (rule iso_fields_ranges)
  have y: "0 \<le> ct_year f" "ct_year f < 10 ^ 4" using assms(1,2) by (simp_all add: f_def)
  have mo: "0 \<le> ct_month f" "ct_month f < 10 ^ 2" using r by simp_all
  have d: "0 \<le> ct_day f" "ct_day f < 10 ^ 2" using r by simp_all
  have h: "0 \<le> ct_hour f" "ct_hour f < 10 ^ 2" using r by simp_all
  have mi: "0 \<le> ct_minute f" "ct_minute f < 10 ^ 2" using r by simp_all
  have se: "0 \<le> ct_second f" "ct_second f < 10 ^ 2" using r by simp_all
  have us: "0 \<le> ct_micro f" "ct_micro f < 10 ^ 6" using r by simp_all
  note t = take_num_zpad [OF y] take_num_zpad [OF mo] take_num_zpad [OF d] take_num_zpad [OF h]
    take_num_zpad [OF mi] take_num_zpad [OF se] opt_num_zpad [OF us]
  have iso: "isoformat dt =
      zpad 4 (ct_year f) @ CHR ''-'' # zpad 2 (ct_month f) @ CHR ''-'' # zpad 2 (ct_day f)
      @ CHR ''T'' # zpad 2 (ct_hour f) @ CHR '':'' # zpad 2 (ct_minute f) @ CHR '':'' # zpad 2 (ct_second f)
      @ (if ct_micro f = 0 then [] else CHR ''.'' # zpad 6 (ct_micro f)) @ tz"
    by (simp add: isoformat_def Let_def f_def tz_def)
  have rec: "\<lparr>ct_year = ct_year f, ct_month = ct_month f, ct_day = ct_day f, ct_hour = ct_hour f,
              ct_minute = ct_minute f, ct_second = ct_second f, ct_micro = ct_micro f\<rparr> = f"
    by (cases f) simp
  have off: "parse_offset tz = Some (dt_tz dt)" unfolding tz_def by (rule parse_offset_tz [OF assms(3)])
  have frac: "opt_num CHR ''.'' 6 tz = Some (0, tz)" unfolding tz_def by (rule opt_num_tz)
  show ?thesis
  proof (cases "ct_micro f = 0")
    case True
    with rec have "\<lparr>ct_year = ct_year f, ct_month = ct_month f, ct_day = ct_day f, ct_hour = ct_hour f,
              ct_minute = ct_minute f, ct_second = ct_second f, ct_micro = 0\<rparr> = f" by simp
    with True show ?thesis unfolding iso by (simp add: parse_iso_def t off frac f_def [symmetric])
  next
    case False
    with rec show ?thesis unfolding iso by (simp add: parse_iso_def t off f_def [symmetric])
  qed
qed

lemma timestamptz_isoformat:
  assumes "dt_tz dt = Some off" "\<bar>off\<bar> < day_us"
    and "0 \<le> ct_year (iso_fields dt)" "ct_year (iso_fields dt) \<le> 9999"
  shows "pg_timestamptz (isoformat dt) = Some (utc_instant dt)"
proof -
  have "parse_iso (isoformat dt) = Some (iso_fields dt, Some off)"
    using parse_isoformat [OF assms(3,4)] assms(1,2) by simp
  then show ?thesis
    by (simp add: pg_timestamptz_def wall_of_iso_fields utc_instant_def assms(1))
qed

end
