(* ===== verification/Startup.thy ===== *)
theory Startup
  imports Store
begin

text \<open>
  What importing \<^verbatim>\<open>src/app/main.py\<close> does before the first request
  (lines 20--64): \<^verbatim>\<open>load_dotenv()\<close>, the FastAPI app with its CORS
  middleware, the Supabase and Groq clients built from environment variables,
  and the table probe of \<open>bootstrap_check\<close>. A client constructor that raises
  aborts the import: the service never starts and nothing is probed. The
  libraries are not code of the repository; their checks are modelled from
  their sources: \<^verbatim>\<open>python-dotenv\<close> (no override of variables already set),
  \<^verbatim>\<open>supabase-py\<close>'s \<^verbatim>\<open>SyncClient.__init__\<close> (URL and key required, the
  URL matched by \<^verbatim>\<open>^(https?)://.+\<close>), the Groq client (an API key required),
  and Starlette's \<^verbatim>\<open>CORSMiddleware\<close>.
\<close>

type_synonym environ = "string \<rightharpoonup> string"

text \<open>\<^verbatim>\<open>load_dotenv()\<close> (line 21): the \<^verbatim>\<open>.env\<close> file fills in the variables the process environment does not set.\<close>

definition load_dotenv :: "environ \<Rightarrow> environ \<Rightarrow> environ" where
  "load_dotenv dotenv penv = dotenv ++ penv"

text \<open>\<^verbatim>\<open>os.getenv(name, default)\<close>.\<close>

definition py_getenv :: "environ \<Rightarrow> string \<Rightarrow> string \<Rightarrow> string" where
  "py_getenv env k d = (case env k of Some v \<Rightarrow> v | None \<Rightarrow> d)"

text \<open>\<^verbatim>\<open>re.match(r"^(https?)://.+", url)\<close>: a scheme, then at least one character other than a newline.\<close>

definition url_ok :: "string \<Rightarrow> bool" where
  "url_ok u =
     list_ex (\<lambda>p. starts_with p u \<and> (case drop (length p) u of c # _ \<Rightarrow> c \<noteq> CHR 0x0A | [] \<Rightarrow> False))
       [''http://'', ''https://'']"

text \<open>\<^verbatim>\<open>create_client(url, key)\<close> (lines 36--39): the checks made before any request.\<close>

definition create_client :: "string \<Rightarrow> string \<Rightarrow> string + unit" where
  "create_client url key =
     (if url = [] then Inl ''supabase_url is required''
      else if key = [] then Inl ''supabase_key is required''
      else if \<not> url_ok url then Inl ''Invalid URL''
      else Inr ())"

text \<open>\<^verbatim>\<open>groq.Groq(api_key=os.getenv("GROQ_API_KEY"))\<close> (line 42): only an unset key is refused.\<close>

definition groq_client :: "string option \<Rightarrow> string + string" where
  "groq_client k =
     (case k of
        None \<Rightarrow> Inl ''The api_key client option must be set either by passing api_key to the client or by setting the GROQ_API_KEY environment variable''
      | Some v \<Rightarrow> Inr v)"

subsection \<open>Cross-origin requests\<close>

text \<open>The arguments of \<^verbatim>\<open>app.add_middleware(CORSMiddleware, ...)\<close>, lines 27--33.\<close>

record cors_config =
  cors_allow_origins :: "string list"
  cors_allow_credentials :: bool
  cors_allow_methods :: "string list"
  cors_allow_headers :: "string list"

definition app_cors :: cors_config where
  "app_cors =
     \<lparr>cors_allow_origins = [''*''], cors_allow_credentials = True,
      cors_allow_methods = [''*''], cors_allow_headers = [''*'']\<rparr>"

text \<open>
  The CORS headers Starlette adds to the response of a (non-preflight) request
  from \<open>origin\<close>: with \<^verbatim>\<open>"*"\<close> among the allowed origins it answers
  \<^verbatim>\<open>*\<close>, or, when the request carries a cookie, the request's own origin;
  otherwise it mirrors an allowed origin.
\<close>

definition cors_simple_headers :: "cors_config \<Rightarrow> string \<Rightarrow> bool \<Rightarrow> (string \<times> string) list" where
  "cors_simple_headers cfg origin has_cookie =
     (let all = ''*'' \<in> set (cors_allow_origins cfg);
          acao = (if all \<and> \<not> has_cookie then [(''Access-Control-Allow-Origin'', ''*'')]
                  else if all \<or> origin \<in> set (cors_allow_origins cfg)
                  then [(''Access-Control-Allow-Origin'', origin), (''Vary'', ''Origin'')]
                  else []);
          acac = (if cors_allow_credentials cfg then [(''Access-Control-Allow-Credentials'', ''true'')] else [])
      in acao @ acac)"

text \<open>
  The browser's CORS check (Fetch standard): a page of \<open>origin\<close> may read the
  response when it allows every origin and the request was made without
  credentials, or when it names that origin, with credentials allowed for a
  request made with them.
\<close>

definition cors_readable :: "(string \<times> string) list \<Rightarrow> string \<Rightarrow> bool \<Rightarrow> bool" where
  "cors_readable hs origin with_credentials =
     (case map_of hs ''Access-Control-Allow-Origin'' of
        None \<Rightarrow> False
      | Some v \<Rightarrow>
          if with_credentials
          then v = origin \<and> map_of hs ''Access-Control-Allow-Credentials'' = Some ''true''
          else v = ''*'' \<or> v = origin)"

subsection \<open>Start-up\<close>

record app_clients =
  app_supabase_url :: string
  app_supabase_key :: string
  app_groq_key :: string
  app_cors_cfg :: cors_config

text \<open>
  Lines 20--64 in order: the environment after \<^verbatim>\<open>load_dotenv\<close>, the two
  clients (the first that raises aborts the import), then the probe and its log.
\<close>

definition startup :: "environ \<Rightarrow> environ \<Rightarrow> store \<Rightarrow> (string + app_clients) \<times> log_line list" where
  "startup dotenv penv st =
     (let env = load_dotenv dotenv penv;
          url = py_getenv env ''SUPABASE_URL'' [];
          key = py_getenv env ''SUPABASE_KEY'' []
      in case create_client url key of
           Inl e \<Rightarrow> (Inl e, [])
         | Inr _ \<Rightarrow>
             (case groq_client (env ''GROQ_API_KEY'') of
                Inl e \<Rightarrow> (Inl e, [])
              | Inr k \<Rightarrow>
                  (Inr \<lparr>app_supabase_url = url, app_supabase_key = key, app_groq_key = k,
                        app_cors_cfg = app_cors\<rparr>,
                   bootstrap_check st)))"

text \<open>An environment with every setting in the \<^verbatim>\<open>.env\<close> file and a process override of the key.\<close>

definition ex_dotenv :: environ where
  "ex_dotenv = [''SUPABASE_URL'' \<mapsto> ''https://abc.supabase.co'', ''SUPABASE_KEY'' \<mapsto> ''file-key'',
                ''GROQ_API_KEY'' \<mapsto> ''gsk_x'']"

definition ex_penv :: environ where
  "ex_penv = [''SUPABASE_KEY'' \<mapsto> ''process-key'']"

declare ex_dotenv_def [model_simps] ex_penv_def [model_simps]

subsection \<open>Lemmas\<close>

lemma url_ok_nonempty: "url_ok u \<Longrightarrow> u \<noteq> []"
  by (auto simp: url_ok_def)

lemma py_getenv_nonempty: "py_getenv env k [] \<noteq> [] \<longleftrightarrow> (\<exists>v. env k = Some v \<and> v \<noteq> [])"
  by (simp add: py_getenv_def split: option.split)

lemma startup_clients:
  "(\<exists>c. fst (startup dotenv penv st) = Inr c) \<longleftrightarrow>
     create_client (py_getenv (dotenv ++ penv) ''SUPABASE_URL'' []) (py_getenv (dotenv ++ penv) ''SUPABASE_KEY'' []) = Inr ()
     \<and> (dotenv ++ penv) ''GROQ_API_KEY'' \<noteq> None"
  by (auto simp: startup_def load_dotenv_def groq_client_def Let_def split: sum.split option.split)

lemma startup_log:
  "snd (startup dotenv penv st) = (if \<exists>c. fst (startup dotenv penv st) = Inr c then bootstrap_check st else [])"
  by (auto simp: startup_def Let_def split: sum.split option.split)

lemma create_client_ok:
  "create_client url key = Inr () \<longleftrightarrow> url_ok url \<and> key \<noteq> []"
  by (auto simp: create_client_def dest: url_ok_nonempty)

lemma three_settings:
  "(((\<exists>u. E a = Some u \<and> P u) \<and> (\<exists>v. E b = Some v \<and> Q v)) \<and> (\<exists>y. E c = Some y)) \<longleftrightarrow>
   (\<exists>u k g. E a = Some u \<and> P u \<and> E b = Some k \<and> Q k \<and> E c = Some g)"
  by blast

lemma url_ok_getenv:
  "url_ok (py_getenv env k []) \<longleftrightarrow> (\<exists>u. env k = Some u \<and> url_ok u)"
  by (auto simp: py_getenv_def url_ok_def split: option.split)

text \<open>The process environment wins over the \<^verbatim>\<open>.env\<close> file.\<close>

lemma startup_example:
  "fst (startup ex_dotenv ex_penv st) =
     Inr \<lparr>app_supabase_url = ''https://abc.supabase.co'', app_supabase_key = ''process-key'',
          app_groq_key = ''gsk_x'', app_cors_cfg = app_cors\<rparr>"
  by (simp add: startup_def load_dotenv_def py_getenv_def create_client_def groq_client_def
                url_ok_def model_simps)

subsection \<open>Properties of start-up\<close>

text \<open>
  C7. Start-up: the service starts exactly when the environment, the process
  environment taking precedence over \<^verbatim>\<open>.env\<close>, sets an \<^verbatim>\<open>http(s)\<close>
  \<^verbatim>\<open>SUPABASE_URL\<close>, a non-empty \<^verbatim>\<open>SUPABASE_KEY\<close> and any
  \<^verbatim>\<open>GROQ_API_KEY\<close>, the empty string included; then it logs the bootstrap
  check of the store, and otherwise it neither probes the store nor logs.
\<close>

theorem startup_requires_config:
  "((\<exists>c. fst (startup dotenv penv st) = Inr c) \<longleftrightarrow>
     (\<exists>u k g. (dotenv ++ penv) ''SUPABASE_URL'' = Some u \<and> url_ok u \<and>
              (dotenv ++ penv) ''SUPABASE_KEY'' = Some k \<and> k \<noteq> [] \<and>
              (dotenv ++ penv) ''GROQ_API_KEY'' = Some g))
   \<and> snd (startup dotenv penv st) =
       (if \<exists>c. fst (startup dotenv penv st) = Inr c then bootstrap_check st else [])"
proof
  show "(\<exists>c. fst (startup dotenv penv st) = Inr c) \<longleftrightarrow>
     (\<exists>u k g. (dotenv ++ penv) ''SUPABASE_URL'' = Some u \<and> url_ok u \<and>
              (dotenv ++ penv) ''SUPABASE_KEY'' = Some k \<and> k \<noteq> [] \<and>
              (dotenv ++ penv) ''GROQ_API_KEY'' = Some g)"
    unfolding startup_clients create_client_ok url_ok_getenv py_getenv_nonempty not_None_eq
    by (rule three_settings)
  show "snd (startup dotenv penv st) =
       (if \<exists>c. fst (startup dotenv penv st) = Inr c then bootstrap_check st else [])"
    by (rule startup_log)
qed

text \<open>
  C14. Any web origin can read the service's responses: with the CORS
  configuration of lines 27--33, a page of any origin passes the browser's
  CORS check for a request made without credentials, and for one made with
  cookies, since the middleware then mirrors the page's origin and allows
  credentials.
\<close>

theorem cors_any_origin_reads:
  "cors_readable (cors_simple_headers app_cors origin False) origin False \<and>
   cors_readable (cors_simple_headers app_cors origin True) origin True"
  by (simp add: cors_readable_def cors_simple_headers_def app_cors_def)

end
