(* ===== verification/Http.thy ===== *)
theory Http
  imports Api Startup Timestamp
begin

text \<open>
  The HTTP layer that FastAPI and Starlette put around the two handlers of
  \<^verbatim>\<open>src/app/main.py\<close>: the router that matches a request's method and
  path against the routes (\<^verbatim>\<open>@app.post("/extract")\<close>, line 171,
  \<^verbatim>\<open>@app.get("/emails")\<close>, line 215, and the documentation routes FastAPI
  adds), the validation of the body of \<^verbatim>\<open>POST /extract\<close> against the
  pydantic model \<^verbatim>\<open>EmailRequest\<close> (lines 66--69), the JSON rendering of
  the dictionaries the handlers return and of the \<^verbatim>\<open>HTTPException\<close> they
  raise, and the CORS preflight the middleware of lines 27--33 answers. The
  frameworks are not code of the repository; their behaviour is modelled from
  their sources (FastAPI with pydantic 2: JSON bodies, errors collected in
  field order; Starlette's \<^verbatim>\<open>Router\<close> with \<^verbatim>\<open>redirect_slashes\<close>).
\<close>

subsection \<open>JSON values\<close>

text \<open>
  A JSON document as \<^verbatim>\<open>json.loads\<close> reads it. Numbers are integers: the
  program writes only counts and keys, and validation treats every number
  alike. An object keeps its members in order, duplicates included.
\<close>

datatype json =
    JNull
  | JBool bool
  | JNum int
  | JStr string
  | JArr "json list"
  | JObj "(string \<times> json) list"

text \<open>A member of a decoded object: \<^verbatim>\<open>json.loads\<close> keeps the last of duplicate keys.\<close>

definition json_member :: "(string \<times> json) list \<Rightarrow> string \<Rightarrow> json option" where
  "json_member kvs k = map_of (rev kvs) k"

subsection \<open>Requests and responses\<close>

text \<open>
  The body FastAPI hands to validation: none (an empty body), text that is not
  JSON (with the position and message of the \<^verbatim>\<open>JSONDecodeError\<close>), or a
  JSON document. Header names are lower case, as the ASGI scope has them.
\<close>

datatype http_body = NoBody | InvalidJson nat string | JsonBody json

record http_request =
  hr_method :: string
  hr_path :: string
  hr_headers :: "(string \<times> string) list"
  hr_body :: http_body

datatype endpoint = EpOpenapi | EpDocs | EpDocsRedirect | EpRedoc | EpExtract | EpEmails

text \<open>
  A response body: JSON, plain text, none, or the page of a documentation
  route, whose content (HTML and the OpenAPI schema) is not modelled. The
  headers are those the model sets: the redirect's \<^verbatim>\<open>location\<close> and the
  CORS headers.
\<close>

datatype resp_body = BodyJson json | BodyText string | BodyEmpty | BodyDocs endpoint

record http_response =
  resp_status :: nat
  resp_headers :: "(string \<times> string) list"
  resp_body :: resp_body

subsection \<open>Validation of \<^verbatim>\<open>EmailRequest\<close> (lines 66--69)\<close>

datatype loc_item = LocKey string | LocIdx nat

text \<open>An entry of pydantic's \<^verbatim>\<open>ValidationError.errors()\<close>, as FastAPI reports it.\<close>

record validation_error =
  ve_type :: string
  ve_loc :: "loc_item list"
  ve_msg :: string
  ve_input :: json
  ve_ctx :: "(string \<times> string) list"

definition missing_error :: "loc_item list \<Rightarrow> json \<Rightarrow> validation_error" where
  "missing_error loc inp =
     \<lparr>ve_type = ''missing'', ve_loc = loc, ve_msg = ''Field required'', ve_input = inp, ve_ctx = []\<rparr>"

text \<open>The errors of two validations, both run, in order; a result only when both succeed.\<close>

definition v_pair :: "validation_error list + 'a \<Rightarrow> validation_error list + 'b \<Rightarrow> validation_error list + 'a \<times> 'b" where
  "v_pair a b =
     (case (a, b) of
        (Inr x, Inr y) \<Rightarrow> Inr (x, y)
      | _ \<Rightarrow> Inl ((case a of Inl es \<Rightarrow> es | Inr _ \<Rightarrow> []) @ (case b of Inl es \<Rightarrow> es | Inr _ \<Rightarrow> [])))"

text \<open>A \<^verbatim>\<open>str\<close> field: from JSON only a string is accepted.\<close>

definition validate_str :: "loc_item list \<Rightarrow> json \<Rightarrow> validation_error list + string" where
  "validate_str loc v =
     (case v of
        JStr s \<Rightarrow> Inr s
      | _ \<Rightarrow> Inl [\<lparr>ve_type = ''string_type'', ve_loc = loc, ve_msg = ''Input should be a valid string'',
                  ve_input = v, ve_ctx = []\<rparr>])"

fun validate_str_items :: "loc_item list \<Rightarrow> nat \<Rightarrow> json list \<Rightarrow> validation_error list + string list" where
  "validate_str_items loc i [] = Inr []"
| "validate_str_items loc i (v # vs) =
     map_sum id (\<lambda>(s, ss). s # ss) (v_pair (validate_str (loc @ [LocIdx i]) v) (validate_str_items loc (Suc i) vs))"

text \<open>A \<^verbatim>\<open>List[str]\<close> field: a JSON array whose items are all strings.\<close>

definition validate_str_list :: "loc_item list \<Rightarrow> json \<Rightarrow> validation_error list + string list" where
  "validate_str_list loc v =
     (case v of
        JArr vs \<Rightarrow> validate_str_items loc 0 vs
      | _ \<Rightarrow> Inl [\<lparr>ve_type = ''list_type'', ve_loc = loc, ve_msg = ''Input should be a valid list'',
                  ve_input = v, ve_ctx = []\<rparr>])"

definition validate_field ::
  "(loc_item list \<Rightarrow> json \<Rightarrow> validation_error list + 'a) \<Rightarrow> (string \<times> json) list \<Rightarrow> string \<Rightarrow> validation_error list + 'a" where
  "validate_field f kvs k =
     (case json_member kvs k of
        None \<Rightarrow> Inl [missing_error [LocKey ''body'', LocKey k] (JObj kvs)]
      | Some v \<Rightarrow> f [LocKey ''body'', LocKey k] v)"

text \<open>
  The body of \<^verbatim>\<open>POST /extract\<close> read as an \<^verbatim>\<open>EmailRequest\<close>: an object
  whose fields \<^verbatim>\<open>email_address\<close>, \<^verbatim>\<open>password\<close> and
  \<^verbatim>\<open>sender_addresses\<close> validate, other members ignored; otherwise every
  error found, in field order.
\<close>

definition validate_email_request :: "http_body \<Rightarrow> validation_error list + email_request" where
  "validate_email_request b =
     (case b of
        NoBody \<Rightarrow> Inl [missing_error [LocKey ''body''] JNull]
      | InvalidJson pos msg \<Rightarrow>
          Inl [\<lparr>ve_type = ''json_invalid'', ve_loc = [LocKey ''body'', LocIdx pos], ve_msg = ''JSON decode error'',
                ve_input = JObj [], ve_ctx = [(''error'', msg)]\<rparr>]
      | JsonBody (JObj kvs) \<Rightarrow>
          map_sum id (\<lambda>(a, p, ss). \<lparr>er_email_address = a, er_password = p, er_sender_addresses = ss\<rparr>)
            (v_pair (validate_field validate_str kvs ''email_address'')
              (v_pair (validate_field validate_str kvs ''password'')
                 (validate_field validate_str_list kvs ''sender_addresses'')))
      | JsonBody v \<Rightarrow>
          Inl [\<lparr>ve_type = ''model_attributes_type'', ve_loc = [LocKey ''body''],
                ve_msg = ''Input should be a valid dictionary or object to extract fields from'',
                ve_input = v, ve_ctx = []\<rparr>])"

text \<open>The body a client sends for a request, the form of the specification's section 6.\<close>

definition email_request_json :: "email_request \<Rightarrow> json" where
  "email_request_json r =
     JObj [(''email_address'', JStr (er_email_address r)), (''password'', JStr (er_password r)),
           (''sender_addresses'', JArr (map JStr (er_sender_addresses r)))]"

subsection \<open>Routing\<close>

record route =
  rt_path :: string
  rt_methods :: "string list"
  rt_endpoint :: endpoint

text \<open>
  The app's routes in the order FastAPI registers them: the documentation
  routes of \<^verbatim>\<open>FastAPI.setup()\<close> (Starlette routes, where \<^verbatim>\<open>GET\<close> brings
  \<^verbatim>\<open>HEAD\<close>), then the two API routes of the decorators, which accept
  exactly the method they name.
\<close>

definition app_routes :: "route list" where
  "app_routes =
     [\<lparr>rt_path = ''/openapi.json'', rt_methods = [''GET'', ''HEAD''], rt_endpoint = EpOpenapi\<rparr>,
      \<lparr>rt_path = ''/docs'', rt_methods = [''GET'', ''HEAD''], rt_endpoint = EpDocs\<rparr>,
      \<lparr>rt_path = ''/docs/oauth2-redirect'', rt_methods = [''GET'', ''HEAD''], rt_endpoint = EpDocsRedirect\<rparr>,
      \<lparr>rt_path = ''/redoc'', rt_methods = [''GET'', ''HEAD''], rt_endpoint = EpRedoc\<rparr>,
      \<lparr>rt_path = ''/extract'', rt_methods = [''POST''], rt_endpoint = EpExtract\<rparr>,
      \<lparr>rt_path = ''/emails'', rt_methods = [''GET''], rt_endpoint = EpEmails\<rparr>]"

datatype route_match = MatchNone | MatchPartial | MatchFull

text \<open>\<^verbatim>\<open>Route.matches\<close>: the path, then the method.\<close>

definition route_matches :: "route \<Rightarrow> string \<Rightarrow> string \<Rightarrow> route_match" where
  "route_matches r m p =
     (if p \<noteq> rt_path r then MatchNone else if m \<in> set (rt_methods r) then MatchFull else MatchPartial)"

datatype route_result = Routed endpoint | MethodNotAllowed | Redirect string | NotFound

text \<open>
  \<^verbatim>\<open>Router.app\<close>: the first route that matches fully handles the request;
  else a route that matches the path answers 405; else, for a path other
  than \<^verbatim>\<open>/\<close>, the path with its trailing slashes stripped (or one added)
  is tried and, when any route matches it, the client is redirected there;
  else 404.
\<close>

definition router :: "string \<Rightarrow> string \<Rightarrow> route_result" where
  "router m p =
     (case find (\<lambda>r. route_matches r m p = MatchFull) app_routes of
        Some r \<Rightarrow> Routed (rt_endpoint r)
      | None \<Rightarrow>
          if list_ex (\<lambda>r. route_matches r m p = MatchPartial) app_routes then MethodNotAllowed
          else
            (let p' = (if p \<noteq> [] \<and> last p = CHR ''/'' then rev (dropWhile (\<lambda>c. c = CHR ''/'') (rev p))
                       else p @ ''/'')
             in if p \<noteq> ''/'' \<and> list_ex (\<lambda>r. route_matches r m p' \<noteq> MatchNone) app_routes
                then Redirect p' else NotFound))"

subsection \<open>Rendering responses\<close>

fun detail_json :: "http_detail \<Rightarrow> json" where
  "detail_json (DetailFetch m e a) = JObj [(''message'', JStr m), (''error'', JStr e), (''email'', JStr a)]"
| "detail_json (DetailText s) = JStr s"

text \<open>FastAPI's handler of \<^verbatim>\<open>HTTPException\<close>: the status, and the detail under the key \<^verbatim>\<open>detail\<close>.\<close>

fun exception_response :: "http_exception \<Rightarrow> http_response" where
  "exception_response (HTTPException s d) =
     \<lparr>resp_status = s, resp_headers = [], resp_body = BodyJson (JObj [(''detail'', detail_json d)])\<rparr>"

definition verr_json :: "validation_error \<Rightarrow> json" where
  "verr_json e =
     JObj ([(''type'', JStr (ve_type e)), (''loc'', JArr (map (\<lambda>l. case l of LocKey k \<Rightarrow> JStr k | LocIdx i \<Rightarrow> JNum (int i)) (ve_loc e))), (''msg'', JStr (ve_msg e)),
            (''input'', ve_input e)]
           @ (if ve_ctx e = [] then [] else [(''ctx'', JObj (map (\<lambda>(k, v). (k, JStr v)) (ve_ctx e)))]))"

text \<open>\<^verbatim>\<open>request_validation_exception_handler\<close>: status 422 and the list of errors.\<close>

definition validation_response :: "validation_error list \<Rightarrow> http_response" where
  "validation_response es =
     \<lparr>resp_status = 422, resp_headers = [], resp_body = BodyJson (JObj [(''detail'', JArr (map verr_json es))])\<rparr>"

text \<open>The dictionaries \<^verbatim>\<open>extract_from_email\<close> returns (lines 185--188 and 202--207).\<close>

fun extract_response_json :: "extract_response \<Rightarrow> json" where
  "extract_response_json (ExtractNone m ss) =
     JObj [(''message'', JStr m), (''senders_processed'', JArr (map JStr ss))]"
| "extract_response_json (ExtractDone m f s ss) =
     JObj [(''message'', JStr m), (''emails_found'', JNum (int f)), (''emails_stored'', JNum (int s)),
           (''senders_processed'', JArr (map JStr ss))]"

text \<open>A row of \<^verbatim>\<open>response.data\<close>: the table's columns in the order of the schema (lines 54--63).\<close>

definition row_json :: "row \<Rightarrow> json" where
  "row_json r =
     (let e = row_email r in
      JObj [(''id'', JNum (int (row_id r))), (''subject'', JStr (ec_subject e)),
            (''from_address'', JStr (ec_from_address e)), (''to_address'', JStr (ec_to_address e)),
            (''date'', JStr (pg_timestamptz_out (utc_instant (ec_date e)))), (''text'', JStr (ec_text e)),
            (''summary'', JStr (ec_summary e)),
            (''extracted_at'', JStr (pg_timestamptz_out (utc_instant (ec_extracted_at e))))])"

text \<open>The dictionaries \<^verbatim>\<open>get_emails\<close> returns (lines 225 and 227--230).\<close>

fun list_response_json :: "list_response \<Rightarrow> json" where
  "list_response_json (ListNone m) = JObj [(''message'', JStr m)]"
| "list_response_json (ListEmails rows n) =
     JObj [(''emails'', JArr (map row_json rows)), (''total_count'', JNum (int n))]"

text \<open>A handler's result as the response FastAPI sends.\<close>

definition render :: "('r \<Rightarrow> json) \<Rightarrow> http_exception + 'r \<Rightarrow> http_response" where
  "render enc res = (case res of Inl exc \<Rightarrow> exception_response exc | Inr r \<Rightarrow> \<lparr>resp_status = 200, resp_headers = [], resp_body = BodyJson (enc r)\<rparr>)"

definition router_response :: "route_result \<Rightarrow> http_response" where
  "router_response rr =
     (case rr of
        Routed ep \<Rightarrow> \<lparr>resp_status = 200, resp_headers = [], resp_body = BodyDocs ep\<rparr>
      | MethodNotAllowed \<Rightarrow> exception_response (HTTPException 405 (DetailText ''Method Not Allowed''))
      | Redirect p \<Rightarrow> \<lparr>resp_status = 307, resp_headers = [(''location'', p)], resp_body = BodyEmpty\<rparr>
      | NotFound \<Rightarrow> exception_response (HTTPException 404 (DetailText ''Not Found'')))"

subsection \<open>CORS around every response\<close>

text \<open>
  \<^verbatim>\<open>CORSMiddleware.__call__\<close> with the app's configuration: a request
  without \<^verbatim>\<open>origin\<close> passes through; an \<^verbatim>\<open>OPTIONS\<close> request naming
  \<^verbatim>\<open>access-control-request-method\<close> is a preflight the middleware answers
  itself; any other response gets the headers of \<open>cors_simple_headers\<close>.
\<close>

definition is_preflight :: "http_request \<Rightarrow> bool" where
  "is_preflight hr \<longleftrightarrow>
     hr_method hr = ''OPTIONS'' \<and> map_of (hr_headers hr) ''origin'' \<noteq> None
     \<and> map_of (hr_headers hr) ''access-control-request-method'' \<noteq> None"

definition with_cors :: "http_request \<Rightarrow> http_response \<Rightarrow> http_response" where
  "with_cors hr resp =
     (case map_of (hr_headers hr) ''origin'' of
        None \<Rightarrow> resp
      | Some origin \<Rightarrow>
          resp\<lparr>resp_headers := resp_headers resp @
                 cors_simple_headers app_cors origin (map_of (hr_headers hr) ''cookie'' \<noteq> None)\<rparr>)"

text \<open>
  \<^verbatim>\<open>CORSMiddleware.preflight_response\<close> for lines 27--33: every origin is
  allowed and mirrored (credentials are allowed), every requested header is
  allowed, and only a method outside Starlette's \<^verbatim>\<open>ALL_METHODS\<close>, for which
  \<^verbatim>\<open>allow_methods=["*"]\<close> stands, is refused.
\<close>

definition app_preflight :: "http_request \<Rightarrow> http_response" where
  "app_preflight hr =
     (let hs = hr_headers hr;
          all_methods = [''DELETE'', ''GET'', ''HEAD'', ''OPTIONS'', ''PATCH'', ''POST'', ''PUT''];
          origin = the (map_of hs ''origin'');
          meth = the (map_of hs ''access-control-request-method'');
          headers = [(''Vary'', ''Origin''), (''Access-Control-Allow-Methods'', py_join '', '' all_methods),
                     (''Access-Control-Max-Age'', ''600''), (''Access-Control-Allow-Credentials'', ''true''),
                     (''Access-Control-Allow-Origin'', origin)]
                    @ (case map_of hs ''access-control-request-headers'' of
                         None \<Rightarrow> [] | Some h \<Rightarrow> [(''Access-Control-Allow-Headers'', h)])
      in if meth \<in> set all_methods
         then \<lparr>resp_status = 200, resp_headers = headers, resp_body = BodyText ''OK''\<rparr>
         else \<lparr>resp_status = 400, resp_headers = headers, resp_body = BodyText ''Disallowed CORS method''\<rparr>)"

text \<open>
  The two calls the specification's section 6 describes, as a client sends
  them: a JSON body for \<^verbatim>\<open>POST /extract\<close>, none for \<^verbatim>\<open>GET /emails\<close>.
\<close>

definition post_extract_request :: "email_request \<Rightarrow> http_request" where
  "post_extract_request r =
     \<lparr>hr_method = ''POST'', hr_path = ''/extract'', hr_headers = [(''content-type'', ''application/json'')],
      hr_body = JsonBody (email_request_json r)\<rparr>"

definition get_emails_request :: http_request where
  "get_emails_request = \<lparr>hr_method = ''GET'', hr_path = ''/emails'', hr_headers = [], hr_body = NoBody\<rparr>"

subsection \<open>Lemmas\<close>

lemma validate_str_items_map_JStr: "validate_str_items loc i (map JStr ss) = Inr ss"
  by (induction ss arbitrary: i) (simp_all add: v_pair_def validate_str_def)

text \<open>The members a client writes are read back as the request.\<close>

lemma validate_request_members:
  "validate_email_request (JsonBody (email_request_json r)) = Inr r"
  by (simp add: validate_email_request_def email_request_json_def validate_field_def json_member_def
                v_pair_def validate_str_def validate_str_list_def validate_str_items_map_JStr)

lemma v_pair_Nil: "v_pair a b = Inl [] \<Longrightarrow> a = Inl [] \<or> b = Inl []"
  by (cases a; cases b) (auto simp: v_pair_def)

lemma map_sum_Inl_iff [simp]: "map_sum f g x = Inl y \<longleftrightarrow> (\<exists>z. x = Inl z \<and> y = f z)"
  by (cases x) auto

lemma validate_str_Nil [simp]: "validate_str loc v \<noteq> Inl []"
  by (simp add: validate_str_def split: json.split)

lemma validate_str_items_Nil [simp]: "validate_str_items loc i vs \<noteq> Inl []"
proof (induction vs arbitrary: i)
  case (Cons v vs)
  then show ?case by (auto dest: v_pair_Nil)
qed simp

lemma validate_str_list_Nil [simp]: "validate_str_list loc v \<noteq> Inl []"
  by (simp add: validate_str_list_def split: json.split)

lemma validate_field_Nil:
  "(\<And>loc v. f loc v \<noteq> Inl []) \<Longrightarrow> validate_field f kvs k \<noteq> Inl []"
  by (simp add: validate_field_def split: option.split)

text \<open>A body that is refused is refused with at least one error.\<close>

lemma validate_errors_nonempty: "validate_email_request b = Inl es \<Longrightarrow> es \<noteq> []"
  by (auto simp: validate_email_request_def validate_field_Nil dest!: v_pair_Nil
           split: http_body.splits json.splits)

lemma map_sum_Inr_iff: "map_sum f g x = Inr y \<longleftrightarrow> (\<exists>z. x = Inr z \<and> y = g z)"
  by (cases x) auto

lemma v_pair_Inr: "v_pair a c = Inr p \<longleftrightarrow> (\<exists>x y. p = (x, y) \<and> a = Inr x \<and> c = Inr y)"
  by (cases a; cases c; cases p) (simp_all add: v_pair_def)

lemma validate_str_Inr: "validate_str loc v = Inr s \<longleftrightarrow> v = JStr s"
  by (simp add: validate_str_def split: json.split)

lemma validate_str_items_Inr: "validate_str_items loc i vs = Inr ss \<longleftrightarrow> vs = map JStr ss"
proof (induction vs arbitrary: i ss)
  case Nil then show ?case by auto
next
  case (Cons v vs)
  then show ?case
    by (auto simp: map_sum_Inr_iff v_pair_Inr validate_str_Inr Cons_eq_map_conv)
qed

lemma router_extract: "router m p = Routed EpExtract \<longleftrightarrow> m = ''POST'' \<and> p = ''/extract''"
  by (auto simp: router_def app_routes_def route_matches_def Let_def split: if_splits)

lemma router_emails: "router m p = Routed EpEmails \<longleftrightarrow> m = ''GET'' \<and> p = ''/emails''"
  by (auto simp: router_def app_routes_def route_matches_def Let_def split: if_splits)

text \<open>
  What the router answers besides the two API routes: a wrong method on an API
  path is 405 (\<^verbatim>\<open>HEAD\<close> included, as FastAPI's API routes accept only the
  method they name), a trailing slash is redirected, any other path is 404.
\<close>

lemma router_outcomes:
  "router ''GET'' ''/extract'' = MethodNotAllowed"
  "router ''HEAD'' ''/emails'' = MethodNotAllowed"
  "router ''POST'' ''/extract/'' = Redirect ''/extract''"
  "router ''GET'' ''/emails//'' = Redirect ''/emails''"
  "router ''GET'' ''/'' = NotFound"
  "router ''GET'' ''/email'' = NotFound"
  by (simp_all add: router_def app_routes_def route_matches_def)

lemma not_preflight: "hr_method hr \<noteq> ''OPTIONS'' \<Longrightarrow> \<not> is_preflight hr"
  by (simp add: is_preflight_def)

lemma with_cors_no_origin: "map_of (hr_headers hr) ''origin'' = None \<Longrightarrow> with_cors hr resp = resp"
  by (simp add: with_cors_def)


text \<open>
  C26. Validation of \<^verbatim>\<open>EmailRequest\<close>: a body is accepted as the request
  \<open>r\<close> exactly when it is a JSON object whose members \<^verbatim>\<open>email_address\<close>
  and \<^verbatim>\<open>password\<close> (the last of each, when repeated) are the strings of
  \<open>r\<close> and whose member \<^verbatim>\<open>sender_addresses\<close> is the array of its
  sender strings; other members are ignored.
\<close>

theorem validate_accepts_iff:
  "validate_email_request b = Inr r \<longleftrightarrow>
     (\<exists>kvs. b = JsonBody (JObj kvs) \<and>
        json_member kvs ''email_address'' = Some (JStr (er_email_address r)) \<and>
        json_member kvs ''password'' = Some (JStr (er_password r)) \<and>
        json_member kvs ''sender_addresses'' = Some (JArr (map JStr (er_sender_addresses r))))"
proof -
  have lst: "validate_str_list loc v = Inr ss \<longleftrightarrow> v = JArr (map JStr ss)" for loc v ss
    by (simp add: validate_str_list_def validate_str_items_Inr split: json.split)
  have fld: "validate_field f kvs k = Inr x \<longleftrightarrow> (\<exists>v. json_member kvs k = Some v \<and> f [LocKey ''body'', LocKey k] v = Inr x)"
    for f :: "loc_item list \<Rightarrow> json \<Rightarrow> validation_error list + 'a" and kvs k x
    by (simp add: validate_field_def split: option.split)
  show ?thesis
    by (cases r) (auto simp: validate_email_request_def map_sum_Inr_iff v_pair_Inr fld validate_str_Inr lst
                       split: http_body.splits json.splits)
qed

end
