(* ===== verification/Spec2Isabelle.thy ===== *)
theory Spec2Isabelle
  imports Api Timestamp Startup Http
begin

text \<open>
  \<^bold>\<open>A verification model of \<^verbatim>\<open>email-to-summary-automation\<close>.\<close>

  The program is one file, \<^verbatim>\<open>src/app/main.py\<close>: a FastAPI service with two
  endpoints. \<^verbatim>\<open>POST /extract\<close> (\<^verbatim>\<open>extract_from_email\<close>) opens one IMAP
  session with \<^verbatim>\<open>imap_tools\<close>, searches the inbox for each sender with a
  date-only \<^verbatim>\<open>SINCE\<close>, keeps the messages of the last 24 hours, builds a
  record for each, asks the Groq chat service for a summary of each
  (\<^verbatim>\<open>summarize_single_email\<close>) and inserts the records one by one into the
  Supabase table \<^verbatim>\<open>emails\<close>. \<^verbatim>\<open>GET /emails\<close> (\<^verbatim>\<open>get_emails\<close>)
  lists the table, latest date first. At start-up the code probes the table and
  logs the schema to create when the probe fails.

  \<^bold>\<open>Theories.\<close>
  \<^item> \<open>Prelude\<close>: the \<^verbatim>\<open>HTTPException\<close> type and its \<^verbatim>\<open>str()\<close>, the
    log record type, the Python string operations
    the code uses (\<^verbatim>\<open>sep.join\<close>, \<^verbatim>\<open>a or b\<close>, decimal printing), the
    case-insensitive substring test of IMAP \<^verbatim>\<open>SEARCH FROM\<close>, shared lemmas.
  \<^item> \<open>DateTime\<close>: the part of \<^verbatim>\<open>datetime\<close>/\<^verbatim>\<open>pytz\<close> the code calls
    (\<^verbatim>\<open>now(utc)\<close>, \<^verbatim>\<open>- timedelta(days=1)\<close>, \<^verbatim>\<open>.date()\<close>,
    \<^verbatim>\<open>.replace(tzinfo=utc)\<close>, \<^verbatim>\<open>>=\<close>), on microsecond Python ints.
  \<^item> \<open>Calendar\<close>: \<^verbatim>\<open>.isoformat()\<close> (line 140) through the fields it prints
    (\<open>iso_fields\<close>: \<open>civil_from_days\<close>, the era algorithm of the proleptic
    Gregorian calendar, and the time of day), and the inverse reading
    (\<open>days_from_civil\<close>, \<open>wall_of_fields\<close>) that the
    \<^verbatim>\<open>timestamp with time zone\<close> columns perform on the stored string.
  \<^item> \<open>Timestamp\<close>: the database's reading of the stored strings, modelled from
    the PostgreSQL documentation: \<open>parse_iso\<close> for the ISO 8601 form
    \<^verbatim>\<open>isoformat\<close> prints, and \<open>pg_timestamptz\<close>, the instant a
    \<^verbatim>\<open>timestamptz\<close> column stores for it.
  \<^item> \<open>Summarizer\<close>: the extracted record (\<open>email_content\<close>, extended by the
    summary to \<open>email_record\<close>), the chat request the code builds
    (\<open>email_text\<close>, \<open>summary_request\<close>) and \<open>summarize_single_email\<close>
    (lines 71--101), with the service as a parameter \<open>llm\<close>.
  \<^item> \<open>Imap\<close>: the IMAP collaborator, modelled from the specification:
    connect, login, \<^verbatim>\<open>SEARCH\<close>, messages, and the protocol events.
  \<^item> \<open>Extractor\<close>: \<open>extract_emails_from_inbox\<close> (lines 103--169) as state
    passing over \<open>ext_state\<close> (the list \<^verbatim>\<open>email_data\<close>, the IMAP
    events issued, the clock readings taken): \<open>process_msg\<close> is one iteration
    of the message loop with its \<^verbatim>\<open>try/except\<close>, \<open>process_msgs\<close> and
    \<open>process_senders\<close> the two loops, \<open>fetch_error\<close> the outer
    \<^verbatim>\<open>except\<close>. \<open>extract_spec\<close> is the abstract specification: a filter over
    the concatenated search results, stamped with clock readings.
  \<^item> \<open>Store\<close>: the Supabase table, modelled from the logged schema: rows with
    identity ids, reachability, a missing table, transient insert failures
    (numbered insert attempts), \<open>table_insert\<close>, \<open>table_select_desc\<close>,
    \<open>table_probe\<close> and the start-up \<open>bootstrap_check\<close> (lines 45--64).
  \<^item> \<open>Api\<close>: \<open>extract_from_email\<close> (lines 171--213) with the insert loop
    \<open>store_emails\<close>, and \<open>get_emails\<close> (lines 215--234).
  \<^item> \<open>Startup\<close>: the module's initialisation (lines 20--64) as \<open>startup\<close>:
    \<open>load_dotenv\<close> (the process environment over \<^verbatim>\<open>.env\<close>),
    \<^verbatim>\<open>os.getenv\<close> with the code's defaults, the checks of
    \<open>create_client\<close> and \<open>groq_client\<close> (the import aborts on the first that
    raises), the CORS middleware's arguments \<open>app_cors\<close> with the headers
    Starlette derives from them and the browser's check, and then
    \<open>bootstrap_check\<close>.
  \<^item> \<open>Http\<close>: what FastAPI and Starlette build around the handlers, modelled
    from their sources: JSON values (\<open>json\<close>), the router over the app's
    routes (\<open>app_routes\<close>, \<open>router\<close>: 404, 405, the trailing-slash 307
    redirect), pydantic's validation of \<^verbatim>\<open>EmailRequest\<close> (lines 66--69,
    \<open>validate_email_request\<close>, errors collected in field order), the JSON
    rendering of the returned dicts and of \<^verbatim>\<open>HTTPException\<close>
    (\<open>render\<close>, \<open>exception_response\<close>, \<open>validation_response\<close>, rows
    as PostgREST serves them with \<open>pg_timestamptz_out\<close> of \<open>Timestamp\<close>),
    and the CORS middleware's response headers and preflight
    (\<open>with_cors\<close>, \<open>app_preflight\<close>).
  \<^item> this theory: the routes as \<open>handle_request_logged\<close> (and its projection
    \<open>handle_request\<close>), sequences of requests with the process log
    (\<open>serve_logged\<close>, projected to \<open>serve_all\<close>) and the reachable store
    states (\<open>store_reachable\<close>); and the whole application,
    \<open>app_dispatch_logged\<close>: the CORS middleware, the router, body validation
    for \<^verbatim>\<open>POST /extract\<close> (\<open>serve_route\<close>, after the method check, as
    FastAPI validates inside the route), the handler and the exception handlers.

  \<^bold>\<open>How the world is modelled.\<close> Everything outside the repository is an
  explicit value: an \<open>env\<close> per request (the IMAP server, the chat service as a
  function from request to exception text or response, and the clock as the
  sequence of readings \<^verbatim>\<open>datetime.now\<close> returns) and a \<open>store\<close> threaded
  from request to request. Python exceptions are \<open>Inl\<close> values; every
  \<^verbatim>\<open>try/except\<close> of the code is a case split in the model. Logging is
  an output of the model: every \<^verbatim>\<open>logger.info\<close>, \<^verbatim>\<open>warning\<close> and
  \<^verbatim>\<open>error\<close> call is a \<open>log_line\<close> with the text its f-string builds; the
  \<^verbatim>\<open>logger.debug\<close> calls are dropped, as \<^verbatim>\<open>basicConfig(level=INFO)\<close>
  (line 18) drops them. A function with logger calls is modelled as a
  \<open>_logged\<close> definition returning its lines (\<open>summarize_logged\<close>,
  \<open>store_emails_logged\<close>, \<open>extract_from_email_logged\<close>,
  \<open>get_emails_logged\<close>), or, in the extractor, as the \<open>es_log\<close> field of
  its state; the function of the code is the projection on its result. All loops run
  over finite lists, so every function is total by structural recursion: no fuel
  and no partial function is needed, and the code has no retry or unbounded
  loop. The only recursion that is not structural, \<open>dec\<close> (decimal printing,
  on \<open>n div 10\<close>), has its termination proof by a measure.

  \<^bold>\<open>What is proved.\<close> Every claim is stated over the definitions that
  translate the code (the extractor, the summarizer, the handlers, start-up and
  the application), so that changing the translated lines breaks it; facts
  that hold of the library models alone (the calendar, the database's reading
  of timestamps, the identity column) are kept as lemmas that these proofs use.
  \<^item> Extraction refines its specification (C1); every record is recent (C2)
    and comes from a matching, parseable inbox message with its fields copied,
    the plain/HTML fallback, and its own summary (C3); conversely every recent,
    parseable, matching message that arrived no earlier than its header's day
    is extracted, so the code's date-only search loses nothing (C21); a message
    that fails to parse changes nothing (C15); a logged-in session always ends
    with one \<^verbatim>\<open>LOGOUT\<close> (C16); summaries never decide what is extracted
    (C20).
  \<^item> The summarizer returns the sentinel on every failure (C4) and the first
    choice otherwise (C5); two bodies give the same request exactly when their
    first 2000 characters agree (C6).
  \<^item> The bootstrap advises the schema exactly when the probe fails (C8).
  \<^item> The endpoints: counts are bounded (C9); the insert loop stores exactly
    the records whose own insert succeeds (C10); the "nothing found" and the
    error shapes (C11, C12); the listing is a date-descending permutation of
    the table (C13); after a fully stored extraction the listing holds exactly
    the old and the new rows (C22); the sentinel is stored as is (C23); every
    stored timestamp is an aware UTC value printed with \<^verbatim>\<open>+00:00\<close> (C28,
    over all reachable stores).
  \<^item> Findings, proved as behaviour of the code: \<^verbatim>\<open>replace(tzinfo=utc)\<close>
    shifts the 24-hour window of the message loop by the sender's UTC offset
    (C18); a failed login leaves the opened connection without
    \<^verbatim>\<open>LOGOUT\<close> (C17); repeated or overlapping senders produce duplicate
    records in one request (C19); the window has no upper bound, so a message
    dated in the future is recorded (C29).
  \<^item> Start-up: the service starts exactly when the environment sets an
    \<^verbatim>\<open>http(s)\<close> Supabase URL, a non-empty key and any Groq key, and only
    then probes the store and logs (C7); the CORS configuration lets a page of
    any origin read every response (C14, a finding).
  \<^item> The log: the password never reaches it, nor anything else that a request
    sequence produces, beyond whether the server accepts it (C24, a
    noninterference theorem over any sequence of requests); extraction's log
    names the mailbox first and ends with the error it raises or the count it
    returns (C25); a recent message that fails to parse is logged and skipped,
    and a failing summary call is logged (lemmas \<open>faulty_message_logged\<close>,
    \<open>summarize_logs_failure\<close>); the insert loop logs one line per
    record, the error of each failed insert included (lemma
    \<open>store_emails_log\<close>).
  \<^item> Over HTTP: the validator accepts exactly the objects whose members are
    the request's strings (C26); the failure body of \<^verbatim>\<open>POST /extract\<close>
    nests the detail under \<^verbatim>\<open>detail\<close> (C27, and the lemma
    \<open>emails_error_response\<close> for \<^verbatim>\<open>GET /emails\<close>), where the
    specification shows it at top level (a finding); a body that is not an
    \<^verbatim>\<open>EmailRequest\<close> is answered 422 before the handler runs (lemma
    \<open>invalid_body_rejected\<close>, a finding: the specification lists no such
    response).
  \<^item> Lemmas on the library models the claims rest on: the fields
    \<^verbatim>\<open>isoformat\<close> prints read back to the wall-clock time held, for every
    instant, and lie in their ranges (\<open>wall_of_iso_fields\<close>,
    \<open>iso_fields_ranges\<close>, by a decomposition of the 400-year era); the string
    reads back to its fields and offset and the database reads it as the held
    instant (\<open>parse_isoformat\<close>, \<open>timestamptz_isoformat\<close>); inserts keep
    the identity keys well formed (\<open>store_wf_table_insert\<close>).

  \<^bold>\<open>Not modelled.\<close> The imports (lines 1--16), which only bind names; the
  content of FastAPI's documentation pages (\<^verbatim>\<open>/docs\<close>,
  \<^verbatim>\<open>/redoc\<close>, \<^verbatim>\<open>/openapi.json\<close>: routed, their bodies opaque); a
  body sent with a non-JSON content type, JSON floats (numbers are integers,
  which validation treats alike), the \<^verbatim>\<open>Allow\<close> header of a 405 (a Python
  set's order) and the host part of a redirect's \<^verbatim>\<open>location\<close>; pydantic 1,
  which would coerce numbers to strings; the key-format check some
  \<^verbatim>\<open>supabase-py\<close> versions make; MIME parsing of messages (a message that fails to
  parse is a message with \<open>msg_fault\<close>); the internals of the chat service and
  the database. Strings are lists of \<open>char\<close>, so \<^verbatim>\<open>[:2000]\<close> counts
  characters of that type rather than Unicode code points. The record keeps
  \<^verbatim>\<open>date\<close> as a datetime; the code stores its \<^verbatim>\<open>isoformat()\<close> string,
  which the database parses back: the lemmas \<open>parse_isoformat\<close> and
  \<open>timestamptz_isoformat\<close> show the string reads back to the held instant, so the datetime is a faithful stand-in for the string.
  Python's year range (1..9999) and the \<^verbatim>\<open>OverflowError\<close> of datetime
  arithmetic at its ends are not modelled.

  \<^bold>\<open>Plan.\<close> Modelled so far, in this order: the extractor and its
  specification, the summarizer, the store, the endpoints, the request sequence;
  then the calendar of \<^verbatim>\<open>isoformat\<close> and its round trip; then the log of
  every function and the password's noninterference with it; then the
  database's reading of the stored timestamps; then the module's start-up;
  then the HTTP layer and the whole application; then every claim restated
  over the code's definitions rather than the models of the libraries. With the HTTP layer every line of the file but the imports is
  modelled. Left open: per-request clock monotonicity, giving
  \<^verbatim>\<open>extracted_at\<close> after the cutoff.
\<close>

section \<open>The server: requests over the store\<close>

datatype request = PostExtract email_request | GetEmails

datatype response =
    RespExtract "http_exception + extract_response"
  | RespList "http_exception + list_response"

text \<open>
  The FastAPI routes \<^verbatim>\<open>@app.post("/extract")\<close> and \<^verbatim>\<open>@app.get("/emails")\<close>,
  with the lines the handler logs.
\<close>

definition handle_request_logged :: "env \<Rightarrow> store \<Rightarrow> request \<Rightarrow> (response \<times> store) \<times> log_line list" where
  "handle_request_logged env st rq =
     (case rq of
        PostExtract r \<Rightarrow>
          (case extract_from_email_logged env st r of ((res, st'), l) \<Rightarrow> ((RespExtract res, st'), l))
      | GetEmails \<Rightarrow> (case get_emails_logged st of (res, l) \<Rightarrow> ((RespList res, st), l)))"

definition handle_request :: "env \<Rightarrow> store \<Rightarrow> request \<Rightarrow> response \<times> store" where
  "handle_request env st rq = fst (handle_request_logged env st rq)"

text \<open>
  Requests served one after the other, each in the world of its own moment; the
  process log is the concatenation of the requests' logs.
\<close>

fun serve_logged :: "store \<Rightarrow> (env \<times> request) list \<Rightarrow> (response list \<times> store) \<times> log_line list" where
  "serve_logged st [] = (([], st), [])"
| "serve_logged st ((env, rq) # rqs) =
     (let ((resp, st'), l) = handle_request_logged env st rq;
          ((resps, st''), l') = serve_logged st' rqs
      in ((resp # resps, st''), l @ l'))"

definition serve_all :: "store \<Rightarrow> (env \<times> request) list \<Rightarrow> response list \<times> store" where
  "serve_all st rqs = fst (serve_logged st rqs)"

text \<open>
  Two requests that differ at most in the password, and whose passwords the
  server accepts or refuses alike.
\<close>

definition same_but_password :: "env \<Rightarrow> request \<Rightarrow> request \<Rightarrow> bool" where
  "same_but_password env r1 r2 =
     (case (r1, r2) of
        (PostExtract a, PostExtract b) \<Rightarrow>
          er_email_address a = er_email_address b \<and> er_sender_addresses a = er_sender_addresses b \<and>
          imap_login (env_server env) (er_email_address a) (er_password a) =
          imap_login (env_server env) (er_email_address b) (er_password b)
      | (GetEmails, GetEmails) \<Rightarrow> True
      | _ \<Rightarrow> False)"

text \<open>
  The store states the deployment can reach: a fresh table, a served request,
  or a change of the environment (an outage, a recovery, the table being created,
  a different set of failing inserts) that leaves the rows alone.
\<close>

inductive store_reachable :: "store \<Rightarrow> bool" where
  fresh: "st_rows st = [] \<Longrightarrow> store_reachable st"
| request: "store_reachable st \<Longrightarrow> store_reachable (snd (handle_request env st rq))"
| environment: "store_reachable st \<Longrightarrow>
     store_reachable (st\<lparr>st_up := u, st_table_exists := x, st_insert_faults := fs\<rparr>)"

definition ex_down_env :: env where
  "ex_down_env = ex_env\<lparr>env_llm := (\<lambda>_. Inl ''Service Unavailable'')\<rparr>"

definition ex_fresh_store :: store where
  "ex_fresh_store = ex_store\<lparr>st_rows := []\<rparr>"

declare ex_down_env_def [model_simps] ex_fresh_store_def [model_simps]

section \<open>The service over HTTP\<close>

text \<open>A handler's response as FastAPI sends it: the returned dictionary with status 200, or the exception's.\<close>

definition http_of_response :: "response \<Rightarrow> http_response" where
  "http_of_response r =
     (case r of
        RespExtract res \<Rightarrow> render extract_response_json res
      | RespList res \<Rightarrow> render list_response_json res)"

text \<open>
  What the router's outcome leads to: for \<^verbatim>\<open>POST /extract\<close> the body is
  validated first (FastAPI does so inside the route, so a wrong method is
  answered before the body is looked at), then the handler runs; the other
  outcomes are answered by the framework alone.
\<close>

fun serve_route :: "env \<Rightarrow> store \<Rightarrow> http_request \<Rightarrow> route_result \<Rightarrow> (http_response \<times> store) \<times> log_line list" where
  "serve_route env st hr (Routed EpExtract) =
     (case validate_email_request (hr_body hr) of
        Inl es \<Rightarrow> ((validation_response es, st), [])
      | Inr req \<Rightarrow>
          (case handle_request_logged env st (PostExtract req) of ((r, st'), l) \<Rightarrow> ((http_of_response r, st'), l)))"
| "serve_route env st hr (Routed EpEmails) =
     (case handle_request_logged env st GetEmails of ((r, st'), l) \<Rightarrow> ((http_of_response r, st'), l))"
| "serve_route env st hr rr = ((router_response rr, st), [])"

text \<open>
  One HTTP request through the whole application: the CORS middleware (which
  answers a preflight itself), the router, validation, the handler and the
  exception handlers; with the lines the handler logs.
\<close>

definition app_dispatch_logged :: "env \<Rightarrow> store \<Rightarrow> http_request \<Rightarrow> (http_response \<times> store) \<times> log_line list" where
  "app_dispatch_logged env st hr =
     (if is_preflight hr then ((app_preflight hr, st), [])
      else (case serve_route env st hr (router (hr_method hr) (hr_path hr)) of
              ((resp, st'), l) \<Rightarrow> ((with_cors hr resp, st'), l)))"

definition app_dispatch :: "env \<Rightarrow> store \<Rightarrow> http_request \<Rightarrow> http_response \<times> store" where
  "app_dispatch env st hr = fst (app_dispatch_logged env st hr)"

subsection \<open>Lemmas\<close>

lemma handle_request_eq:
  "handle_request env st rq =
     (case rq of
        PostExtract r \<Rightarrow> (case extract_from_email env st r of (res, st') \<Rightarrow> (RespExtract res, st'))
      | GetEmails \<Rightarrow> (RespList (get_emails st), st))"
  by (simp add: handle_request_def handle_request_logged_def extract_from_email_def get_emails_def
           split: request.split prod.split)

lemma router_post_extract [simp]: "router ''POST'' ''/extract'' = Routed EpExtract"
  by (simp add: router_extract)

lemma router_get_emails [simp]: "router ''GET'' ''/emails'' = Routed EpEmails"
  by (simp add: router_emails)

declare serve_route.simps [simp del]

lemma serve_route_extract:
  "fst (serve_route env st hr (Routed EpExtract)) =
     (case validate_email_request (hr_body hr) of
        Inl es \<Rightarrow> (validation_response es, st)
      | Inr req \<Rightarrow> apfst http_of_response (handle_request env st (PostExtract req)))"
  by (simp add: serve_route.simps handle_request_def split: sum.split prod.split)

lemma serve_route_emails:
  "fst (serve_route env st hr (Routed EpEmails)) = apfst http_of_response (handle_request env st GetEmails)"
  by (simp add: serve_route.simps handle_request_def split: prod.split)

lemma serve_route_other:
  "rr \<noteq> Routed EpExtract \<Longrightarrow> rr \<noteq> Routed EpEmails \<Longrightarrow> serve_route env st hr rr = ((router_response rr, st), [])"
  by (cases "(env, st, hr, rr)" rule: serve_route.cases) (auto simp: serve_route.simps)

lemma app_dispatch_serve:
  "\<not> is_preflight hr \<Longrightarrow>
     app_dispatch env st hr = apfst (with_cors hr) (fst (serve_route env st hr (router (hr_method hr) (hr_path hr))))"
  by (simp add: app_dispatch_def app_dispatch_logged_def split: prod.split)

lemma serve_all_Nil [simp]: "serve_all st [] = ([], st)"
  by (simp add: serve_all_def)

lemma serve_all_Cons [simp]:
  "serve_all st ((env, rq) # rqs) =
     (let (resp, st') = handle_request env st rq;
          (resps, st'') = serve_all st' rqs
      in (resp # resps, st''))"
  by (simp add: serve_all_def handle_request_def case_prod_beta)

lemma handle_request_password:
  assumes "same_but_password env r1 r2"
  shows "handle_request_logged env st r1 = handle_request_logged env st r2"
proof (cases r1)
  case (PostExtract a)
  with assms obtain b where r2: "r2 = PostExtract b"
    by (cases r2) (simp_all add: same_but_password_def)
  with PostExtract assms have "extract_from_email_logged env st a = extract_from_email_logged env st b"
    by (intro extract_from_email_password) (auto simp: same_but_password_def)
  with PostExtract r2 show ?thesis by (simp add: handle_request_logged_def)
next
  case GetEmails
  with assms have "r2 = GetEmails" by (cases r2) (simp_all add: same_but_password_def)
  with GetEmails show ?thesis by simp
qed

lemma snd_handle_request:
  "snd (handle_request env st rq) =
     (case rq of PostExtract r \<Rightarrow> snd (extract_from_email env st r) | GetEmails \<Rightarrow> st)"
  by (simp add: handle_request_eq split: request.splits prod.splits)

lemma set_stored_part: "set (stored_part st es) \<subseteq> set es"
  by (auto simp: stored_part_def dest: set_zip_rightD)

lemma extract_done_facts:
  assumes "fst (extract_emails_from_inbox env (er_email_address req) (er_password req)
                 (er_sender_addresses req)) = Inr recs"
    and "extract_from_email env st req = (Inr (ExtractDone msg f n ss), st')"
  shows "f = length recs \<and> n = length (stored_part st recs)
         \<and> map row_email (st_rows st') = map row_email (st_rows st) @ stored_part st recs"
proof -
  from assms have "recs \<noteq> []" by (auto simp: extract_from_email_cases)
  with assms have eqs: "f = length recs" "n = fst (store_emails st recs 0)"
      "st' = snd (store_emails st recs 0)"
    by (auto simp: extract_from_email_cases simp del: store_emails_Cons split: list.splits)
  have "store_emails st recs 0 = (fst (store_emails st recs 0), snd (store_emails st recs 0))"
    by simp
  from store_emails_effect [OF this] eqs show ?thesis by simp
qed

lemma get_emails_list:
  "get_emails st = Inr (ListEmails rows k) \<Longrightarrow> table_select_desc st = Inr rows \<and> k = length rows"
  by (auto simp: get_emails_eq split: sum.splits list.splits)

lemma handle_request_new_rows:
  assumes "r \<in> set (st_rows (snd (handle_request env st rq)))"
  shows "r \<in> set (st_rows st) \<or>
         (\<exists>req recs. rq = PostExtract req \<and>
            fst (extract_emails_from_inbox env (er_email_address req) (er_password req)
                   (er_sender_addresses req)) = Inr recs \<and> row_email r \<in> set recs)"
proof (cases rq)
  case GetEmails
  with assms show ?thesis by (simp add: snd_handle_request)
next
  case (PostExtract req)
  show ?thesis
  proof (cases "fst (extract_emails_from_inbox env (er_email_address req) (er_password req)
                  (er_sender_addresses req))")
    case (Inl exc)
    with assms PostExtract show ?thesis by (simp add: snd_handle_request extract_from_email_cases)
  next
    case (Inr recs)
    let ?st' = "snd (store_emails st recs 0)"
    have st': "snd (handle_request env st rq) = ?st'"
      using Inr PostExtract
      by (cases recs) (simp_all add: snd_handle_request extract_from_email_cases del: store_emails_Cons)
    obtain zs where zs: "st_rows ?st' = st_rows st @ zs" using store_emails_rows_prefix by blast
    have "store_emails st recs 0 = (fst (store_emails st recs 0), ?st')" by simp
    from store_emails_effect [OF this] zs have "map row_email zs = stored_part st recs" by simp
    then have "row_email ` set zs \<subseteq> set recs" using set_stored_part
      by (metis list.set_map)
    with assms st' zs have "r \<in> set (st_rows st) \<or> row_email r \<in> set recs" by auto
    then show ?thesis
    proof
      assume "r \<in> set (st_rows st)"
      then show ?thesis ..
    next
      assume "row_email r \<in> set recs"
      with Inr PostExtract show ?thesis by blast
    qed
  qed
qed

lemma reachable_rows_utc:
  "store_reachable st \<Longrightarrow> r \<in> set (st_rows st) \<Longrightarrow>
     dt_tz (ec_date (row_email r)) = Some 0 \<and> dt_tz (ec_extracted_at (row_email r)) = Some 0"
proof (induction arbitrary: r rule: store_reachable.induct)
  case (fresh st)
  then show ?case by simp
next
  case (request st env rq)
  from handle_request_new_rows [OF request.prems] show ?case
  proof
    assume "r \<in> set (st_rows st)"
    then show ?thesis by (rule request.IH)
  next
    assume "\<exists>req recs. rq = PostExtract req \<and>
              fst (extract_emails_from_inbox env (er_email_address req) (er_password req)
                     (er_sender_addresses req)) = Inr recs \<and> row_email r \<in> set recs"
    then show ?thesis using extract_records_utc by blast
  qed
next
  case (environment st u x fs)
  then show ?case by simp
qed

lemma isoformat_utc:
  assumes "dt_tz d = Some 0"
  shows "\<exists>p. isoformat d = p @ ''+00:00''"
  unfolding isoformat_def Let_def assms option.case iso_offset_utc append_assoc [symmetric]
  by (rule exI) (rule refl)

lemma extract_record_summary:
  assumes "fst (extract_emails_from_inbox env addr pw senders) = Inr recs" and "r \<in> set recs"
  shows "ec_summary r = summarize_single_email (env_llm env) r"
proof -
  from extract_ok [OF assms(1)] assms(2) obtain m i where "r = record_of env m (env_clock env i)"
    using stamp_accepted_elem by blast
  then show ?thesis by (simp add: ec_summary_record_of)
qed

subsection \<open>Properties of the server\<close>

text \<open>
  C22. End to end: when every insert of a \<^verbatim>\<open>POST /extract\<close> succeeds
  (\<^verbatim>\<open>emails_stored = emails_found\<close>), a following \<^verbatim>\<open>GET /emails\<close> lists
  exactly the rows there were before and the extracted records, and counts
  them.
\<close>

theorem post_then_get:
  assumes "fst (extract_emails_from_inbox env (er_email_address req) (er_password req)
                 (er_sender_addresses req)) = Inr recs"
    and "extract_from_email env st req = (Inr (ExtractDone msg f n ss), st')"
    and "n = f"
    and "get_emails st' = Inr (ListEmails rows k)"
  shows "mset (map row_email rows) = mset (map row_email (st_rows st)) + mset recs
         \<and> k = length (st_rows st) + length recs"
proof -
  from extract_done_facts [OF assms(1,2)] assms(3)
  have added: "map row_email (st_rows st') = map row_email (st_rows st) @ recs"
    by (auto simp: stored_part_all)
  from get_emails_list [OF assms(4)] have sel: "table_select_desc st' = Inr rows" and k: "k = length rows"
    by auto
  from table_select_desc_Inr [OF sel] have "mset rows = mset (st_rows st')" by simp
  then have "mset (map row_email rows) = mset (map row_email (st_rows st'))"
    by (simp add: mset_map)
  moreover have "length rows = length (st_rows st')"
    using \<open>mset rows = mset (st_rows st')\<close> by (metis size_mset)
  ultimately show ?thesis
    using added k by (metis length_append length_map mset_append)
qed

theorem post_then_get_witness:
  "case get_emails (snd (extract_from_email ex_env ex_store ex_request)) of
     Inr (ListEmails rows k) \<Rightarrow>
       mset (map row_email rows) = mset (map row_email (st_rows ex_store)) + mset [record_of ex_env ex_msg (ex_now + 1)]
       \<and> k = 2
   | _ \<Rightarrow> False"
proof -
  let ?st' = "snd (extract_from_email ex_env ex_store ex_request)"
  have ext: "fst (extract_emails_from_inbox ex_env (er_email_address ex_request) (er_password ex_request)
                (er_sender_addresses ex_request)) = Inr [record_of ex_env ex_msg (ex_now + 1)]"
    using ex_extract by (simp add: model_simps)
  have post: "extract_from_email ex_env ex_store ex_request =
      (Inr (ExtractDone ''Emails extracted and stored successfully'' 1 1 [''a@x.com'']), ?st')"
    by code_simp
  have get: "get_emails ?st' = Inr (ListEmails (sort_key (\<lambda>r. - row_instant r) (st_rows ?st')) 2)"
    by code_simp
  from post_then_get [OF ext post _ get] get show ?thesis by simp
qed

text \<open>
  C23. The sentinel is stored as is: when the chat service fails on every
  request, every row a \<^verbatim>\<open>POST /extract\<close> adds to the table has the summary
  \<^verbatim>\<open>Failed to generate summary\<close>.
\<close>

theorem sentinel_summaries_stored:
  assumes "\<forall>q. \<exists>err. env_llm env q = Inl err"
    and "extract_from_email env st req = (Inr resp, st')"
  shows "\<forall>r \<in> set (drop (length (st_rows st)) (st_rows st')). ec_summary (row_email r) = failure_sentinel"
proof (cases "fst (extract_emails_from_inbox env (er_email_address req) (er_password req)
                      (er_sender_addresses req))")
  case (Inl exc)
  with assms(2) show ?thesis by (simp add: extract_from_email_cases)
next
  case (Inr recs)
  show ?thesis
  proof (cases resp)
    case (ExtractNone msg ss)
    with Inr assms(2) have "st' = st" by (auto simp: extract_from_email_cases split: list.splits)
    then show ?thesis by simp
  next
    case (ExtractDone msg f n ss)
    with extract_done_facts [OF Inr] assms(2)
    have "map row_email (st_rows st') = map row_email (st_rows st) @ stored_part st recs" by blast
    then have "map row_email (drop (length (st_rows st)) (st_rows st')) = stored_part st recs"
      by (metis append_eq_conv_conj drop_map length_map)
    then have added: "row_email r \<in> set recs"
      if "r \<in> set (drop (length (st_rows st)) (st_rows st'))" for r
      using that set_stored_part by (metis image_eqI set_map subsetD)
    have "ec_summary e = failure_sentinel" if "e \<in> set recs" for e
    proof -
      from assms(1) obtain err where "env_llm env (summary_request e) = Inl err" by blast
      with extract_record_summary [OF Inr that] show ?thesis
        by (simp add: summarize_single_email_eq)
    qed
    with added show ?thesis by blast
  qed
qed

theorem sentinel_summaries_stored_witness:
  "map (\<lambda>r. ec_summary (row_email r)) (drop 1 (st_rows (snd (extract_from_email ex_down_env ex_store ex_request))))
     = [failure_sentinel]"
proof -
  let ?st' = "snd (extract_from_email ex_down_env ex_store ex_request)"
  have post: "extract_from_email ex_down_env ex_store ex_request =
      (Inr (ExtractDone ''Emails extracted and stored successfully'' 1 1 [''a@x.com'']), ?st')"
    by code_simp
  have one: "length (drop 1 (st_rows ?st')) = 1" by code_simp
  have "length (st_rows ex_store) = 1" by (simp add: model_simps)
  with sentinel_summaries_stored [OF _ post]
  have all: "\<forall>r \<in> set (drop 1 (st_rows ?st')). ec_summary (row_email r) = failure_sentinel"
    by (simp add: model_simps)
  from one obtain x where "drop 1 (st_rows ?st') = [x]" by (metis One_nat_def length_0_conv length_Suc_conv)
  with all show ?thesis by simp
qed

text \<open>
  C24. Noninterference of the password (specification, section 3: the password
  never appears in the logs): two sequences of requests that differ only in
  the passwords, each accepted or refused by the server alike, give the same
  responses, the same store and the same log, line for line.
\<close>

theorem serve_password_noninterference:
  assumes "list_all2 (\<lambda>(e1, r1) (e2, r2). e1 = e2 \<and> same_but_password e1 r1 r2) rqs1 rqs2"
  shows "serve_logged st rqs1 = serve_logged st rqs2"
  using assms
proof (induction rqs1 arbitrary: rqs2 st)
  case Nil
  then show ?case by simp
next
  case (Cons q1 rqs1)
  from Cons.prems obtain q2 rqs2' where r2: "rqs2 = q2 # rqs2'"
    and q: "(case (q1, q2) of ((e1, r1), (e2, r2)) \<Rightarrow> e1 = e2 \<and> same_but_password e1 r1 r2)"
    and rest: "list_all2 (\<lambda>(e1, r1) (e2, r2). e1 = e2 \<and> same_but_password e1 r1 r2) rqs1 rqs2'"
    by (cases rqs2) auto
  obtain env r1 where q1: "q1 = (env, r1)" by (cases q1)
  obtain r2' where q2: "q2 = (env, r2')" and sb: "same_but_password env r1 r2'"
    using q unfolding q1 by (cases q2) auto
  show ?case
    unfolding r2 q1 q2 serve_logged.simps handle_request_password [OF sb]
    using Cons.IH [OF rest] by (simp split: prod.split)
qed

theorem serve_password_noninterference_witness:
  "serve_logged ex_store [(ex_env, PostExtract (ex_request\<lparr>er_password := ''guess1''\<rparr>))] =
   serve_logged ex_store [(ex_env, PostExtract (ex_request\<lparr>er_password := ''guess2''\<rparr>))]"
  by (rule serve_password_noninterference)
     (simp add: same_but_password_def model_simps imap_login_def)

text \<open>
  C28. Type of the stored timestamps: in every reachable store, each row's
  \<^verbatim>\<open>date\<close> and \<^verbatim>\<open>extracted_at\<close> are timezone-aware UTC datetimes, and the
  strings sent for them end with the explicit offset \<^verbatim>\<open>+00:00\<close>, so that the
  \<^verbatim>\<open>timestamp with time zone\<close> columns never read them in the server's local
  time zone.
\<close>

theorem stored_timestamps_utc:
  assumes "store_reachable st" and "r \<in> set (st_rows st)"
  shows "dt_tz (ec_date (row_email r)) = Some 0 \<and> dt_tz (ec_extracted_at (row_email r)) = Some 0
         \<and> (\<exists>p. isoformat (ec_date (row_email r)) = p @ ''+00:00'')
         \<and> (\<exists>p. isoformat (ec_extracted_at (row_email r)) = p @ ''+00:00'')"
  using reachable_rows_utc [OF assms] isoformat_utc by blast

theorem stored_timestamps_utc_witness:
  "dt_tz (ec_date (row_email (hd (st_rows (snd (handle_request ex_env ex_fresh_store (PostExtract ex_request))))))) = Some 0
   \<and> dt_tz (ec_extracted_at (row_email (hd (st_rows (snd (handle_request ex_env ex_fresh_store (PostExtract ex_request))))))) = Some 0
   \<and> (\<exists>p. isoformat (ec_date (row_email (hd (st_rows (snd (handle_request ex_env ex_fresh_store (PostExtract ex_request))))))) = p @ ''+00:00'')
   \<and> (\<exists>p. isoformat (ec_extracted_at (row_email (hd (st_rows (snd (handle_request ex_env ex_fresh_store (PostExtract ex_request))))))) = p @ ''+00:00'')"
proof -
  let ?st = "snd (handle_request ex_env ex_fresh_store (PostExtract ex_request))"
  have "store_reachable ex_fresh_store"
    by (rule store_reachable.fresh) (simp add: model_simps)
  then have reach: "store_reachable ?st" by (rule store_reachable.request)
  have "st_rows ?st \<noteq> []" by code_simp
  then have "hd (st_rows ?st) \<in> set (st_rows ?st)" by (rule hd_in_set)
  with reach show ?thesis by (rule stored_timestamps_utc)
qed


subsection \<open>Properties of the service over HTTP\<close>

text \<open>
  Request validation: a \<^verbatim>\<open>POST /extract\<close> whose body is not a valid
  \<^verbatim>\<open>EmailRequest\<close> is answered 422 with the validation errors, at least
  one, and never reaches the handler: the store is unchanged and nothing is
  logged, so the mailbox is not contacted.
\<close>

lemma invalid_body_rejected:
  assumes "hr_method hr = ''POST''" and "hr_path hr = ''/extract''"
    and "validate_email_request (hr_body hr) = Inl es"
  shows "app_dispatch_logged env st hr =
           ((with_cors hr \<lparr>resp_status = 422, resp_headers = [],
                            resp_body = BodyJson (JObj [(''detail'', JArr (map verr_json es))])\<rparr>, st), [])
         \<and> es \<noteq> []"
  using assms
  by (simp add: app_dispatch_logged_def not_preflight validate_errors_nonempty serve_route.simps
                validation_response_def)

text \<open>
  C27. The failure body of \<^verbatim>\<open>POST /extract\<close>: when the mailbox session of a
  client's request fails, the response has status 500 and the JSON body
  \<^verbatim>\<open>{"detail": {"message": "Failed to fetch emails", "error": e, "email": address}}\<close>:
  the structured detail is nested under \<^verbatim>\<open>detail\<close>, not the top-level
  \<^verbatim>\<open>{message, error, email}\<close> of the specification's section 6.
\<close>

theorem mailbox_error_response:
  assumes "fst (extract_emails_from_inbox env (er_email_address req) (er_password req)
                 (er_sender_addresses req)) = Inl exc"
  shows "\<exists>e. fst (app_dispatch env st (post_extract_request req)) =
           \<lparr>resp_status = 500, resp_headers = [],
            resp_body = BodyJson (JObj [(''detail'', JObj [(''message'', JStr ''Failed to fetch emails''),
                                         (''error'', JStr e), (''email'', JStr (er_email_address req))])])\<rparr>"
proof -
  obtain e where exc: "exc = fetch_error e (er_email_address req)" using extract_Inl [OF assms] by blast
  let ?hr = "post_extract_request req"
  have np: "\<not> is_preflight ?hr" and rt: "router (hr_method ?hr) (hr_path ?hr) = Routed EpExtract"
    and v: "validate_email_request (hr_body ?hr) = Inr req" and o: "map_of (hr_headers ?hr) ''origin'' = None"
    by (simp_all add: post_extract_request_def is_preflight_def validate_request_members)
  have "fst (app_dispatch env st ?hr) = exception_response exc"
    using assms
    by (simp add: app_dispatch_serve [OF np] rt serve_route_extract v with_cors_no_origin [OF o]
                  handle_request_eq extract_from_email_cases http_of_response_def render_def)
  then show ?thesis by (simp add: exc fetch_error_def)
qed

theorem mailbox_error_response_witness:
  "\<exists>e. fst (app_dispatch ex_env ex_store (post_extract_request (ex_request\<lparr>er_password := ''wrong''\<rparr>))) =
      \<lparr>resp_status = 500, resp_headers = [],
       resp_body = BodyJson (JObj [(''detail'', JObj [(''message'', JStr ''Failed to fetch emails''),
                                    (''error'', JStr e), (''email'', JStr ''me@gmail.com'')])])\<rparr>"
proof -
  have "fst (extract_emails_from_inbox ex_env ''me@gmail.com'' ''wrong'' [''a@x.com'']) =
          Inl (fetch_error ''[AUTHENTICATIONFAILED] Invalid credentials (Failure)'' ''me@gmail.com'')"
    by code_simp
  then show ?thesis
    using mailbox_error_response [of ex_env "ex_request\<lparr>er_password := ''wrong''\<rparr>"]
    by (simp add: model_simps)
qed


text \<open>
  The failure body of \<^verbatim>\<open>GET /emails\<close> is the JSON object
  \<^verbatim>\<open>{"detail": text}\<close>, not the plain error text of the specification's
  section 6.
\<close>

lemma emails_error_response:
  assumes "table_select_desc st = Inl err"
  shows "fst (app_dispatch env st get_emails_request) =
           \<lparr>resp_status = 500, resp_headers = [], resp_body = BodyJson (JObj [(''detail'', JStr err)])\<rparr>"
proof -
  have np: "\<not> is_preflight get_emails_request" and o: "map_of (hr_headers get_emails_request) ''origin'' = None"
    and rt: "router (hr_method get_emails_request) (hr_path get_emails_request) = Routed EpEmails"
    by (simp_all add: get_emails_request_def is_preflight_def)
  show ?thesis
    using assms
    by (simp add: app_dispatch_serve [OF np] with_cors_no_origin [OF o] rt serve_route_emails handle_request_eq
                  get_emails_def get_emails_logged_def http_of_response_def render_def)
qed

end
